theory Spec2Isabelle
  imports Main "HOL-Library.Sublist" "HOL-Library.Word"
begin

section \<open>Go strings\<close>

text \<open>
  A Go string is a sequence of bytes; \<open>string\<close> (a list of \<open>char\<close>) models it.
  The functions of package \<open>strings\<close> that the provider calls are written out below.
\<close>

fun hasPrefix :: "string \<Rightarrow> string \<Rightarrow> bool" where
  "hasPrefix s [] = True"
| "hasPrefix [] (p # ps) = False"
| "hasPrefix (c # cs) (p # ps) = (c = p \<and> hasPrefix cs ps)"

text \<open>\<open>strings.HasSuffix(s, suffix)\<close>: the last \<open>len(suffix)\<close> bytes of \<open>s\<close> are \<open>suffix\<close>.\<close>

definition strings_HasSuffix :: "string \<Rightarrow> string \<Rightarrow> bool" where
  "strings_HasSuffix s suf =
     (length suf \<le> length s \<and> drop (length s - length suf) s = suf)"

text \<open>\<open>strings.Index(s, substr)\<close>: the first position where \<open>substr\<close> starts, if any.\<close>

fun indexOf :: "string \<Rightarrow> string \<Rightarrow> nat option" where
  "indexOf [] sub = (if sub = [] then Some 0 else None)"
| "indexOf (c # cs) sub =
     (if hasPrefix (c # cs) sub then Some 0
      else map_option Suc (indexOf cs sub))"

definition strings_Contains :: "string \<Rightarrow> string \<Rightarrow> bool" where
  "strings_Contains s sub = (indexOf s sub \<noteq> None)"

text \<open>
  \<open>strings.Split(s, sep)\<close> for a non-empty separator: the pieces of \<open>s\<close> between the
  occurrences of \<open>sep\<close>, found from left to right. The second argument of \<open>splitFrom\<close>
  is the piece collected so far, in reverse.
\<close>

function splitFrom :: "string \<Rightarrow> string \<Rightarrow> string \<Rightarrow> string list" where
  "splitFrom sep acc [] = [rev acc]"
| "splitFrom sep acc (c # cs) =
     (if sep \<noteq> [] \<and> hasPrefix (c # cs) sep
      then rev acc # splitFrom sep [] (drop (length sep - 1) cs)
      else splitFrom sep (c # acc) cs)"
  by pat_completeness auto
termination
  by (relation "measure (\<lambda>(sep, acc, s). length s)") auto

text \<open>With an empty separator Go splits after every character.\<close>

definition strings_Split :: "string \<Rightarrow> string \<Rightarrow> string list" where
  "strings_Split s sep = (if sep = [] then map (\<lambda>c. [c]) s else splitFrom sep [] s)"

text \<open>\<open>strings.Join(elems, sep)\<close>.\<close>

fun strings_Join :: "string list \<Rightarrow> string \<Rightarrow> string" where
  "strings_Join [] sep = []"
| "strings_Join [x] sep = x"
| "strings_Join (x # y # ys) sep = x @ sep @ strings_Join (y # ys) sep"

section \<open>Host name of an instance\<close>

text \<open>
  \<open>parseHostnameFromFQDN\<close> returns a string and an error. Indexing the slice
  \<open>p[0]\<close> panics on an empty slice; the model returns \<open>None\<close> there, and
  \<open>Some (hostname, err)\<close> when the function returns.
\<close>

definition parseHostnameFromFQDN :: "string \<Rightarrow> (string \<times> string option) option" where
  "parseHostnameFromFQDN fqdn =
     (if \<not> strings_Contains fqdn ''.'' then Some (fqdn @ ''.'', None)
      else if strings_HasSuffix fqdn ''.auto.internal'' then Some ([], None)
      else if strings_HasSuffix fqdn ''.internal'' then
        (case strings_Split fqdn ''.'' of
           [] \<Rightarrow> None
         | p0 # _ \<Rightarrow> Some (p0, None))
      else Some (fqdn, None))"

section \<open>Configuration values and resource data\<close>

text \<open>
  A Go \<open>error\<close> is modelled by its message. Values the schema framework hands to the
  provider (\<open>interface{}\<close>) are strings, booleans, integers, lists and string-keyed maps;
  a \<open>*schema.Set\<close> is represented by the list its \<open>List()\<close> method returns.
\<close>

type_synonym error = string

datatype tfvalue =
    VNil
  | VString string
  | VBool bool
  | VInt int
  | VList "tfvalue list"
  | VObj "(string \<times> tfvalue) list"

text \<open>
  The type assertions \<open>v.(string)\<close>, \<open>v.(bool)\<close>, \<open>v.([]interface{})\<close>: the schema fixes
  the type of every attribute, so an assertion on an attribute cannot fail; on a value
  of another shape the model returns the zero value.
\<close>

fun asString :: "tfvalue \<Rightarrow> string" where
  "asString (VString s) = s"
| "asString _ = []"

fun asBool :: "tfvalue \<Rightarrow> bool" where
  "asBool (VBool b) = b"
| "asBool _ = False"

fun asInt :: "tfvalue \<Rightarrow> int" where
  "asInt (VInt i) = i"
| "asInt _ = 0"

fun asList :: "tfvalue \<Rightarrow> tfvalue list" where
  "asList (VList xs) = xs"
| "asList _ = []"

text \<open>Indexing a \<open>map[string]interface{}\<close>: a missing key gives \<open>nil\<close>.\<close>

fun field :: "tfvalue \<Rightarrow> string \<Rightarrow> tfvalue" where
  "field (VObj kvs) k = (case map_of kvs k of Some v \<Rightarrow> v | None \<Rightarrow> VNil)"
| "field _ k = VNil"

text \<open>
  \<open>schema.ResourceData\<close>. During one call of a resource function the prior state and
  the planned values do not change: \<open>GetChange\<close> and \<open>HasChange\<close> read \<open>rd_old\<close> and
  \<open>rd_new\<close>. \<open>Get\<close> reads \<open>rd_attrs\<close>, which \<open>Set\<close> writes; \<open>SetId\<close> writes \<open>rd_Id\<close>.
\<close>

record ResourceData =
  rd_Id :: string
  rd_partial :: bool
  rd_attrs :: "string \<Rightarrow> tfvalue"
  rd_old :: "string \<Rightarrow> tfvalue"
  rd_new :: "string \<Rightarrow> tfvalue"

definition d_Get :: "ResourceData \<Rightarrow> string \<Rightarrow> tfvalue" where
  "d_Get d k = rd_attrs d k"

definition d_GetChange :: "ResourceData \<Rightarrow> string \<Rightarrow> tfvalue \<times> tfvalue" where
  "d_GetChange d k = (rd_old d k, rd_new d k)"

definition d_HasChange :: "ResourceData \<Rightarrow> string \<Rightarrow> bool" where
  "d_HasChange d k = (case d_GetChange d k of (old, new) \<Rightarrow> new \<noteq> old)"

text \<open>\<open>GetOk\<close>: the value, and whether it differs from the zero value of its type.\<close>

fun isZero :: "tfvalue \<Rightarrow> bool" where
  "isZero VNil = True"
| "isZero (VString s) = (s = [])"
| "isZero (VBool b) = (\<not> b)"
| "isZero (VInt i) = (i = 0)"
| "isZero (VList xs) = (xs = [])"
| "isZero (VObj kvs) = (kvs = [])"

definition d_GetOk :: "ResourceData \<Rightarrow> string \<Rightarrow> tfvalue \<times> bool" where
  "d_GetOk d k = (d_Get d k, \<not> isZero (d_Get d k))"

section \<open>Messages of the cloud API\<close>

text \<open>
  Messages that only helpers outside this development build or read are kept opaque
  (\<open>msg\<close>); a \<open>nil\<close> pointer or map is \<open>None\<close>. Messages whose fields the provider
  code reads or writes are records of those fields.
\<close>

type_synonym msg = string

record DnsRecordSpec =
  drs_Fqdn :: string
  drs_DnsZoneId :: string
  drs_Ttl :: "64 word"
  drs_Ptr :: bool

record OneToOneNatSpec =
  nat_Address :: string
  nat_DnsRecordSpecs :: "DnsRecordSpec list"

record PrimaryAddressSpec =
  pas_Address :: string
  pas_OneToOneNatSpec :: "OneToOneNatSpec option"
  pas_DnsRecordSpecs :: "DnsRecordSpec list"

record NetworkInterfaceSpec =
  nis_SubnetId :: string
  nis_PrimaryV4AddressSpec :: "PrimaryAddressSpec option"
  nis_SecurityGroupIds :: "string list"

record NetworkInterface =
  ni_Index :: string

record AttachedDisk =
  ad_DiskId :: string
  ad_rest :: msg

record AttachedDiskSpec =
  ads_DiskId :: string
  ads_rest :: msg

record AttachedFilesystem =
  af_FilesystemId :: string

record AttachedFilesystemSpec =
  afs_FilesystemId :: string
  afs_rest :: msg

datatype Instance_Status =
    STATUS_UNSPECIFIED | PROVISIONING | RUNNING | STOPPING | STOPPED | STARTING
  | RESTARTING | UPDATING | ERROR | CRASHED | DELETING

datatype MaintenancePolicy = MAINTENANCE_POLICY_UNSPECIFIED | RESTART | MIGRATE

record Instance =
  inst_FolderId :: string
  inst_CreatedAt :: msg
  inst_Name :: string
  inst_Description :: string
  inst_Labels :: "(string \<times> string) list"
  inst_ZoneId :: string
  inst_PlatformId :: string
  inst_Status :: Instance_Status
  inst_Metadata :: "(string \<times> string) list"
  inst_Fqdn :: string
  inst_ServiceAccountId :: string
  inst_NetworkSettingsType :: "string option"
  inst_GpuClusterId :: "string option"
  inst_MaintenancePolicy :: MaintenancePolicy
  inst_MaintenanceGracePeriod :: "msg option"
  inst_NetworkInterfaces :: "NetworkInterface list"
  inst_SecondaryDisks :: "AttachedDisk list"
  inst_Filesystems :: "AttachedFilesystem list"
  inst_rest :: msg

datatype InstanceView = BASIC | FULL

record GetInstanceRequest =
  gir_InstanceId :: string
  gir_View :: InstanceView

record PlacementPolicy =
  pp_PlacementGroupId :: string
  pp_HostAffinityRules :: "msg option"
  pp_PlacementGroupPartition :: "64 word"

record UpdateInstanceRequest =
  uir_InstanceId :: string
  uir_UpdateMask :: "string list"
  uir_Name :: string
  uir_Description :: string
  uir_Labels :: "msg option"
  uir_ResourcesSpec :: "msg option"
  uir_PlatformId :: string
  uir_ServiceAccountId :: string
  uir_Metadata :: "msg option"
  uir_MetadataOptions :: "msg option"
  uir_NetworkSettings :: "msg option"
  uir_PlacementPolicy :: "PlacementPolicy option"
  uir_SchedulingPolicy :: "msg option"
  uir_MaintenancePolicy :: MaintenancePolicy
  uir_MaintenanceGracePeriod :: "msg option"

record CreateInstanceRequest =
  cir_FolderId :: string
  cir_Hostname :: string
  cir_Name :: string
  cir_Description :: string
  cir_PlatformId :: string
  cir_ServiceAccountId :: string
  cir_ZoneId :: string
  cir_Labels :: "msg option"
  cir_Metadata :: "msg option"
  cir_ResourcesSpec :: "msg option"
  cir_BootDiskSpec :: "msg option"
  cir_SecondaryDiskSpecs :: "msg option"
  cir_NetworkSettings :: "msg option"
  cir_NetworkInterfaceSpecs :: "msg option"
  cir_SchedulingPolicy :: "msg option"
  cir_PlacementPolicy :: "msg option"
  cir_LocalDiskSpecs :: "msg option"
  cir_MetadataOptions :: "msg option"
  cir_FilesystemSpecs :: "msg option"
  cir_GpuSettings :: "msg option"
  cir_MaintenancePolicy :: MaintenancePolicy
  cir_MaintenanceGracePeriod :: "msg option"

record MoveInstanceRequest =
  mir_InstanceId :: string
  mir_DestinationFolderId :: string

record UpdateInstanceNetworkInterfaceRequest =
  unr_InstanceId :: string
  unr_NetworkInterfaceIndex :: string
  unr_UpdateMask :: "string list"
  unr_SubnetId :: string
  unr_PrimaryV4AddressSpec :: "PrimaryAddressSpec option"
  unr_PrimaryV6AddressSpec :: "PrimaryAddressSpec option"
  unr_SecurityGroupIds :: "string list"

record AddInstanceOneToOneNatRequest =
  anr_InstanceId :: string
  anr_NetworkInterfaceIndex :: string
  anr_OneToOneNatSpec :: "OneToOneNatSpec option"

record RemoveInstanceOneToOneNatRequest =
  rnr_InstanceId :: string
  rnr_NetworkInterfaceIndex :: string

record AttachInstanceNetworkInterfaceRequest =
  air_InstanceId :: string
  air_NetworkInterfaceIndex :: string
  air_PrimaryV4AddressSpec :: "PrimaryAddressSpec option"
  air_SecurityGroupIds :: "string list"
  air_SubnetId :: string

record DetachInstanceNetworkInterfaceRequest =
  dir_InstanceId :: string
  dir_NetworkInterfaceIndex :: string

record DetachInstanceDiskRequest =
  ddr_InstanceId :: string
  ddr_DiskId :: string

record AttachInstanceDiskRequest =
  adr_InstanceId :: string
  adr_AttachedDiskSpec :: AttachedDiskSpec

record DetachInstanceFilesystemRequest =
  dfr_InstanceId :: string
  dfr_FilesystemId :: string

record AttachInstanceFilesystemRequest =
  afr_InstanceId :: string
  afr_AttachedFilesystemSpec :: AttachedFilesystemSpec

text \<open>The Advanced Rate Limiter profile service.\<close>

record AdvancedRateLimiterProfile =
  arl_Id :: string
  arl_FolderId :: string
  arl_CloudId :: string
  arl_Labels :: "(string \<times> string) list"
  arl_Name :: string
  arl_Description :: string
  arl_AdvancedRateLimiterRules :: "msg option"
  arl_CreatedAt :: msg

record CreateAdvancedRateLimiterProfileRequest =
  carl_FolderId :: string
  carl_Labels :: "msg option"
  carl_Name :: string
  carl_Description :: string
  carl_AdvancedRateLimiterRules :: "msg option"

record UpdateAdvancedRateLimiterProfileRequest =
  uarl_AdvancedRateLimiterProfileId :: string
  uarl_UpdateMask :: "string list"
  uarl_Labels :: "msg option"
  uarl_Name :: string
  uarl_Description :: string
  uarl_AdvancedRateLimiterRules :: "msg option"

text \<open>Every remote procedure the two resource modules call, with its request.\<close>

datatype rpc =
    InstanceGet GetInstanceRequest
  | InstanceCreate CreateInstanceRequest
  | InstanceUpdate UpdateInstanceRequest
  | InstanceDelete string
  | InstanceMove MoveInstanceRequest
  | InstanceStop string
  | InstanceStart string
  | InstanceUpdateNetworkInterface UpdateInstanceNetworkInterfaceRequest
  | InstanceAddOneToOneNat AddInstanceOneToOneNatRequest
  | InstanceRemoveOneToOneNat RemoveInstanceOneToOneNatRequest
  | InstanceAttachNetworkInterface AttachInstanceNetworkInterfaceRequest
  | InstanceDetachNetworkInterface DetachInstanceNetworkInterfaceRequest
  | InstanceDetachDisk DetachInstanceDiskRequest
  | InstanceAttachDisk AttachInstanceDiskRequest
  | InstanceDetachFilesystem DetachInstanceFilesystemRequest
  | InstanceAttachFilesystem AttachInstanceFilesystemRequest
  | ProfileGet string
  | ProfileCreate CreateAdvancedRateLimiterProfileRequest
  | ProfileUpdate UpdateAdvancedRateLimiterProfileRequest
  | ProfileDelete string

text \<open>
  The SDK's long-running operation: what \<open>op.Metadata()\<close>, \<open>op.Wait(ctx)\<close> and
  \<open>op.Response()\<close> return for it.
\<close>

datatype op_metadata =
    CreateInstanceMetadata string
  | CreateAdvancedRateLimiterProfileMetadata string
  | OtherMetadata

record operation =
  op_Metadata :: "error + op_metadata"
  op_Wait :: "error option"
  op_Response :: "error option"

text \<open>
  What the provider did to the remote side, in order: \<open>Called r e\<close> is the call of
  \<open>r\<close> (with the error it returned, if any), \<open>Waited r e\<close> is \<open>op.Wait\<close> on the operation
  that \<open>r\<close> returned.
\<close>

datatype event = Called rpc "error option" | Waited rpc "error option"

section \<open>The environment of a resource function\<close>

text \<open>
  The type \<open>instanceAction\<close> is declared in another file of the provider. The model has
  the two constants the code here names and one more, for any other value of the type.
\<close>

datatype instanceAction = instanceActionStop | instanceActionStart | instanceActionOther

text \<open>
  Everything a resource function gets from outside this development:
  \<^item> the remote API: what a call returns is a function of the request and of everything
    the provider did before (\<open>api_operation\<close> for the calls that start an operation,
    \<open>api_instance\<close> and \<open>api_profile\<close> for the two \<open>Get\<close> calls);
  \<^item> \<open>handleNotFoundError(err, d, name)\<close>: the error it returns, and the id it gives
    to \<open>d.SetId\<close> when it calls that (it does nothing else to \<open>d\<close>);
  \<^item> \<open>set_error\<close>: the error \<open>d.Set(key, value)\<close> reports, if the framework refuses the value;
  \<^item> the provider's expand and flatten helpers defined in other files, by name:
    \<open>expand_d\<close> and \<open>expand_v\<close> for those that may fail (called on \<open>d\<close>, or on a value),
    \<open>build_d\<close> and \<open>build_v\<close> for those that cannot, \<open>string_d\<close> for those returning a
    string, \<open>flatten_i\<close> and \<open>flat_i\<close> for those reading an instance; the helpers whose
    result the code here inspects have a field of their own.
\<close>

record env =
  api_operation :: "event list \<Rightarrow> rpc \<Rightarrow> error + operation"
  api_instance :: "event list \<Rightarrow> GetInstanceRequest \<Rightarrow> error + Instance"
  api_profile :: "event list \<Rightarrow> string \<Rightarrow> error + AdvancedRateLimiterProfile"
  handleNotFoundError :: "error \<Rightarrow> string \<Rightarrow> error option \<times> string option"
  set_error :: "string \<Rightarrow> tfvalue \<Rightarrow> error option"
  expand_d :: "string \<Rightarrow> ResourceData \<Rightarrow> error + msg option"
  expand_v :: "string \<Rightarrow> tfvalue \<Rightarrow> error + msg option"
  build_d :: "string \<Rightarrow> ResourceData \<Rightarrow> msg option"
  build_v :: "string \<Rightarrow> tfvalue \<Rightarrow> msg option"
  string_d :: "string \<Rightarrow> ResourceData \<Rightarrow> error + string"
  flatten_i :: "string \<Rightarrow> Instance \<Rightarrow> error + tfvalue"
  flat_i :: "string \<Rightarrow> Instance \<Rightarrow> tfvalue"
  expandPrimaryV4AddressSpec :: "tfvalue \<Rightarrow> error + PrimaryAddressSpec option"
  expandPrimaryV6AddressSpec :: "tfvalue \<Rightarrow> error + PrimaryAddressSpec option"
  expandSecurityGroupIds :: "tfvalue \<Rightarrow> string list"
  expandNetworkInterfaceSpec :: "tfvalue \<Rightarrow> error + NetworkInterfaceSpec"
  expandSecondaryDiskSpec :: "tfvalue \<Rightarrow> error + AttachedDiskSpec"
  diskSpecChanged :: "AttachedDisk \<Rightarrow> AttachedDiskSpec \<Rightarrow> bool"
  expandFilesystemSpec :: "tfvalue \<Rightarrow> error + AttachedFilesystemSpec"
  hashstructure_Hash :: "AttachedFilesystemSpec \<Rightarrow> error + 64 word"
  flattenRuleSlice :: "msg option \<Rightarrow> error + tfvalue"
  getTimestamp :: "msg \<Rightarrow> string"
  formatDuration :: "msg option \<Rightarrow> string"
  instanceAction_String :: "instanceAction \<Rightarrow> string"

section \<open>Resource functions as programs\<close>

text \<open>
  A resource function reads and writes \<open>d\<close>, talks to the remote API and returns an
  error or a value. A program takes the events so far and \<open>d\<close>, and returns its result
  (\<open>Inl\<close> the error), the new \<open>d\<close> and the events it added. \<open>branch m onErr onOk\<close>
  runs \<open>m\<close> and goes on with \<open>onErr\<close> when \<open>m\<close> returned an error, with \<open>onOk\<close> otherwise;
  \<open>bind\<close> is \<open>if err != nil { return err }\<close> after \<open>m\<close>.
\<close>

type_synonym 'a prog = "event list \<Rightarrow> ResourceData \<Rightarrow> (error + 'a) \<times> ResourceData \<times> event list"

definition return :: "'a \<Rightarrow> 'a prog" where
  "return x h d = (Inr x, d, [])"

definition failWith :: "error \<Rightarrow> 'a prog" where
  "failWith e h d = (Inl e, d, [])"

definition lift :: "error + 'a \<Rightarrow> 'a prog" where
  "lift r h d = (r, d, [])"

definition branch :: "'a prog \<Rightarrow> (error \<Rightarrow> 'b prog) \<Rightarrow> ('a \<Rightarrow> 'b prog) \<Rightarrow> 'b prog" where
  "branch m onErr onOk h d =
     (case m h d of
        (Inl e, d1, ev1) \<Rightarrow>
          (case onErr e (h @ ev1) d1 of (r, d2, ev2) \<Rightarrow> (r, d2, ev1 @ ev2))
      | (Inr x, d1, ev1) \<Rightarrow>
          (case onOk x (h @ ev1) d1 of (r, d2, ev2) \<Rightarrow> (r, d2, ev1 @ ev2)))"

definition bind :: "'a prog \<Rightarrow> ('a \<Rightarrow> 'b prog) \<Rightarrow> 'b prog" where
  "bind m f = branch m failWith f"

definition andThen :: "unit prog \<Rightarrow> 'a prog \<Rightarrow> 'a prog" where
  "andThen m n = bind m (\<lambda>_. n)"

fun seq :: "unit prog list \<Rightarrow> unit prog" where
  "seq [] = return ()"
| "seq (m # ms) = andThen m (seq ms)"

definition whenever :: "bool \<Rightarrow> unit prog \<Rightarrow> unit prog" where
  "whenever b m = (if b then m else return ())"

text \<open>\<open>for _, x := range xs { if err := f(x); err != nil { return err } }\<close>\<close>

fun forEach :: "'a list \<Rightarrow> ('a \<Rightarrow> unit prog) \<Rightarrow> unit prog" where
  "forEach [] f = return ()"
| "forEach (x # xs) f = andThen (f x) (forEach xs f)"

text \<open>\<open>if err != nil { return fmt.Errorf(..., err) }\<close>: the error is wrapped.\<close>

definition mapErr :: "(error \<Rightarrow> error) \<Rightarrow> 'a prog \<Rightarrow> 'a prog" where
  "mapErr g m = branch m (\<lambda>e. failWith (g e)) return"

definition withData :: "(ResourceData \<Rightarrow> 'a prog) \<Rightarrow> 'a prog" where
  "withData f h d = f d h d"

definition d_SetId :: "string \<Rightarrow> unit prog" where
  "d_SetId v h d = (Inr (), d\<lparr>rd_Id := v\<rparr>, [])"

definition d_Partial :: "bool \<Rightarrow> unit prog" where
  "d_Partial on h d = (Inr (), d\<lparr>rd_partial := on\<rparr>, [])"

definition d_Set :: "env \<Rightarrow> string \<Rightarrow> tfvalue \<Rightarrow> unit prog" where
  "d_Set env k v h d =
     (case set_error env k v of
        Some err \<Rightarrow> (Inl err, d, [])
      | None \<Rightarrow> (Inr (), d\<lparr>rd_attrs := (rd_attrs d)(k := v)\<rparr>, []))"

text \<open>A call of \<open>d.Set\<close> whose error the code drops.\<close>

definition d_Set_unchecked :: "env \<Rightarrow> string \<Rightarrow> tfvalue \<Rightarrow> unit prog" where
  "d_Set_unchecked env k v h d = (case d_Set env k v h d of (r, d1, ev1) \<Rightarrow> (Inr (), d1, ev1))"

text \<open>
  \<open>return handleNotFoundError(err, d, name)\<close>: the function returns what the helper
  returns, \<open>nil\<close> included.
\<close>

definition returnHandleNotFoundError :: "env \<Rightarrow> error \<Rightarrow> string \<Rightarrow> unit prog" where
  "returnHandleNotFoundError env err name h d =
     (case handleNotFoundError env err name of
        (res, newId) \<Rightarrow>
          ((case res of Some e \<Rightarrow> Inl e | None \<Rightarrow> Inr ()),
           (case newId of Some v \<Rightarrow> d\<lparr>rd_Id := v\<rparr> | None \<Rightarrow> d),
           []))"

subsection \<open>Operations\<close>

text \<open>\<open>sdk.WrapOperation(op, err)\<close> hands the error through and wraps the operation.\<close>

definition WrapOperation :: "error + operation \<Rightarrow> error + operation" where
  "WrapOperation r = (case r of Inl err \<Rightarrow> Inl err | Inr op \<Rightarrow> Inr op)"

definition callOperation :: "env \<Rightarrow> rpc \<Rightarrow> operation prog" where
  "callOperation env r h d =
     (case WrapOperation (api_operation env h r) of
        Inl err \<Rightarrow> (Inl err, d, [Called r (Some err)])
      | Inr op \<Rightarrow> (Inr op, d, [Called r None]))"

definition opWait :: "rpc \<Rightarrow> operation \<Rightarrow> unit prog" where
  "opWait r op h d =
     (case op_Wait op of
        Some err \<Rightarrow> (Inl err, d, [Waited r (Some err)])
      | None \<Rightarrow> (Inr (), d, [Waited r None]))"

definition opResponse :: "operation \<Rightarrow> unit prog" where
  "opResponse op = lift (case op_Response op of Some err \<Rightarrow> Inl err | None \<Rightarrow> Inr ())"

text \<open>
  The body shared by the \<open>make...Request\<close> functions: call, wrap, return the first
  message on an error, wait, return the second message on an error.
\<close>

definition callAndWait :: "env \<Rightarrow> rpc \<Rightarrow> (error \<Rightarrow> error) \<Rightarrow> (error \<Rightarrow> error) \<Rightarrow> unit prog" where
  "callAndWait env r onCall onWait =
     bind (mapErr onCall (callOperation env r)) (\<lambda>op. mapErr onWait (opWait r op))"

text \<open>\<open>%q\<close> of a string (escapes inside the string are not modelled).\<close>

definition quoted :: "string \<Rightarrow> string" where
  "quoted s = [CHR 0x22] @ s @ [CHR 0x22]"

text \<open>Errors of pure helper calls: \<open>x, err := f(); if err != nil { return ..., err }\<close>.\<close>

definition bindE :: "error + 'a \<Rightarrow> ('a \<Rightarrow> error + 'b) \<Rightarrow> error + 'b" where
  "bindE r f = (case r of Inl e \<Rightarrow> Inl e | Inr x \<Rightarrow> f x)"

definition wrapE :: "string \<Rightarrow> error + 'a \<Rightarrow> error + 'a" where
  "wrapE pre r = (case r of Inl e \<Rightarrow> Inl (pre @ e) | Inr x \<Rightarrow> Inr x)"

section \<open>The compute instance resource\<close>

subsection \<open>Requests that start an operation\<close>

definition makeInstanceUpdateRequest :: "env \<Rightarrow> UpdateInstanceRequest \<Rightarrow> unit prog" where
  "makeInstanceUpdateRequest env req = withData (\<lambda>d.
     callAndWait env (InstanceUpdate req)
       (\<lambda>err. ''Error while requesting API to update Instance '' @ quoted (rd_Id d) @ '': '' @ err)
       (\<lambda>err. ''Error updating Instance '' @ quoted (rd_Id d) @ '': '' @ err))"

definition makeInstanceUpdateNetworkInterfaceRequest ::
  "env \<Rightarrow> UpdateInstanceNetworkInterfaceRequest \<Rightarrow> unit prog" where
  "makeInstanceUpdateNetworkInterfaceRequest env req = withData (\<lambda>d.
     callAndWait env (InstanceUpdateNetworkInterface req)
       (\<lambda>err. ''Error while requesting API to update network interface for Instance ''
              @ quoted (rd_Id d) @ '': '' @ err)
       (\<lambda>err. ''Error updating Instance '' @ quoted (rd_Id d) @ '': '' @ err))"

definition makeInstanceAddOneToOneNatRequest ::
  "env \<Rightarrow> AddInstanceOneToOneNatRequest \<Rightarrow> unit prog" where
  "makeInstanceAddOneToOneNatRequest env req = withData (\<lambda>d.
     callAndWait env (InstanceAddOneToOneNat req)
       (\<lambda>err. ''Error while requesting API to add one-to-one nat for Instance ''
              @ quoted (rd_Id d) @ '': '' @ err)
       (\<lambda>err. ''Error updating Instance '' @ quoted (rd_Id d) @ '': '' @ err))"

definition makeInstanceRemoveOneToOneNatRequest ::
  "env \<Rightarrow> RemoveInstanceOneToOneNatRequest \<Rightarrow> unit prog" where
  "makeInstanceRemoveOneToOneNatRequest env req = withData (\<lambda>d.
     callAndWait env (InstanceRemoveOneToOneNat req)
       (\<lambda>err. ''Error while requesting API to remove one-to-one nat for Instance ''
              @ quoted (rd_Id d) @ '': '' @ err)
       (\<lambda>err. ''Error updating Instance '' @ quoted (rd_Id d) @ '': '' @ err))"

definition makeInstanceAttachNetworkInterfaceRequest ::
  "env \<Rightarrow> AttachInstanceNetworkInterfaceRequest \<Rightarrow> unit prog" where
  "makeInstanceAttachNetworkInterfaceRequest env req = withData (\<lambda>d.
     callAndWait env (InstanceAttachNetworkInterface req)
       (\<lambda>err. ''Error while requesting API to attach network interface to the Instance ''
              @ quoted (rd_Id d) @ '': '' @ err)
       (\<lambda>err. ''Error updating Instance '' @ quoted (rd_Id d) @ '': '' @ err))"

definition makeInstanceDetachNetworkInterfaceRequest ::
  "env \<Rightarrow> DetachInstanceNetworkInterfaceRequest \<Rightarrow> unit prog" where
  "makeInstanceDetachNetworkInterfaceRequest env req = withData (\<lambda>d.
     callAndWait env (InstanceDetachNetworkInterface req)
       (\<lambda>err. ''Error while requesting API to detach network interface from the Instance ''
              @ quoted (rd_Id d) @ '': '' @ err)
       (\<lambda>err. ''Error updating Instance '' @ quoted (rd_Id d) @ '': '' @ err))"

text \<open>
  \<open>makeInstanceActionRequest\<close>: the \<open>switch\<close> picks the call; any other action returns
  an error before anything is called.
\<close>

definition makeInstanceActionRequest :: "env \<Rightarrow> instanceAction \<Rightarrow> unit prog" where
  "makeInstanceActionRequest env action = withData (\<lambda>d.
     let instanceID = rd_Id d;
         name = instanceAction_String env action;
         onCall = (\<lambda>err. ''Error while run '' @ name @ '' action on Instance '' @ instanceID
                     @ '': '' @ err);
         onWait = (\<lambda>err. ''Error while wait '' @ name @ '' action on Instance '' @ instanceID
                     @ '': '' @ err)
     in case action of
          instanceActionStop \<Rightarrow> callAndWait env (InstanceStop instanceID) onCall onWait
        | instanceActionStart \<Rightarrow> callAndWait env (InstanceStart instanceID) onCall onWait
        | instanceActionOther \<Rightarrow> failWith (''Action '' @ name @ '' not supported''))"

definition makeDetachDiskRequest :: "env \<Rightarrow> DetachInstanceDiskRequest \<Rightarrow> unit prog" where
  "makeDetachDiskRequest env req =
     callAndWait env (InstanceDetachDisk req)
       (\<lambda>err. ''Error while requesting API to detach Disk '' @ ddr_DiskId req
              @ '' from Instance '' @ quoted (ddr_InstanceId req) @ '': '' @ err)
       (\<lambda>err. ''Error detach Disk '' @ ddr_DiskId req
              @ '' from Instance '' @ quoted (ddr_InstanceId req) @ '': '' @ err)"

definition makeAttachDiskRequest :: "env \<Rightarrow> AttachInstanceDiskRequest \<Rightarrow> unit prog" where
  "makeAttachDiskRequest env req =
     callAndWait env (InstanceAttachDisk req)
       (\<lambda>err. ''Error while requesting API to attach Disk ''
              @ ads_DiskId (adr_AttachedDiskSpec req)
              @ '' to Instance '' @ quoted (adr_InstanceId req) @ '': '' @ err)
       (\<lambda>err. ''Error attach Disk '' @ ads_DiskId (adr_AttachedDiskSpec req)
              @ '' to Instance '' @ quoted (adr_InstanceId req) @ '': '' @ err)"

definition makeDetachFilesystemRequest ::
  "env \<Rightarrow> DetachInstanceFilesystemRequest \<Rightarrow> unit prog" where
  "makeDetachFilesystemRequest env req =
     callAndWait env (InstanceDetachFilesystem req)
       (\<lambda>err. ''Error while requesting API to detach Filesystem '' @ dfr_FilesystemId req
              @ '' from Instance '' @ quoted (dfr_InstanceId req) @ '': '' @ err)
       (\<lambda>err. ''Error detach Filesystem '' @ dfr_FilesystemId req
              @ '' from Instance '' @ quoted (dfr_InstanceId req) @ '': '' @ err)"

definition makeAttachFilesystemRequest ::
  "env \<Rightarrow> AttachInstanceFilesystemRequest \<Rightarrow> unit prog" where
  "makeAttachFilesystemRequest env req =
     callAndWait env (InstanceAttachFilesystem req)
       (\<lambda>err. ''Error while requesting API to attach Filesystem ''
              @ afs_FilesystemId (afr_AttachedFilesystemSpec req)
              @ '' to Instance '' @ quoted (afr_InstanceId req) @ '': '' @ err)
       (\<lambda>err. ''Error attach Filesystem ''
              @ afs_FilesystemId (afr_AttachedFilesystemSpec req)
              @ '' to Instance '' @ quoted (afr_InstanceId req) @ '': '' @ err)"

definition makeInstanceMoveRequest :: "env \<Rightarrow> MoveInstanceRequest \<Rightarrow> unit prog" where
  "makeInstanceMoveRequest env req = withData (\<lambda>d.
     callAndWait env (InstanceMove req)
       (\<lambda>err. ''Error while requesting API to move Instance '' @ quoted (rd_Id d) @ '': '' @ err)
       (\<lambda>err. ''Error moving Instance '' @ quoted (rd_Id d) @ '': '' @ err))"

subsection \<open>Read\<close>

definition instanceGet :: "env \<Rightarrow> GetInstanceRequest \<Rightarrow> Instance prog" where
  "instanceGet env req h d =
     (case api_instance env h req of
        Inl err \<Rightarrow> (Inl err, d, [Called (InstanceGet req) (Some err)])
      | Inr instance \<Rightarrow> (Inr instance, d, [Called (InstanceGet req) None]))"

text \<open>\<open>strings.ToLower\<close> on the ASCII names of enumeration values.\<close>

definition strings_ToLower :: "string \<Rightarrow> string" where
  "strings_ToLower s =
     map (\<lambda>c. let n = (of_char c :: nat) in
               if 65 \<le> n \<and> n \<le> 90 then char_of (n + 32) else c) s"

fun Instance_Status_String :: "Instance_Status \<Rightarrow> string" where
  "Instance_Status_String STATUS_UNSPECIFIED = ''STATUS_UNSPECIFIED''"
| "Instance_Status_String PROVISIONING = ''PROVISIONING''"
| "Instance_Status_String RUNNING = ''RUNNING''"
| "Instance_Status_String STOPPING = ''STOPPING''"
| "Instance_Status_String STOPPED = ''STOPPED''"
| "Instance_Status_String STARTING = ''STARTING''"
| "Instance_Status_String RESTARTING = ''RESTARTING''"
| "Instance_Status_String UPDATING = ''UPDATING''"
| "Instance_Status_String ERROR = ''ERROR''"
| "Instance_Status_String CRASHED = ''CRASHED''"
| "Instance_Status_String DELETING = ''DELETING''"

fun MaintenancePolicy_String :: "MaintenancePolicy \<Rightarrow> string" where
  "MaintenancePolicy_String MAINTENANCE_POLICY_UNSPECIFIED = ''MAINTENANCE_POLICY_UNSPECIFIED''"
| "MaintenancePolicy_String RESTART = ''RESTART''"
| "MaintenancePolicy_String MIGRATE = ''MIGRATE''"

definition stringMap :: "(string \<times> string) list \<Rightarrow> tfvalue" where
  "stringMap kvs = VObj (map (\<lambda>(k, v). (k, VString v)) kvs)"

text \<open>
  The part of \<open>resourceYandexComputeInstanceRead\<close> after the \<open>Get\<close> call: the flatten
  helpers, then the \<open>d.Set\<close> calls in the order of the source. Where the source drops
  the error of \<open>d.Set\<close>, so does the model. (\<open>d.SetConnInfo\<close> writes connection details
  that no function here reads; it is left out. \<open>flattenInstanceBootDisk\<close> is given the
  disk client and may read disks; those reads are not events of this model.)
\<close>

definition readInstanceInto :: "env \<Rightarrow> Instance \<Rightarrow> unit prog" where
  "readInstanceInto env instance =
     bind (lift (flatten_i env ''flattenInstanceResources'' instance)) (\<lambda>resources.
     bind (lift (flatten_i env ''flattenInstanceBootDisk'' instance)) (\<lambda>bootDisk.
     bind (lift (flatten_i env ''flattenInstanceSecondaryDisks'' instance)) (\<lambda>secondaryDisks.
     bind (lift (flatten_i env ''flattenInstanceSchedulingPolicy'' instance)) (\<lambda>schedulingPolicy.
     bind (lift (flatten_i env ''flattenInstancePlacementPolicy'' instance)) (\<lambda>placementPolicy.
     bind (lift (flatten_i env ''flattenInstanceNetworkInterfaces'' instance)) (\<lambda>networkInterfaces.
     bind (lift (flatten_i env ''flattenComputeHardwareGeneration'' instance)) (\<lambda>hardwareGeneration.
     seq [
       d_Set_unchecked env ''created_at'' (VString (getTimestamp env (inst_CreatedAt instance))),
       d_Set_unchecked env ''platform_id'' (VString (inst_PlatformId instance)),
       d_Set_unchecked env ''folder_id'' (VString (inst_FolderId instance)),
       d_Set_unchecked env ''zone'' (VString (inst_ZoneId instance)),
       d_Set_unchecked env ''name'' (VString (inst_Name instance)),
       d_Set_unchecked env ''fqdn'' (VString (inst_Fqdn instance)),
       d_Set_unchecked env ''description'' (VString (inst_Description instance)),
       d_Set_unchecked env ''service_account_id'' (VString (inst_ServiceAccountId instance)),
       d_Set_unchecked env ''status''
         (VString (strings_ToLower (Instance_Status_String (inst_Status instance)))),
       d_Set_unchecked env ''metadata_options'' (flat_i env ''flattenInstanceMetadataOptions'' instance),
       (case parseHostnameFromFQDN (inst_Fqdn instance) of
          None \<Rightarrow> failWith ''panic: index out of range''
        | Some (hostname, Some err) \<Rightarrow> failWith err
        | Some (hostname, None) \<Rightarrow> d_Set_unchecked env ''hostname'' (VString hostname)),
       d_Set env ''metadata'' (stringMap (inst_Metadata instance)),
       d_Set env ''labels'' (stringMap (inst_Labels instance)),
       d_Set env ''resources'' resources,
       d_Set env ''boot_disk'' bootDisk,
       d_Set env ''secondary_disk'' secondaryDisks,
       d_Set env ''scheduling_policy'' schedulingPolicy,
       d_Set env ''placement_policy'' placementPolicy,
       d_Set env ''local_disk'' (flat_i env ''flattenLocalDisks'' instance),
       d_Set env ''filesystem'' (flat_i env ''flattenInstanceFilesystems'' instance),
       (case inst_NetworkSettingsType instance of
          Some ty \<Rightarrow> d_Set_unchecked env ''network_acceleration_type'' (VString (strings_ToLower ty))
        | None \<Rightarrow> return ()),
       d_Set env ''network_interface'' networkInterfaces,
       (case inst_GpuClusterId instance of
          Some gpuClusterId \<Rightarrow> d_Set_unchecked env ''gpu_cluster_id'' (VString gpuClusterId)
        | None \<Rightarrow> return ()),
       whenever (inst_MaintenancePolicy instance \<noteq> MAINTENANCE_POLICY_UNSPECIFIED)
         (d_Set env ''maintenance_policy''
            (VString (strings_ToLower (MaintenancePolicy_String (inst_MaintenancePolicy instance))))),
       d_Set env ''maintenance_grace_period''
         (VString (formatDuration env (inst_MaintenanceGracePeriod instance))),
       d_Set env ''hardware_generation'' hardwareGeneration
     ])))))))"

definition resourceYandexComputeInstanceRead :: "env \<Rightarrow> unit prog" where
  "resourceYandexComputeInstanceRead env = withData (\<lambda>d.
     branch (instanceGet env \<lparr>gir_InstanceId = rd_Id d, gir_View = FULL\<rparr>)
       (\<lambda>err. returnHandleNotFoundError env err
                 (''Instance '' @ quoted (asString (d_Get d ''name''))))
       (\<lambda>instance. readInstanceInto env instance))"

subsection \<open>Create and Delete\<close>

definition expandMaintenancePolicy :: "ResourceData \<Rightarrow> error + MaintenancePolicy" where
  "expandMaintenancePolicy d =
     (case d_GetOk d ''maintenance_policy'' of
        (v, ok) \<Rightarrow>
          if ok then
            (if v = VString ''unspecified'' then Inr MAINTENANCE_POLICY_UNSPECIFIED
             else if v = VString ''restart'' then Inr RESTART
             else if v = VString ''migrate'' then Inr MIGRATE
             else Inl (''unknown maintenance_policy: '' @ quoted (asString v)))
          else Inr MAINTENANCE_POLICY_UNSPECIFIED)"

definition prepareCreateInstanceRequest :: "env \<Rightarrow> ResourceData \<Rightarrow> error + CreateInstanceRequest" where
  "prepareCreateInstanceRequest env d =
     bindE (wrapE ''Error getting zone while creating instance: '' (string_d env ''getZone'' d)) (\<lambda>zone.
     bindE (wrapE ''Error getting folder ID while creating instance: '' (string_d env ''getFolderID'' d)) (\<lambda>folderID.
     bindE (wrapE ''Error expanding labels while creating instance: ''
              (expand_v env ''expandLabels'' (d_Get d ''labels''))) (\<lambda>labels.
     bindE (wrapE ''Error expanding metadata while creating instance: ''
              (expand_v env ''expandLabels'' (d_Get d ''metadata''))) (\<lambda>metadata.
     bindE (wrapE ''Error create 'resources_spec' object of api request: ''
              (expand_d env ''expandInstanceResourcesSpec'' d)) (\<lambda>resourcesSpec.
     bindE (wrapE ''Error create 'boot_disk' object of api request: ''
              (expand_d env ''expandInstanceBootDiskSpec'' d)) (\<lambda>bootDiskSpec.
     bindE (wrapE ''Error create 'secondary_disk' object of api request: ''
              (expand_d env ''expandInstanceSecondaryDiskSpecs'' d)) (\<lambda>secondaryDiskSpecs.
     bindE (wrapE ''Error create 'network' object of api request: ''
              (expand_d env ''expandInstanceNetworkSettingsSpecs'' d)) (\<lambda>networkSettingsSpecs.
     bindE (wrapE ''Error create 'network' object of api request: ''
              (expand_d env ''expandInstanceNetworkInterfaceSpecs'' d)) (\<lambda>nicSpecs.
     bindE (wrapE ''Error create 'scheduling_policy' object of api request: ''
              (expand_d env ''expandInstanceSchedulingPolicy'' d)) (\<lambda>schedulingPolicy.
     bindE (wrapE ''Error create 'placement_policy' object of api request: ''
              (expand_d env ''expandInstancePlacementPolicy'' d)) (\<lambda>placementPolicy.
     let metadataOptions = build_d env ''expandInstanceMetadataOptions'' d;
         localDisks = build_v env ''expandLocalDiskSpecs'' (d_Get d ''local_disk'')
     in
     bindE (wrapE ''Error create 'filesystem' object of api request: ''
              (expand_d env ''expandInstanceFilesystemSpecs'' d)) (\<lambda>filesystemSpecs.
     bindE (wrapE ''Error create 'gpu_settings' object of api request: ''
              (expand_d env ''expandInstanceGpuSettingsSpec'' d)) (\<lambda>gpuSettingsSpec.
     bindE (wrapE ''Error create 'maintenance_policy' object of api request: ''
              (expandMaintenancePolicy d)) (\<lambda>maintenancePolicy.
     bindE (wrapE ''Error create 'maintenance_grace_period' object of api request: ''
              (expand_v env ''parseDuration'' (VString (asString (d_Get d ''maintenance_grace_period''))))) (\<lambda>maintenanceGracePeriod.
     Inr \<lparr> cir_FolderId = folderID,
           cir_Hostname = asString (d_Get d ''hostname''),
           cir_Name = asString (d_Get d ''name''),
           cir_Description = asString (d_Get d ''description''),
           cir_PlatformId = asString (d_Get d ''platform_id''),
           cir_ServiceAccountId = asString (d_Get d ''service_account_id''),
           cir_ZoneId = zone,
           cir_Labels = labels,
           cir_Metadata = metadata,
           cir_ResourcesSpec = resourcesSpec,
           cir_BootDiskSpec = bootDiskSpec,
           cir_SecondaryDiskSpecs = secondaryDiskSpecs,
           cir_NetworkSettings = networkSettingsSpecs,
           cir_NetworkInterfaceSpecs = nicSpecs,
           cir_SchedulingPolicy = schedulingPolicy,
           cir_PlacementPolicy = placementPolicy,
           cir_LocalDiskSpecs = localDisks,
           cir_MetadataOptions = metadataOptions,
           cir_FilesystemSpecs = filesystemSpecs,
           cir_GpuSettings = gpuSettingsSpec,
           cir_MaintenancePolicy = maintenancePolicy,
           cir_MaintenanceGracePeriod = maintenanceGracePeriod \<rparr>)))))))))))))))"

text \<open>
  \<open>op.Metadata()\<close> and the type assertion on its result, for the create operation of an
  instance.
\<close>

definition createInstanceMetadataId :: "operation \<Rightarrow> error + string" where
  "createInstanceMetadataId op =
     (case op_Metadata op of
        Inl err \<Rightarrow> Inl (''Error while get instance create operation metadata: '' @ err)
      | Inr (CreateInstanceMetadata instanceId) \<Rightarrow> Inr instanceId
      | Inr _ \<Rightarrow> Inl ''could not get Instance ID from create operation metadata'')"

definition resourceYandexComputeInstanceCreate :: "env \<Rightarrow> unit prog" where
  "resourceYandexComputeInstanceCreate env =
     bind (withData (\<lambda>d. lift (prepareCreateInstanceRequest env d))) (\<lambda>req.
     bind (mapErr (\<lambda>err. ''Error while requesting API to create instance: '' @ err)
             (callOperation env (InstanceCreate req))) (\<lambda>op.
     bind (lift (createInstanceMetadataId op)) (\<lambda>instanceId.
     seq [
       d_SetId instanceId,
       mapErr (\<lambda>err. ''Error while waiting operation to create instance: '' @ err)
         (opWait (InstanceCreate req) op),
       mapErr (\<lambda>err. ''Instance creation failed: '' @ err) (opResponse op),
       resourceYandexComputeInstanceRead env
     ])))"

definition resourceYandexComputeInstanceDelete :: "env \<Rightarrow> unit prog" where
  "resourceYandexComputeInstanceDelete env = withData (\<lambda>d.
     branch (callOperation env (InstanceDelete (rd_Id d)))
       (\<lambda>err. returnHandleNotFoundError env err
                 (''Instance '' @ quoted (asString (d_Get d ''name''))))
       (\<lambda>op. seq [opWait (InstanceDelete (rd_Id d)) op, opResponse op]))"

subsection \<open>Planning the changes of network interfaces\<close>

text \<open>\<open>strconv.Itoa\<close> and \<open>fmt.Sprint\<close> of an integer: its decimal digits.\<close>

function digits :: "nat \<Rightarrow> string" where
  "digits n = (if n < 10 then [char_of (48 + n)] else digits (n div 10) @ [char_of (48 + n mod 10)])"
  by pat_completeness auto
termination
  by (relation "measure id") auto

definition itoa :: "int \<Rightarrow> string" where
  "itoa i = (if i < 0 then CHR ''-'' # digits (nat (- i)) else digits (nat i))"

definition differentRecordSpec :: "DnsRecordSpec \<Rightarrow> DnsRecordSpec \<Rightarrow> bool" where
  "differentRecordSpec r1 r2 =
     (drs_Fqdn r1 \<noteq> drs_Fqdn r2 \<or> drs_DnsZoneId r1 \<noteq> drs_DnsZoneId r2 \<or>
      drs_Ttl r1 \<noteq> drs_Ttl r2 \<or> drs_Ptr r1 \<noteq> drs_Ptr r2)"

text \<open>
  The loop over \<open>old.DnsRecordSpecs\<close> compares the records at equal positions; it runs
  only when both lists have the same length.
\<close>

definition recordSpecsChanged :: "DnsRecordSpec list \<Rightarrow> DnsRecordSpec list \<Rightarrow> bool" where
  "recordSpecsChanged olds news =
     (if length olds \<noteq> length news then True
      else list_ex (\<lambda>(oldrs, newrs). differentRecordSpec oldrs newrs) (zip olds news))"

definition dnsSpecChanged :: "PrimaryAddressSpec \<Rightarrow> PrimaryAddressSpec \<Rightarrow> bool" where
  "dnsSpecChanged old new = recordSpecsChanged (pas_DnsRecordSpecs old) (pas_DnsRecordSpecs new)"

fun natDnsSpecChanged :: "OneToOneNatSpec option \<Rightarrow> OneToOneNatSpec option \<Rightarrow> bool" where
  "natDnsSpecChanged None None = False"
| "natDnsSpecChanged (Some old) None = False"
| "natDnsSpecChanged None (Some new) = False"
| "natDnsSpecChanged (Some old) (Some new) =
     recordSpecsChanged (nat_DnsRecordSpecs old) (nat_DnsRecordSpecs new)"

fun wantChangeAddressSpec :: "PrimaryAddressSpec option \<Rightarrow> PrimaryAddressSpec option \<Rightarrow> bool" where
  "wantChangeAddressSpec None None = False"
| "wantChangeAddressSpec (Some old) None = True"
| "wantChangeAddressSpec None (Some new) = True"
| "wantChangeAddressSpec (Some old) (Some new) =
     (if pas_Address new \<noteq> [] \<and> pas_Address old \<noteq> pas_Address new then True
      else dnsSpecChanged old new
           \<or> natDnsSpecChanged (pas_OneToOneNatSpec old) (pas_OneToOneNatSpec new))"

fun needToRestartDueToAddressChange ::
  "PrimaryAddressSpec option \<Rightarrow> PrimaryAddressSpec option \<Rightarrow> bool" where
  "needToRestartDueToAddressChange None None = False"
| "needToRestartDueToAddressChange (Some old) None = True"
| "needToRestartDueToAddressChange None (Some new) = True"
| "needToRestartDueToAddressChange (Some old) (Some new) =
     (pas_Address new \<noteq> [] \<and> pas_Address old \<noteq> pas_Address new)"

fun natAddressSpecChanged :: "OneToOneNatSpec option \<Rightarrow> OneToOneNatSpec option \<Rightarrow> bool" where
  "natAddressSpecChanged None None = False"
| "natAddressSpecChanged (Some old) None = True"
| "natAddressSpecChanged None (Some new) = True"
| "natAddressSpecChanged (Some old) (Some new) =
     (nat_Address new \<noteq> [] \<and> nat_Address old \<noteq> nat_Address new)"

text \<open>
  \<open>getSpecsForAttachDetachNetworkInterfaces\<close>. The first loop runs over the new
  configuration with its position \<open>ifaceIndex\<close>, collecting the attach requests and the
  keys of \<open>newIfaces\<close>; \<open>curKeys\<close> are the keys of \<open>curIfaces\<close>.
\<close>

fun attachLoop ::
  "env \<Rightarrow> string \<Rightarrow> string list \<Rightarrow> nat \<Rightarrow> tfvalue list
     \<Rightarrow> AttachInstanceNetworkInterfaceRequest list \<Rightarrow> string list
     \<Rightarrow> error + (AttachInstanceNetworkInterfaceRequest list \<times> string list)" where
  "attachLoop env instanceId curKeys ifaceIndex [] attach newKeys = Inr (attach, newKeys)"
| "attachLoop env instanceId curKeys ifaceIndex (newIface # rest) attach newKeys =
     (case field newIface ''index'' of
        VInt newIfaceindex \<Rightarrow>
          (let index = itoa newIfaceindex in
           case expandNetworkInterfaceSpec env newIface of
             Inl err \<Rightarrow>
               Inl (''Failed to process NIC number: #'' @ digits ifaceIndex @ '': '' @ err)
           | Inr iface \<Rightarrow>
               attachLoop env instanceId curKeys (Suc ifaceIndex) rest
                 (if index \<in> set curKeys then attach
                  else attach @ [\<lparr> air_InstanceId = instanceId,
                                    air_NetworkInterfaceIndex = index,
                                    air_PrimaryV4AddressSpec = nis_PrimaryV4AddressSpec iface,
                                    air_SecurityGroupIds = nis_SecurityGroupIds iface,
                                    air_SubnetId = nis_SubnetId iface \<rparr>])
                 (index # newKeys))
      | _ \<Rightarrow>
          Inl (''NIC number #'' @ digits ifaceIndex
               @ '' does not have a 'index' attribute defined, you have to specify it''))"

text \<open>
  The second loop ranges over the map \<open>curIfaces\<close>. Go leaves the order of a map range
  open; the model takes the keys in the order of their first insertion.
\<close>

definition getSpecsForAttachDetachNetworkInterfaces ::
  "env \<Rightarrow> tfvalue list \<Rightarrow> string \<Rightarrow> NetworkInterface list
     \<Rightarrow> error + (AttachInstanceNetworkInterfaceRequest list
                  \<times> DetachInstanceNetworkInterfaceRequest list)" where
  "getSpecsForAttachDetachNetworkInterfaces env newList instanceId instanceNetworkInterfaces =
     (let curKeys = remdups (map ni_Index instanceNetworkInterfaces) in
      case attachLoop env instanceId curKeys 0 newList [] [] of
        Inl err \<Rightarrow> Inl err
      | Inr (attachInterfaceRequests, newKeys) \<Rightarrow>
          Inr (attachInterfaceRequests,
               map (\<lambda>index. \<lparr> dir_InstanceId = instanceId, dir_NetworkInterfaceIndex = index \<rparr>)
                 (filter (\<lambda>index. index \<notin> set newKeys) curKeys)))"

text \<open>
  One round of the loop of \<open>getSpecsForUpdateNetworkInterfaces\<close>, after the four address
  specs are expanded: the request for interface \<open>ifaceIndex\<close> and whether the instance must
  be stopped for it. Where the source reads a field through a pointer that the tests
  before it have shown not to be \<open>nil\<close>, the model has no case for \<open>nil\<close>.
\<close>

definition updateInterfaceRequest ::
  "env \<Rightarrow> ResourceData \<Rightarrow> string \<Rightarrow> nat \<Rightarrow> tfvalue \<Rightarrow> tfvalue
     \<Rightarrow> PrimaryAddressSpec option \<Rightarrow> PrimaryAddressSpec option
     \<Rightarrow> PrimaryAddressSpec option \<Rightarrow> PrimaryAddressSpec option
     \<Rightarrow> UpdateInstanceNetworkInterfaceRequest \<times> bool" where
  "updateInterfaceRequest env d networkInterfacesPropName ifaceIndex oldIface newIface
       oldV4Spec oldV6Spec newV4Spec newV6Spec =
     (let req0 = \<lparr> unr_InstanceId = rd_Id d,
                   unr_NetworkInterfaceIndex = digits ifaceIndex,
                   unr_UpdateMask = [],
                   unr_SubnetId = [],
                   unr_PrimaryV4AddressSpec = None,
                   unr_PrimaryV6AddressSpec = None,
                   unr_SecurityGroupIds = [] \<rparr>;
          key = (\<lambda>name. networkInterfacesPropName @ ''.'' @ digits ifaceIndex @ ''.'' @ name);
          (req1, stop1) =
            (if asString (field oldIface ''subnet_id'') \<noteq> asString (field newIface ''subnet_id'')
             then
               (req0\<lparr> unr_UpdateMask :=
                        [''subnet_id'', ''primary_v4_address_spec'', ''primary_v6_address_spec''],
                      unr_SubnetId := asString (field newIface ''subnet_id''),
                      unr_PrimaryV4AddressSpec :=
                        (case newV4Spec of
                           Some v4 \<Rightarrow>
                             if \<not> d_HasChange d (key ''ip_address'')
                             then Some (v4\<lparr>pas_Address := []\<rparr>) else Some v4
                         | None \<Rightarrow> None),
                      unr_PrimaryV6AddressSpec :=
                        (case newV6Spec of
                           Some v6 \<Rightarrow>
                             if d_HasChange d (key ''ipv6_address'')
                             then Some (v6\<lparr>pas_Address := []\<rparr>) else Some v6
                         | None \<Rightarrow> None) \<rparr>,
                True)
             else
               (let (reqA, stopA) =
                      (if wantChangeAddressSpec oldV4Spec newV4Spec then
                         (let (paths, stop) =
                                (if needToRestartDueToAddressChange oldV4Spec newV4Spec
                                 then ([''primary_v4_address_spec''], True)
                                 else
                                   (case (oldV4Spec, newV4Spec) of
                                      (Some old4, Some new4) \<Rightarrow>
                                        if dnsSpecChanged old4 new4 then
                                          ([''primary_v4_address_spec.dns_record_specs'']
                                           @ (if natDnsSpecChanged (pas_OneToOneNatSpec old4)
                                                   (pas_OneToOneNatSpec new4)
                                              then [''primary_v4_address_spec.one_to_one_nat_spec.dns_record_specs'']
                                              else []),
                                           False)
                                        else if natDnsSpecChanged (pas_OneToOneNatSpec old4)
                                                  (pas_OneToOneNatSpec new4)
                                        then ([''primary_v4_address_spec.one_to_one_nat_spec.dns_record_specs''],
                                              False)
                                        else ([], False)
                                    | _ \<Rightarrow> ([], False)))
                          in (req0\<lparr> unr_UpdateMask := paths,
                                    unr_PrimaryV4AddressSpec := newV4Spec \<rparr>, stop))
                       else (req0, False))
                in
                if wantChangeAddressSpec oldV6Spec newV6Spec then
                  (if needToRestartDueToAddressChange oldV6Spec newV6Spec
                   then (reqA\<lparr> unr_UpdateMask := unr_UpdateMask reqA @ [''primary_v6_address_spec''],
                               unr_PrimaryV6AddressSpec := newV6Spec \<rparr>, True)
                   else (reqA\<lparr> unr_UpdateMask :=
                                 unr_UpdateMask reqA @ [''primary_v6_address_spec.dns_record_specs''],
                               unr_PrimaryV6AddressSpec := newV6Spec \<rparr>, stopA))
                else (reqA, stopA)));
          oldSgs = expandSecurityGroupIds env (field oldIface ''security_group_ids'');
          newSgs = expandSecurityGroupIds env (field newIface ''security_group_ids'')
      in
      if oldSgs \<noteq> newSgs
      then (req1\<lparr> unr_UpdateMask := unr_UpdateMask req1 @ [''security_group_ids''],
                  unr_SecurityGroupIds := newSgs \<rparr>, stop1)
      else (req1, stop1))"

text \<open>
  The loop of \<open>getSpecsForUpdateNetworkInterfaces\<close> from position \<open>ifaceIndex\<close> on. The
  caller passes two lists of the same length; reading \<open>newList[ifaceIndex]\<close> beyond the
  end would panic, which the model returns as an error.
\<close>

fun updateLoop ::
  "env \<Rightarrow> ResourceData \<Rightarrow> string \<Rightarrow> nat \<Rightarrow> tfvalue list \<Rightarrow> tfvalue list
     \<Rightarrow> UpdateInstanceNetworkInterfaceRequest list \<Rightarrow> bool
     \<Rightarrow> error + (UpdateInstanceNetworkInterfaceRequest list \<times> bool)" where
  "updateLoop env d propName ifaceIndex [] newList reqs stopInstance = Inr (reqs, stopInstance)"
| "updateLoop env d propName ifaceIndex (oldIface # olds) [] reqs stopInstance =
     Inl ''panic: index out of range''"
| "updateLoop env d propName ifaceIndex (oldIface # olds) (newIface # news) reqs stopInstance =
     bindE (expandPrimaryV4AddressSpec env oldIface) (\<lambda>oldV4Spec.
     bindE (expandPrimaryV6AddressSpec env oldIface) (\<lambda>oldV6Spec.
     bindE (expandPrimaryV4AddressSpec env newIface) (\<lambda>newV4Spec.
     bindE (expandPrimaryV6AddressSpec env newIface) (\<lambda>newV6Spec.
       (case updateInterfaceRequest env d propName ifaceIndex oldIface newIface
               oldV4Spec oldV6Spec newV4Spec newV6Spec of
          (req, stop) \<Rightarrow>
            updateLoop env d propName (Suc ifaceIndex) olds news
              (if unr_UpdateMask req \<noteq> [] then reqs @ [req] else reqs)
              (stopInstance \<or> stop))))))"

definition getSpecsForUpdateNetworkInterfaces ::
  "env \<Rightarrow> ResourceData \<Rightarrow> string \<Rightarrow> tfvalue list \<Rightarrow> tfvalue list
     \<Rightarrow> error + (UpdateInstanceNetworkInterfaceRequest list \<times> bool)" where
  "getSpecsForUpdateNetworkInterfaces env d networkInterfacesPropName oldList newList =
     updateLoop env d networkInterfacesPropName 0 oldList newList [] False"

text \<open>
  The loop of \<open>getSpecsForAddRemoveNatNetworkInterfaces\<close>. When one of the two address
  specs is \<open>nil\<close> the function returns at once, with no requests and no error.
\<close>

fun natLoop ::
  "env \<Rightarrow> string \<Rightarrow> nat \<Rightarrow> tfvalue list \<Rightarrow> tfvalue list
     \<Rightarrow> AddInstanceOneToOneNatRequest list \<Rightarrow> RemoveInstanceOneToOneNatRequest list
     \<Rightarrow> error + (AddInstanceOneToOneNatRequest list \<times> RemoveInstanceOneToOneNatRequest list)" where
  "natLoop env instanceId ifaceIndex [] newList adds removes = Inr (adds, removes)"
| "natLoop env instanceId ifaceIndex (oldIface # olds) [] adds removes =
     Inl ''panic: index out of range''"
| "natLoop env instanceId ifaceIndex (oldIface # olds) (newIface # news) adds removes =
     bindE (expandPrimaryV4AddressSpec env oldIface) (\<lambda>oldV4Spec.
     bindE (expandPrimaryV4AddressSpec env newIface) (\<lambda>newV4Spec.
       (case (oldV4Spec, newV4Spec) of
          (Some old4, Some new4) \<Rightarrow>
            if natAddressSpecChanged (pas_OneToOneNatSpec old4) (pas_OneToOneNatSpec new4)
            then
              natLoop env instanceId (Suc ifaceIndex) olds news
                (case pas_OneToOneNatSpec new4 of
                   Some natSpec \<Rightarrow>
                     adds @ [\<lparr> anr_InstanceId = instanceId,
                                anr_NetworkInterfaceIndex = digits ifaceIndex,
                                anr_OneToOneNatSpec = Some natSpec \<rparr>]
                 | None \<Rightarrow> adds)
                (case pas_OneToOneNatSpec old4 of
                   Some natSpec \<Rightarrow>
                     removes @ [\<lparr> rnr_InstanceId = instanceId,
                                   rnr_NetworkInterfaceIndex = digits ifaceIndex \<rparr>]
                 | None \<Rightarrow> removes)
            else natLoop env instanceId (Suc ifaceIndex) olds news adds removes
        | _ \<Rightarrow> Inr ([], []))))"

definition getSpecsForAddRemoveNatNetworkInterfaces ::
  "env \<Rightarrow> string \<Rightarrow> tfvalue list \<Rightarrow> tfvalue list
     \<Rightarrow> error + (AddInstanceOneToOneNatRequest list \<times> RemoveInstanceOneToOneNatRequest list)" where
  "getSpecsForAddRemoveNatNetworkInterfaces env instanceId oldList newList =
     natLoop env instanceId 0 oldList newList [] []"

text \<open>
  The variables that \<open>resourceYandexComputeInstanceUpdate\<close> declares before it looks at
  \<open>network_interface\<close>, with the values they have after that block.
\<close>

record nic_plan =
  needUpdateInterfacesOnStoppedInstance :: bool
  addNatRequests :: "AddInstanceOneToOneNatRequest list"
  removeNatRequests :: "RemoveInstanceOneToOneNatRequest list"
  updateInterfaceRequests :: "UpdateInstanceNetworkInterfaceRequest list"
  attachInterfaceRequests :: "AttachInstanceNetworkInterfaceRequest list"
  detachInterfaceRequests :: "DetachInstanceNetworkInterfaceRequest list"

definition noInterfaceChanges :: nic_plan where
  "noInterfaceChanges =
     \<lparr> needUpdateInterfacesOnStoppedInstance = False,
       addNatRequests = [], removeNatRequests = [], updateInterfaceRequests = [],
       attachInterfaceRequests = [], detachInterfaceRequests = [] \<rparr>"

definition planNetworkInterfaces :: "env \<Rightarrow> ResourceData \<Rightarrow> Instance \<Rightarrow> error + nic_plan" where
  "planNetworkInterfaces env d instance =
     (if d_HasChange d ''network_interface'' then
        (case d_GetChange d ''network_interface'' of
           (oldValue, newValue) \<Rightarrow>
             (let oldList = asList oldValue; newList = asList newValue in
              if length oldList \<noteq> length newList then
                bindE (getSpecsForAttachDetachNetworkInterfaces env newList (rd_Id d)
                         (inst_NetworkInterfaces instance)) (\<lambda>(attach, detach).
                Inr (noInterfaceChanges\<lparr> needUpdateInterfacesOnStoppedInstance := True,
                                          attachInterfaceRequests := attach,
                                          detachInterfaceRequests := detach \<rparr>))
              else
                bindE (getSpecsForUpdateNetworkInterfaces env d ''network_interface''
                         oldList newList) (\<lambda>(updates, stopInstance).
                bindE (getSpecsForAddRemoveNatNetworkInterfaces env (rd_Id d) oldList newList)
                  (\<lambda>(adds, removes).
                Inr (noInterfaceChanges\<lparr> needUpdateInterfacesOnStoppedInstance := stopInstance,
                                          addNatRequests := adds,
                                          removeNatRequests := removes,
                                          updateInterfaceRequests := updates \<rparr>)))))
      else Inr noInterfaceChanges)"

subsection \<open>Planning the changes of disks and filesystems\<close>

text \<open>
  The loop over the disks of the new configuration: \<open>currDisks\<close> maps the id of an
  attached disk to the disk, \<open>nKeys\<close> are the keys of \<open>nDisks\<close>.
\<close>

fun diskLoop ::
  "env \<Rightarrow> string \<Rightarrow> (string \<rightharpoonup> AttachedDisk) \<Rightarrow> tfvalue list
     \<Rightarrow> AttachedDiskSpec list \<Rightarrow> DetachInstanceDiskRequest list \<Rightarrow> string list
     \<Rightarrow> error + (AttachedDiskSpec list \<times> DetachInstanceDiskRequest list \<times> string list)" where
  "diskLoop env instanceId currDisks [] attach detach nKeys = Inr (attach, detach, nKeys)"
| "diskLoop env instanceId currDisks (diskConfig # rest) attach detach nKeys =
     (case expandSecondaryDiskSpec env diskConfig of
        Inl err \<Rightarrow> Inl err
      | Inr diskSpec \<Rightarrow>
          (case currDisks (ads_DiskId diskSpec) of
             None \<Rightarrow>
               diskLoop env instanceId currDisks rest (attach @ [diskSpec]) detach
                 (ads_DiskId diskSpec # nKeys)
           | Some currDisk \<Rightarrow>
               if diskSpecChanged env currDisk diskSpec then
                 diskLoop env instanceId currDisks rest (attach @ [diskSpec])
                   (detach @ [\<lparr> ddr_InstanceId = instanceId, ddr_DiskId = ad_DiskId currDisk \<rparr>])
                   (ads_DiskId diskSpec # nKeys)
               else
                 diskLoop env instanceId currDisks rest attach detach
                   (ads_DiskId diskSpec # nKeys)))"

text \<open>
  The requests for \<open>secondary_disk\<close>: whom to detach, whom to attach. A later disk of
  the instance with the same id replaces an earlier one in \<open>currDisks\<close>; the range over
  the map takes its keys in the order of their first insertion.
\<close>

definition planSecondaryDisks ::
  "env \<Rightarrow> ResourceData \<Rightarrow> Instance \<Rightarrow> tfvalue list
     \<Rightarrow> error + (DetachInstanceDiskRequest list \<times> AttachedDiskSpec list)" where
  "planSecondaryDisks env d instance newDisks =
     (let disks = inst_SecondaryDisks instance;
          currDisks = map_of (rev (map (\<lambda>disk. (ad_DiskId disk, disk)) disks))
      in
      case diskLoop env (rd_Id d) currDisks newDisks [] [] [] of
        Inl err \<Rightarrow> Inl err
      | Inr (attach, detach, nKeys) \<Rightarrow>
          Inr (detach
               @ map (\<lambda>diskID. \<lparr> ddr_InstanceId = rd_Id d, ddr_DiskId = diskID \<rparr>)
                   (filter (\<lambda>diskID. diskID \<notin> set nKeys) (remdups (map ad_DiskId disks))),
               attach))"

text \<open>Assignment to a key of a Go map, kept as a list of pairs.\<close>

fun mapAssign :: "'k \<Rightarrow> 'v \<Rightarrow> ('k \<times> 'v) list \<Rightarrow> ('k \<times> 'v) list" where
  "mapAssign k v [] = [(k, v)]"
| "mapAssign k v ((k', v') # kvs) =
     (if k' = k then (k, v) # kvs else (k', v') # mapAssign k v kvs)"

fun oldFsLoop ::
  "env \<Rightarrow> string list \<Rightarrow> tfvalue list \<Rightarrow> (64 word \<times> string) list
     \<Rightarrow> error + (64 word \<times> string) list" where
  "oldFsLoop env currFs [] oldFs = Inr oldFs"
| "oldFsLoop env currFs (fsConfig # rest) oldFs =
     bindE (expandFilesystemSpec env fsConfig) (\<lambda>fsSpec.
     bindE (hashstructure_Hash env fsSpec) (\<lambda>hash.
       oldFsLoop env currFs rest
         (if afs_FilesystemId fsSpec \<in> set currFs
          then mapAssign hash (afs_FilesystemId fsSpec) oldFs else oldFs)))"

fun newFsLoop ::
  "env \<Rightarrow> (64 word \<times> string) list \<Rightarrow> tfvalue list \<Rightarrow> 64 word list
     \<Rightarrow> AttachedFilesystemSpec list
     \<Rightarrow> error + (64 word list \<times> AttachedFilesystemSpec list)" where
  "newFsLoop env oldFs [] newFs attach = Inr (newFs, attach)"
| "newFsLoop env oldFs (fsConfig # rest) newFs attach =
     bindE (expandFilesystemSpec env fsConfig) (\<lambda>fsSpec.
     bindE (hashstructure_Hash env fsSpec) (\<lambda>hash.
       newFsLoop env oldFs rest (hash # newFs)
         (if hash \<in> fst ` set oldFs then attach else attach @ [fsSpec])))"

text \<open>
  The requests for \<open>filesystem\<close>: the ids to detach (the range over \<open>oldFs\<close>, in the
  order of first insertion) and the specs to attach.
\<close>

definition planFilesystems ::
  "env \<Rightarrow> Instance \<Rightarrow> tfvalue list \<Rightarrow> tfvalue list
     \<Rightarrow> error + (string list \<times> AttachedFilesystemSpec list)" where
  "planFilesystems env instance oldList newList =
     (let currFs = map af_FilesystemId (inst_Filesystems instance) in
      bindE (oldFsLoop env currFs oldList []) (\<lambda>oldFs.
      bindE (newFsLoop env oldFs newList [] []) (\<lambda>(newFs, attach).
        Inr (map snd (filter (\<lambda>(hash, fsID). hash \<notin> set newFs) oldFs), attach))))"

subsection \<open>Update\<close>

definition ensureAllowStoppingForUpdate :: "ResourceData \<Rightarrow> string list \<Rightarrow> error + unit" where
  "ensureAllowStoppingForUpdate d propNames =
     (let message = ''Changing the '' @ strings_Join propNames '', ''
                    @ '' in an instance requires stopping it. ''
      in
      if \<not> asBool (d_Get d ''allow_stopping_for_update'')
      then Inl (message @ ''To acknowledge this action, please set allow_stopping_for_update = true in your config file.'')
      else Inr ())"

text \<open>An \<open>UpdateInstanceRequest\<close> with the instance id and every other field at its zero value.\<close>

definition emptyUpdateInstanceRequest :: "string \<Rightarrow> UpdateInstanceRequest" where
  "emptyUpdateInstanceRequest instanceId =
     \<lparr> uir_InstanceId = instanceId,
       uir_UpdateMask = [],
       uir_Name = [],
       uir_Description = [],
       uir_Labels = None,
       uir_ResourcesSpec = None,
       uir_PlatformId = [],
       uir_ServiceAccountId = [],
       uir_Metadata = None,
       uir_MetadataOptions = None,
       uir_NetworkSettings = None,
       uir_PlacementPolicy = None,
       uir_SchedulingPolicy = None,
       uir_MaintenancePolicy = MAINTENANCE_POLICY_UNSPECIFIED,
       uir_MaintenanceGracePeriod = None \<rparr>"

text \<open>The block for \<open>folder_id\<close>: move the stopped instance, or delete and create it.\<close>

definition updateFolder :: "env \<Rightarrow> Instance \<Rightarrow> unit prog" where
  "updateFolder env instance = withData (\<lambda>d.
     whenever (d_HasChange d ''folder_id'')
       (if \<not> asBool (d_Get d ''allow_recreate'') then
          seq [
            lift (ensureAllowStoppingForUpdate d [''folder_id'']),
            whenever (inst_Status instance \<noteq> STOPPED)
              (makeInstanceActionRequest env instanceActionStop),
            makeInstanceMoveRequest env
              \<lparr> mir_InstanceId = rd_Id d,
                mir_DestinationFolderId = asString (d_Get d ''folder_id'') \<rparr>,
            makeInstanceActionRequest env instanceActionStart
          ]
        else
          seq [
            resourceYandexComputeInstanceDelete env,
            resourceYandexComputeInstanceCreate env
          ]))"

definition updateLabels :: "env \<Rightarrow> unit prog" where
  "updateLabels env = withData (\<lambda>d.
     whenever (d_HasChange d ''labels'')
       (bind (lift (expand_v env ''expandLabels'' (d_Get d ''labels''))) (\<lambda>labelsProp.
          makeInstanceUpdateRequest env
            ((emptyUpdateInstanceRequest (rd_Id d))
               \<lparr> uir_Labels := labelsProp, uir_UpdateMask := [''labels''] \<rparr>))))"

definition updateMetadata :: "env \<Rightarrow> unit prog" where
  "updateMetadata env = withData (\<lambda>d.
     whenever (d_HasChange d ''metadata'')
       (bind (lift (expand_v env ''expandLabels'' (d_Get d ''metadata''))) (\<lambda>metadataProp.
          makeInstanceUpdateRequest env
            ((emptyUpdateInstanceRequest (rd_Id d))
               \<lparr> uir_Metadata := metadataProp, uir_UpdateMask := [''metadata''] \<rparr>))))"

definition updateMetadataOptions :: "env \<Rightarrow> unit prog" where
  "updateMetadataOptions env = withData (\<lambda>d.
     whenever (d_HasChange d ''metadata_options'')
       (makeInstanceUpdateRequest env
          ((emptyUpdateInstanceRequest (rd_Id d))
             \<lparr> uir_MetadataOptions := build_d env ''expandInstanceMetadataOptions'' d,
               uir_UpdateMask := [''metadata_options''] \<rparr>)))"

definition updateName :: "env \<Rightarrow> unit prog" where
  "updateName env = withData (\<lambda>d.
     whenever (d_HasChange d ''name'')
       (makeInstanceUpdateRequest env
          ((emptyUpdateInstanceRequest (rd_Id d))
             \<lparr> uir_Name := asString (d_Get d ''name''), uir_UpdateMask := [''name''] \<rparr>)))"

definition updateDescription :: "env \<Rightarrow> unit prog" where
  "updateDescription env = withData (\<lambda>d.
     whenever (d_HasChange d ''description'')
       (makeInstanceUpdateRequest env
          ((emptyUpdateInstanceRequest (rd_Id d))
             \<lparr> uir_Description := asString (d_Get d ''description''),
               uir_UpdateMask := [''description''] \<rparr>)))"

definition updateServiceAccount :: "env \<Rightarrow> unit prog" where
  "updateServiceAccount env = withData (\<lambda>d.
     whenever (d_HasChange d ''service_account_id'')
       (makeInstanceUpdateRequest env
          ((emptyUpdateInstanceRequest (rd_Id d))
             \<lparr> uir_ServiceAccountId := asString (d_Get d ''service_account_id''),
               uir_UpdateMask := [''service_account_id''] \<rparr>)))"

text \<open>The request for \<open>maintenance_policy\<close> and \<open>maintenance_grace_period\<close>.\<close>

definition maintenanceUpdateRequest :: "env \<Rightarrow> ResourceData \<Rightarrow> error + UpdateInstanceRequest" where
  "maintenanceUpdateRequest env d =
     bindE (if d_HasChange d ''maintenance_policy'' then
              bindE (expandMaintenancePolicy d) (\<lambda>policy.
                Inr ((emptyUpdateInstanceRequest (rd_Id d))
                       \<lparr> uir_MaintenancePolicy := policy,
                         uir_UpdateMask := [''maintenance_policy''] \<rparr>))
            else Inr (emptyUpdateInstanceRequest (rd_Id d))) (\<lambda>req.
     if d_HasChange d ''maintenance_grace_period'' then
       bindE (expand_v env ''parseDuration''
                (VString (asString (d_Get d ''maintenance_grace_period'')))) (\<lambda>period.
         Inr (req\<lparr> uir_MaintenanceGracePeriod := period,
                   uir_UpdateMask := uir_UpdateMask req @ [''maintenance_grace_period''] \<rparr>))
     else Inr req)"

definition updateMaintenance :: "env \<Rightarrow> unit prog" where
  "updateMaintenance env = withData (\<lambda>d.
     whenever (d_HasChange d ''maintenance_policy'' \<or> d_HasChange d ''maintenance_grace_period'')
       (bind (lift (maintenanceUpdateRequest env d)) (makeInstanceUpdateRequest env)))"

text \<open>
  The block for \<open>network_interface\<close>: the plan, and the requests that do not need a
  stopped instance.
\<close>

definition updateNetworkInterfaces :: "env \<Rightarrow> Instance \<Rightarrow> nic_plan prog" where
  "updateNetworkInterfaces env instance = withData (\<lambda>d.
     bind (lift (planNetworkInterfaces env d instance)) (\<lambda>plan.
     andThen
       (whenever (d_HasChange d ''network_interface''
                  \<and> \<not> needUpdateInterfacesOnStoppedInstance plan
                  \<and> (removeNatRequests plan \<noteq> [] \<or> addNatRequests plan \<noteq> []
                       \<or> updateInterfaceRequests plan \<noteq> []))
          (seq [
             forEach (removeNatRequests plan) (makeInstanceRemoveOneToOneNatRequest env),
             forEach (addNatRequests plan) (makeInstanceAddOneToOneNatRequest env),
             forEach (updateInterfaceRequests plan) (makeInstanceUpdateNetworkInterfaceRequest env)
           ]))
       (return plan)))"

definition updateSecondaryDisks :: "env \<Rightarrow> Instance \<Rightarrow> unit prog" where
  "updateSecondaryDisks env instance = withData (\<lambda>d.
     whenever (d_HasChange d ''secondary_disk'')
       (bind (lift (planSecondaryDisks env d instance
                      (asList (snd (d_GetChange d ''secondary_disk''))))) (\<lambda>(detach, attach).
          seq [
            forEach detach (makeDetachDiskRequest env),
            forEach attach (\<lambda>diskSpec.
              makeAttachDiskRequest env
                \<lparr> adr_InstanceId = rd_Id d, adr_AttachedDiskSpec = diskSpec \<rparr>)
          ])))"

definition updateFilesystems :: "env \<Rightarrow> Instance \<Rightarrow> unit prog" where
  "updateFilesystems env instance = withData (\<lambda>d.
     whenever (d_HasChange d ''filesystem'')
       (bind (lift (planFilesystems env instance
                      (asList (fst (d_GetChange d ''filesystem'')))
                      (asList (snd (d_GetChange d ''filesystem''))))) (\<lambda>(detach, attach).
          seq [
            forEach detach (\<lambda>fsID.
              makeDetachFilesystemRequest env
                \<lparr> dfr_InstanceId = rd_Id d, dfr_FilesystemId = fsID \<rparr>),
            forEach attach (\<lambda>fsSpec.
              makeAttachFilesystemRequest env
                \<lparr> afr_InstanceId = rd_Id d, afr_AttachedFilesystemSpec = fsSpec \<rparr>)
          ])))"

definition preparePlacementPolicyForUpdateRequest ::
  "env \<Rightarrow> ResourceData \<Rightarrow> PlacementPolicy \<times> string list" where
  "preparePlacementPolicyForUpdateRequest env d =
     (let p0 = \<lparr> pp_PlacementGroupId = [], pp_HostAffinityRules = None,
                 pp_PlacementGroupPartition = 0 \<rparr>;
          (p1, paths1) =
            (if d_HasChange d ''placement_policy.0.placement_group_id''
             then (p0\<lparr> pp_PlacementGroupId :=
                          asString (d_Get d ''placement_policy.0.placement_group_id'') \<rparr>,
                   [''placement_policy.placement_group_id''])
             else (p0, []));
          (p2, paths2) =
            (if d_HasChange d ''placement_policy.0.host_affinity_rules''
             then (p1\<lparr> pp_HostAffinityRules :=
                          build_v env ''expandHostAffinityRulesSpec''
                            (d_Get d ''placement_policy.0.host_affinity_rules'') \<rparr>,
                   paths1 @ [''placement_policy.host_affinity_rules''])
             else (p1, paths1))
      in
      if d_HasChange d ''placement_policy.0.placement_group_partition''
      then (p2\<lparr> pp_PlacementGroupPartition :=
                   word_of_int (asInt (d_Get d ''placement_policy.0.placement_group_partition'')) \<rparr>,
            paths2 @ [''placement_policy.placement_group_partition''])
      else (p2, paths2))"

text \<open>
  The one request that updates resources, platform, network settings, scheduling
  policy and placement policy of the stopped instance.
\<close>

definition stoppedInstanceUpdateRequest :: "env \<Rightarrow> ResourceData \<Rightarrow> error + UpdateInstanceRequest" where
  "stoppedInstanceUpdateRequest env d =
     bindE (if d_HasChange d ''resources'' then
              bindE (expand_d env ''expandInstanceResourcesSpec'' d) (\<lambda>spec.
                Inr ((emptyUpdateInstanceRequest (rd_Id d))
                       \<lparr> uir_ResourcesSpec := spec, uir_UpdateMask := [''resources_spec''] \<rparr>))
            else Inr (emptyUpdateInstanceRequest (rd_Id d))) (\<lambda>req1.
     let req2 =
           (if d_HasChange d ''platform_id''
            then req1\<lparr> uir_PlatformId := asString (d_Get d ''platform_id''),
                       uir_UpdateMask := uir_UpdateMask req1 @ [''platform_id''] \<rparr>
            else req1)
     in
     bindE (if d_HasChange d ''network_acceleration_type'' then
              bindE (expand_d env ''expandInstanceNetworkSettingsSpecs'' d) (\<lambda>networkSettings.
                Inr (req2\<lparr> uir_NetworkSettings := networkSettings,
                           uir_UpdateMask := uir_UpdateMask req2 @ [''network_settings''] \<rparr>))
            else Inr req2) (\<lambda>req3.
     bindE (if d_HasChange d ''scheduling_policy'' then
              bindE (expand_d env ''expandInstanceSchedulingPolicy'' d) (\<lambda>schedulingPolicy.
                Inr (req3\<lparr> uir_SchedulingPolicy := schedulingPolicy,
                           uir_UpdateMask := uir_UpdateMask req3 @ [''scheduling_policy.preemptible''] \<rparr>))
            else Inr req3) (\<lambda>req4.
     if d_HasChange d ''placement_policy'' then
       (case preparePlacementPolicyForUpdateRequest env d of
          (placementPolicy, paths) \<Rightarrow>
            Inr (req4\<lparr> uir_PlacementPolicy := Some placementPolicy,
                       uir_UpdateMask := uir_UpdateMask req4 @ paths \<rparr>))
     else Inr req4)))"

definition stopProperties :: "string list" where
  "stopProperties =
     [''resources'', ''platform_id'', ''network_acceleration_type'', ''scheduling_policy'',
      ''placement_policy'']"

text \<open>
  The last block: stop, update what needs a stopped instance, start. (Between the stop
  and the interface requests the source sleeps until 15 seconds have passed since the
  stop; time is not part of this model.)
\<close>

definition updateOnStoppedInstance :: "env \<Rightarrow> nic_plan \<Rightarrow> unit prog" where
  "updateOnStoppedInstance env plan = withData (\<lambda>d.
     whenever (d_HasChange d ''resources'' \<or> d_HasChange d ''platform_id''
               \<or> d_HasChange d ''network_acceleration_type''
               \<or> needUpdateInterfacesOnStoppedInstance plan
               \<or> d_HasChange d ''scheduling_policy'' \<or> d_HasChange d ''placement_policy'')
       (seq [
          lift (ensureAllowStoppingForUpdate d stopProperties),
          makeInstanceActionRequest env instanceActionStop,
          whenever (d_HasChange d ''resources'' \<or> d_HasChange d ''platform_id''
                    \<or> d_HasChange d ''network_acceleration_type''
                    \<or> d_HasChange d ''placement_policy'' \<or> d_HasChange d ''scheduling_policy'')
            (bind (lift (stoppedInstanceUpdateRequest env d)) (makeInstanceUpdateRequest env)),
          whenever (needUpdateInterfacesOnStoppedInstance plan)
            (seq [
               forEach (removeNatRequests plan) (makeInstanceRemoveOneToOneNatRequest env),
               forEach (addNatRequests plan) (makeInstanceAddOneToOneNatRequest env),
               forEach (updateInterfaceRequests plan) (makeInstanceUpdateNetworkInterfaceRequest env),
               forEach (attachInterfaceRequests plan) (makeInstanceAttachNetworkInterfaceRequest env),
               forEach (detachInterfaceRequests plan) (makeInstanceDetachNetworkInterfaceRequest env)
             ]),
          makeInstanceActionRequest env instanceActionStart
        ]))"

text \<open>Everything \<open>resourceYandexComputeInstanceUpdate\<close> does before that last block.\<close>

definition updateBeforeStop :: "env \<Rightarrow> Instance \<Rightarrow> nic_plan prog" where
  "updateBeforeStop env instance =
     andThen
       (seq [
          updateFolder env instance,
          updateLabels env,
          updateMetadata env,
          updateMetadataOptions env,
          updateName env,
          updateDescription env,
          updateServiceAccount env,
          updateMaintenance env
        ])
       (bind (updateNetworkInterfaces env instance) (\<lambda>plan.
        andThen
          (seq [updateSecondaryDisks env instance, updateFilesystems env instance])
          (return plan)))"

definition resourceYandexComputeInstanceUpdate :: "env \<Rightarrow> unit prog" where
  "resourceYandexComputeInstanceUpdate env = withData (\<lambda>d.
     branch (instanceGet env \<lparr>gir_InstanceId = rd_Id d, gir_View = BASIC\<rparr>)
       (\<lambda>err. returnHandleNotFoundError env err
                 (''Instance '' @ quoted (asString (d_Get d ''name''))))
       (\<lambda>instance.
          andThen (d_Partial True)
            (bind (updateBeforeStop env instance) (\<lambda>plan.
               seq [
                 updateOnStoppedInstance env plan,
                 d_Partial False,
                 resourceYandexComputeInstanceRead env
               ]))))"

section \<open>The Advanced Rate Limiter profile resource\<close>

text \<open>
  The functions of this resource return diagnostics; \<open>diag.FromErr(err)\<close> and
  \<open>diag.Errorf(...)\<close> make one diagnostic from an error, and \<open>diag.FromErr(nil)\<close> is
  no diagnostic. The model keeps the error. Logging is left out.
\<close>

definition profileGet :: "env \<Rightarrow> string \<Rightarrow> AdvancedRateLimiterProfile prog" where
  "profileGet env profileId h d =
     (case api_profile env h profileId of
        Inl err \<Rightarrow> (Inl err, d, [Called (ProfileGet profileId) (Some err)])
      | Inr resp \<Rightarrow> (Inr resp, d, [Called (ProfileGet profileId) None]))"

definition resourceYandexSmartwebsecurityAdvancedRateLimiterAdvancedRateLimiterProfileRead ::
  "env \<Rightarrow> unit prog" where
  "resourceYandexSmartwebsecurityAdvancedRateLimiterAdvancedRateLimiterProfileRead env =
     withData (\<lambda>d.
       branch (profileGet env (rd_Id d))
         (\<lambda>err. returnHandleNotFoundError env err
                   (''advanced_rate_limiter_profile '' @ quoted (rd_Id d)))
         (\<lambda>resp.
            bind (lift (flattenRuleSlice env (arl_AdvancedRateLimiterRules resp)))
              (\<lambda>advancedRateLimiterRule.
            let createdAt = getTimestamp env (arl_CreatedAt resp) in
            seq [
              d_Set env ''advanced_rate_limiter_rule'' advancedRateLimiterRule,
              d_Set env ''cloud_id'' (VString (arl_CloudId resp)),
              d_Set env ''created_at'' (VString createdAt),
              d_Set env ''description'' (VString (arl_Description resp)),
              d_Set env ''folder_id'' (VString (arl_FolderId resp)),
              d_Set env ''labels'' (stringMap (arl_Labels resp)),
              d_Set env ''name'' (VString (arl_Name resp))
            ])))"

definition createProfileMetadataId :: "operation \<Rightarrow> error + string" where
  "createProfileMetadataId op =
     (case op_Metadata op of
        Inl err \<Rightarrow>
          Inl (''Error while get advanced_rate_limiter.AdvancedRateLimiterProfile create operation metadata: '' @ err)
      | Inr (CreateAdvancedRateLimiterProfileMetadata profileId) \<Rightarrow> Inr profileId
      | Inr _ \<Rightarrow> Inl ''could not get AdvancedRateLimiterProfile ID from create operation metadata'')"

definition resourceYandexSmartwebsecurityAdvancedRateLimiterAdvancedRateLimiterProfileCreate ::
  "env \<Rightarrow> unit prog" where
  "resourceYandexSmartwebsecurityAdvancedRateLimiterAdvancedRateLimiterProfileCreate env =
     withData (\<lambda>d.
       bind (lift (string_d env ''getFolderID'' d)) (\<lambda>folderId.
       let labels = build_v env ''expandStringStringMap'' (d_Get d ''labels'') in
       bind (lift (expand_d env ''expandAdvancedRateLimiterProfileAdvancedRateLimiterRulesSlice'' d))
         (\<lambda>advancedRateLimiterRules.
       let req = \<lparr> carl_FolderId = folderId,
                   carl_Labels = labels,
                   carl_Name = asString (d_Get d ''name''),
                   carl_Description = asString (d_Get d ''description''),
                   carl_AdvancedRateLimiterRules = advancedRateLimiterRules \<rparr>
       in
       bind (callOperation env (ProfileCreate req)) (\<lambda>op.
       bind (lift (createProfileMetadataId op)) (\<lambda>profileId.
       seq [
         d_SetId profileId,
         opWait (ProfileCreate req) op,
         resourceYandexSmartwebsecurityAdvancedRateLimiterAdvancedRateLimiterProfileRead env
       ])))))"

text \<open>The variable \<open>...ProfileUpdateFieldsMap\<close>: from schema fields to paths of the API message.\<close>

definition resourceYandexSmartwebsecurityAdvancedRateLimiterAdvancedRateLimiterProfileUpdateFieldsMap ::
  "(string \<times> string) list" where
  "resourceYandexSmartwebsecurityAdvancedRateLimiterAdvancedRateLimiterProfileUpdateFieldsMap =
     [(''labels'', ''labels''),
      (''name'', ''name''),
      (''description'', ''description''),
      (''advanced_rate_limiter_rule'', ''advanced_rate_limiter_rules'')]"

text \<open>
  Modelled from the spec: \<open>generateFieldMasks\<close> is defined in another file of the
  provider. The specification names what it does "field-mask generation for partial
  updates"; it is called with \<open>d\<close> and a map from schema fields to paths, and the model
  returns the paths of those fields of the map that \<open>d.HasChange\<close> reports as changed
  (for a Go map, in no fixed order).
\<close>

definition generateFieldMasks :: "ResourceData \<Rightarrow> (string \<times> string) list \<Rightarrow> string list" where
  "generateFieldMasks d fieldsMap =
     map snd (filter (\<lambda>(fieldName, path). d_HasChange d fieldName) fieldsMap)"

definition profileUpdateRequest :: "env \<Rightarrow> ResourceData \<Rightarrow> error + UpdateAdvancedRateLimiterProfileRequest" where
  "profileUpdateRequest env d =
     (let labels = build_v env ''expandStringStringMap'' (d_Get d ''labels'') in
      bindE (expand_d env ''expandAdvancedRateLimiterProfileAdvancedRateLimiterRulesSlice_'' d)
        (\<lambda>advancedRateLimiterRules.
      let req = \<lparr> uarl_AdvancedRateLimiterProfileId = rd_Id d,
                  uarl_UpdateMask = [],
                  uarl_Labels = labels,
                  uarl_Name = asString (d_Get d ''name''),
                  uarl_Description = asString (d_Get d ''description''),
                  uarl_AdvancedRateLimiterRules = advancedRateLimiterRules \<rparr>;
          updatePath = generateFieldMasks d
            resourceYandexSmartwebsecurityAdvancedRateLimiterAdvancedRateLimiterProfileUpdateFieldsMap
      in Inr (req\<lparr> uarl_UpdateMask := updatePath \<rparr>)))"

definition resourceYandexSmartwebsecurityAdvancedRateLimiterAdvancedRateLimiterProfileUpdate ::
  "env \<Rightarrow> unit prog" where
  "resourceYandexSmartwebsecurityAdvancedRateLimiterAdvancedRateLimiterProfileUpdate env =
     withData (\<lambda>d.
       bind (lift (profileUpdateRequest env d)) (\<lambda>req.
       bind (callOperation env (ProfileUpdate req)) (\<lambda>op.
       seq [
         opWait (ProfileUpdate req) op,
         resourceYandexSmartwebsecurityAdvancedRateLimiterAdvancedRateLimiterProfileRead env
       ])))"


section \<open>Properties of programs\<close>

text \<open>
  \<open>safe I E m\<close>: started on resource data that satisfy \<open>I\<close>, the program \<open>m\<close> ends on
  resource data that satisfy \<open>I\<close>, and every event it adds satisfies \<open>E\<close>.
\<close>

definition safe :: "(ResourceData \<Rightarrow> bool) \<Rightarrow> (event \<Rightarrow> bool) \<Rightarrow> 'a prog \<Rightarrow> bool" where
  "safe I E m = (\<forall>h d. I d \<longrightarrow> (case m h d of (r, d', evs) \<Rightarrow> I d' \<and> list_all E evs))"

text \<open>A run of \<open>d.Set\<close> calls, each checked, as \<open>Read\<close> functions end with.\<close>

definition setAll :: "env \<Rightarrow> (string \<times> tfvalue) list \<Rightarrow> unit prog" where
  "setAll env kvs = seq (map (\<lambda>(k, v). d_Set env k v) kvs)"

section \<open>An example environment\<close>

text \<open>
  A remote side on which every call succeeds and every operation completes, helpers
  that return the name they were called by, and resource data for one instance and one
  profile. The theorems below are universal; these values serve to apply them.
\<close>

definition doneOperation :: "rpc \<Rightarrow> operation" where
  "doneOperation r =
     \<lparr> op_Metadata =
         (case r of
            InstanceCreate req \<Rightarrow> Inr (CreateInstanceMetadata ''vm-2'')
          | ProfileCreate req \<Rightarrow> Inr (CreateAdvancedRateLimiterProfileMetadata ''arl-1'')
          | _ \<Rightarrow> Inr OtherMetadata),
       op_Wait = None,
       op_Response = None \<rparr>"

definition exampleInstance :: Instance where
  "exampleInstance =
     \<lparr> inst_FolderId = ''folder-a'', inst_CreatedAt = ''t0'', inst_Name = ''vm'',
       inst_Description = [], inst_Labels = [], inst_ZoneId = ''zone-a'',
       inst_PlatformId = ''standard-v1'', inst_Status = RUNNING, inst_Metadata = [],
       inst_Fqdn = ''vm.internal'', inst_ServiceAccountId = [],
       inst_NetworkSettingsType = None, inst_GpuClusterId = None,
       inst_MaintenancePolicy = MAINTENANCE_POLICY_UNSPECIFIED,
       inst_MaintenanceGracePeriod = None, inst_NetworkInterfaces = [],
       inst_SecondaryDisks = [], inst_Filesystems = [], inst_rest = [] \<rparr>"

definition exampleProfile :: AdvancedRateLimiterProfile where
  "exampleProfile =
     \<lparr> arl_Id = ''arl-1'', arl_FolderId = ''folder-a'', arl_CloudId = ''cloud-a'',
       arl_Labels = [(''env'', ''prod'')], arl_Name = ''limits'', arl_Description = ''d'',
       arl_AdvancedRateLimiterRules = Some ''rules'', arl_CreatedAt = ''t0'' \<rparr>"

definition exampleEnv :: env where
  "exampleEnv =
     \<lparr> api_operation = (\<lambda>h r. Inr (doneOperation r)),
       api_instance = (\<lambda>h req. Inr exampleInstance),
       api_profile = (\<lambda>h profileId. Inr exampleProfile),
       handleNotFoundError = (\<lambda>err name. (Some (''error reading '' @ name @ '': '' @ err), None)),
       set_error = (\<lambda>k v. None),
       expand_d = (\<lambda>name d. Inr (Some name)),
       expand_v = (\<lambda>name v. Inr (Some name)),
       build_d = (\<lambda>name d. Some name),
       build_v = (\<lambda>name v. Some name),
       string_d = (\<lambda>name d. Inr name),
       flatten_i = (\<lambda>name i. Inr (VString name)),
       flat_i = (\<lambda>name i. VString name),
       expandPrimaryV4AddressSpec = (\<lambda>v. Inr None),
       expandPrimaryV6AddressSpec = (\<lambda>v. Inr None),
       expandSecurityGroupIds = (\<lambda>v. []),
       expandNetworkInterfaceSpec =
         (\<lambda>v. Inr \<lparr> nis_SubnetId = asString (field v ''subnet_id''),
                     nis_PrimaryV4AddressSpec = None, nis_SecurityGroupIds = [] \<rparr>),
       expandSecondaryDiskSpec =
         (\<lambda>v. Inr \<lparr> ads_DiskId = asString (field v ''disk_id''), ads_rest = [] \<rparr>),
       diskSpecChanged = (\<lambda>disk spec. False),
       expandFilesystemSpec =
         (\<lambda>v. Inr \<lparr> afs_FilesystemId = asString (field v ''filesystem_id''), afs_rest = [] \<rparr>),
       hashstructure_Hash = (\<lambda>spec. Inr (of_nat (length (afs_FilesystemId spec)))),
       flattenRuleSlice = (\<lambda>rules. Inr (VList [])),
       getTimestamp = (\<lambda>t. t),
       formatDuration = (\<lambda>p. []),
       instanceAction_String =
         (\<lambda>a. case a of instanceActionStop \<Rightarrow> ''Stop''
               | instanceActionStart \<Rightarrow> ''Start''
               | instanceActionOther \<Rightarrow> ''Other'') \<rparr>"

text \<open>The same remote side, except that waiting for an operation fails.\<close>

definition waitFailsEnv :: env where
  "waitFailsEnv =
     exampleEnv\<lparr> api_operation :=
       (\<lambda>h r. Inr ((doneOperation r)\<lparr> op_Wait := Some ''deadline exceeded'' \<rparr>)) \<rparr>"

text \<open>The same environment, except that the framework refuses the value of \<open>labels\<close>.\<close>

definition setFailsEnv :: env where
  "setFailsEnv =
     exampleEnv\<lparr> set_error :=
       (\<lambda>k v. if k = ''labels'' then Some ''labels: invalid value'' else None) \<rparr>"

text \<open>An instance whose \<open>platform_id\<close> and \<open>labels\<close> are to change.\<close>

definition exampleData :: ResourceData where
  "exampleData =
     \<lparr> rd_Id = ''vm-1'', rd_partial = False,
       rd_attrs = (\<lambda>k. VNil)
         (''name'' := VString ''vm'', ''platform_id'' := VString ''standard-v3'',
          ''labels'' := VObj [(''env'', VString ''prod'')],
          ''allow_stopping_for_update'' := VBool True),
       rd_old = (\<lambda>k. VNil)
         (''name'' := VString ''vm'', ''platform_id'' := VString ''standard-v1'',
          ''allow_stopping_for_update'' := VBool True),
       rd_new = (\<lambda>k. VNil)
         (''name'' := VString ''vm'', ''platform_id'' := VString ''standard-v3'',
          ''labels'' := VObj [(''env'', VString ''prod'')],
          ''allow_stopping_for_update'' := VBool True) \<rparr>"

text \<open>A profile whose \<open>name\<close> is to change.\<close>

definition profileData :: ResourceData where
  "profileData =
     \<lparr> rd_Id = ''arl-1'', rd_partial = False,
       rd_attrs = (\<lambda>k. VNil)(''name'' := VString ''limits''),
       rd_old = (\<lambda>k. VNil)(''name'' := VString ''limit''),
       rd_new = (\<lambda>k. VNil)(''name'' := VString ''limits'') \<rparr>"

text \<open>An update request of the profile service has its mask within the set \<open>S\<close>.\<close>

definition maskWithin :: "string set \<Rightarrow> event \<Rightarrow> bool" where
  "maskWithin S ev = (\<forall>req e. ev = Called (ProfileUpdate req) e \<longrightarrow> set (uarl_UpdateMask req) \<subseteq> S)"

text \<open>The update request that \<open>profileData\<close> leads to in the example environment.\<close>

definition profileDataRequest :: UpdateAdvancedRateLimiterProfileRequest where
  "profileDataRequest =
     \<lparr> uarl_AdvancedRateLimiterProfileId = ''arl-1'',
       uarl_UpdateMask = [''name''],
       uarl_Labels = Some ''expandStringStringMap'',
       uarl_Name = ''limits'',
       uarl_Description = [],
       uarl_AdvancedRateLimiterRules =
         Some ''expandAdvancedRateLimiterProfileAdvancedRateLimiterRulesSlice_'' \<rparr>"

section \<open>Operations are waited for\<close>

text \<open>The calls that start an operation on the remote side: all but the two \<open>Get\<close> calls.\<close>

fun mutating :: "rpc \<Rightarrow> bool" where
  "mutating (InstanceGet req) = False"
| "mutating (ProfileGet req) = False"
| "mutating r = True"

fun creates :: "rpc \<Rightarrow> bool" where
  "creates (InstanceCreate req) = True"
| "creates (ProfileCreate req) = True"
| "creates r = False"

fun deletes :: "rpc \<Rightarrow> bool" where
  "deletes (InstanceDelete instanceId) = True"
| "deletes (ProfileDelete profileId) = True"
| "deletes r = False"

text \<open>
  \<open>settled evs\<close>: in \<open>evs\<close>, every call that returned an operation is followed at once
  by the wait for that operation, and the wait succeeded; a wait stands nowhere else;
  and no call that starts an operation returned an error, a delete call apart (the
  Delete functions hand that error to \<open>handleNotFoundError\<close>, which may drop it).
\<close>

fun settled :: "event list \<Rightarrow> bool" where
  "settled [] = True"
| "settled (Waited r w # es) = False"
| "settled (Called r (Some e) # es) = ((\<not> mutating r \<or> deletes r) \<and> settled es)"
| "settled (Called r None # es) =
     (if mutating r
      then (case es of
              Waited r' None # es' \<Rightarrow> r' = r \<and> settled es'
            | _ \<Rightarrow> False)
      else settled es)"

text \<open>
  \<open>awaited evs\<close>: the same for a run that may have ended in an error. The wait may
  have failed, and then nothing follows it; a call that starts an operation may have
  returned an error, and then nothing follows it unless it is a delete call; a create
  call that returned an operation may be the last event, with no wait (the metadata of
  the operation could not be read).
\<close>

fun awaited :: "event list \<Rightarrow> bool" where
  "awaited [] = True"
| "awaited (Waited r w # es) = False"
| "awaited (Called r (Some e) # es) =
     (if mutating r \<and> \<not> deletes r then es = [] else awaited es)"
| "awaited (Called r None # es) =
     (if mutating r
      then (case es of
              [] \<Rightarrow> creates r
            | Waited r' None # es' \<Rightarrow> r' = r \<and> awaited es'
            | Waited r' (Some e) # es' \<Rightarrow> r' = r \<and> es' = []
            | _ \<Rightarrow> False)
      else awaited es)"







text \<open>The requests and events of Update on \<open>exampleData\<close> in the example environment.\<close>

definition labelsRequest :: "string \<Rightarrow> UpdateInstanceRequest" where
  "labelsRequest instanceId =
     (emptyUpdateInstanceRequest instanceId)
       \<lparr> uir_Labels := Some ''expandLabels'', uir_UpdateMask := [''labels''] \<rparr>"

definition platformRequest :: "string \<Rightarrow> UpdateInstanceRequest" where
  "platformRequest instanceId =
     (emptyUpdateInstanceRequest instanceId)
       \<lparr> uir_PlatformId := ''standard-v3'', uir_UpdateMask := [''platform_id''] \<rparr>"

definition exampleEvents :: "event list" where
  "exampleEvents =
     [Called (InstanceGet \<lparr>gir_InstanceId = ''vm-1'', gir_View = BASIC\<rparr>) None,
      Called (InstanceUpdate (labelsRequest ''vm-1'')) None,
      Waited (InstanceUpdate (labelsRequest ''vm-1'')) None,
      Called (InstanceStop ''vm-1'') None,
      Waited (InstanceStop ''vm-1'') None,
      Called (InstanceUpdate (platformRequest ''vm-1'')) None,
      Waited (InstanceUpdate (platformRequest ''vm-1'')) None,
      Called (InstanceStart ''vm-1'') None,
      Waited (InstanceStart ''vm-1'') None,
      Called (InstanceGet \<lparr>gir_InstanceId = ''vm-1'', gir_View = FULL\<rparr>) None]"

section \<open>Properties of the requests of Update\<close>

text \<open>The call an event belongs to.\<close>

fun rpcOf :: "event \<Rightarrow> rpc" where
  "rpcOf (Called r e) = r"
| "rpcOf (Waited r e) = r"

definition onRpc :: "(rpc \<Rightarrow> bool) \<Rightarrow> event \<Rightarrow> bool" where
  "onRpc P ev = P (rpcOf ev)"

text \<open>The keys that \<open>resourceYandexComputeInstanceRead\<close> sets.\<close>

definition readKeys :: "string list" where
  "readKeys =
     [''created_at'', ''platform_id'', ''folder_id'', ''zone'', ''name'', ''fqdn'', ''description'',
      ''service_account_id'', ''status'', ''metadata_options'', ''hostname'', ''metadata'',
      ''labels'', ''resources'', ''boot_disk'', ''secondary_disk'', ''scheduling_policy'',
      ''placement_policy'', ''local_disk'', ''filesystem'', ''network_acceleration_type'',
      ''network_interface'', ''gpu_cluster_id'', ''maintenance_policy'',
      ''maintenance_grace_period'', ''hardware_generation'']"

text \<open>
  \<open>keeps I\<close>: the property \<open>I\<close> of the resource data is kept by \<open>SetId\<close>, \<open>Partial\<close> and by
  \<open>Set\<close> on the keys that Read sets.
\<close>

definition keeps :: "(ResourceData \<Rightarrow> bool) \<Rightarrow> bool" where
  "keeps I = (\<forall>d. I d \<longrightarrow>
       (\<forall>v. I (d\<lparr>rd_Id := v\<rparr>)) \<and> (\<forall>b. I (d\<lparr>rd_partial := b\<rparr>))
     \<and> (\<forall>k v. k \<in> set readKeys \<longrightarrow> I (d\<lparr>rd_attrs := (rd_attrs d)(k := v)\<rparr>)))"

text \<open>Two resource data with the same prior state and the same planned values.\<close>

definition sameChange :: "ResourceData \<Rightarrow> ResourceData \<Rightarrow> bool" where
  "sameChange d0 d = (rd_old d = rd_old d0 \<and> rd_new d = rd_new d0)"

text \<open>
  The paths of an \<open>UpdateInstanceRequest\<close> whose field holds a value other than the zero
  value; for the placement policy, the paths of its three fields.
\<close>

definition populated :: "UpdateInstanceRequest \<Rightarrow> string list" where
  "populated req =
     (if uir_Name req \<noteq> [] then [''name''] else [])
   @ (if uir_Description req \<noteq> [] then [''description''] else [])
   @ (if uir_Labels req \<noteq> None then [''labels''] else [])
   @ (if uir_ResourcesSpec req \<noteq> None then [''resources_spec''] else [])
   @ (if uir_PlatformId req \<noteq> [] then [''platform_id''] else [])
   @ (if uir_ServiceAccountId req \<noteq> [] then [''service_account_id''] else [])
   @ (if uir_Metadata req \<noteq> None then [''metadata''] else [])
   @ (if uir_MetadataOptions req \<noteq> None then [''metadata_options''] else [])
   @ (if uir_NetworkSettings req \<noteq> None then [''network_settings''] else [])
   @ (case uir_PlacementPolicy req of
        None \<Rightarrow> []
      | Some p \<Rightarrow>
          (if pp_PlacementGroupId p \<noteq> [] then [''placement_policy.placement_group_id''] else [])
        @ (if pp_HostAffinityRules p \<noteq> None then [''placement_policy.host_affinity_rules''] else [])
        @ (if pp_PlacementGroupPartition p \<noteq> 0
           then [''placement_policy.placement_group_partition''] else []))
   @ (if uir_SchedulingPolicy req \<noteq> None then [''scheduling_policy.preemptible''] else [])
   @ (if uir_MaintenancePolicy req \<noteq> MAINTENANCE_POLICY_UNSPECIFIED
      then [''maintenance_policy''] else [])
   @ (if uir_MaintenanceGracePeriod req \<noteq> None then [''maintenance_grace_period''] else [])"

text \<open>
  What the specification says of the update mask. The properties that have a request
  of their own, and for the other requests the property each path stands for:
\<close>

definition singleProperties :: "string list" where
  "singleProperties =
     [''labels'', ''metadata'', ''metadata_options'', ''name'', ''description'',
      ''service_account_id'']"

definition maintenancePaths :: "(string \<times> string) list" where
  "maintenancePaths =
     [(''maintenance_policy'', ''maintenance_policy''),
      (''maintenance_grace_period'', ''maintenance_grace_period'')]"

definition stoppedPaths :: "(string \<times> string) list" where
  "stoppedPaths =
     [(''resources'', ''resources_spec''),
      (''platform_id'', ''platform_id''),
      (''network_acceleration_type'', ''network_settings''),
      (''scheduling_policy'', ''scheduling_policy.preemptible'')]"

definition placementPaths :: "(string \<times> string) list" where
  "placementPaths =
     [(''placement_policy.0.placement_group_id'', ''placement_policy.placement_group_id''),
      (''placement_policy.0.host_affinity_rules'', ''placement_policy.host_affinity_rules''),
      (''placement_policy.0.placement_group_partition'',
       ''placement_policy.placement_group_partition'')]"

text \<open>The paths of the properties that changed, in the order of the table.\<close>

definition changedPaths :: "ResourceData \<Rightarrow> (string \<times> string) list \<Rightarrow> string list" where
  "changedPaths d table = map snd (filter (\<lambda>(k, path). d_HasChange d k) table)"

text \<open>
  \<open>maskExact d req\<close>: no field outside the mask of \<open>req\<close> holds a value, and the mask is
  the one path of a changed property that has a request of its own, or the paths of
  the changed maintenance properties (one at least), or the paths of the changed
  properties of the request to the stopped instance (a path of the placement policy
  when \<open>placement_policy\<close> and the field under it changed).
\<close>

definition maskExact :: "ResourceData \<Rightarrow> UpdateInstanceRequest \<Rightarrow> bool" where
  "maskExact d req =
     (set (populated req) \<subseteq> set (uir_UpdateMask req)
      \<and> (list_ex (\<lambda>k. d_HasChange d k \<and> uir_UpdateMask req = [k]) singleProperties
         \<or> (uir_UpdateMask req = changedPaths d maintenancePaths \<and> uir_UpdateMask req \<noteq> [])
         \<or> (list_ex (d_HasChange d) stopProperties
            \<and> uir_UpdateMask req =
                changedPaths d stoppedPaths
                @ (if d_HasChange d ''placement_policy'' then changedPaths d placementPaths
                   else []))))"

definition updatesExact :: "ResourceData \<Rightarrow> rpc \<Rightarrow> bool" where
  "updatesExact d r = (case r of InstanceUpdate req \<Rightarrow> maskExact d req | _ \<Rightarrow> True)"

section \<open>Update when stopping is not allowed\<close>

text \<open>The error of \<open>ensureAllowStoppingForUpdate\<close> for the properties \<open>names\<close>.\<close>

definition stoppingError :: "string list \<Rightarrow> error" where
  "stoppingError names =
     ''Changing the '' @ strings_Join names '', '' @ '' in an instance requires stopping it. ''
     @ ''To acknowledge this action, please set allow_stopping_for_update = true in your config file.''"

text \<open>The paths of the request to the stopped instance.\<close>

definition stoppedMaskPaths :: "string list" where
  "stoppedMaskPaths = map snd stoppedPaths @ map snd placementPaths"

text \<open>
  The change of \<open>network_interface\<close> needs a stopped instance: the plan that Update makes
  for the interfaces of the instance it has read sets
  \<open>needUpdateInterfacesOnStoppedInstance\<close>.
\<close>

definition interfacesNeedStop :: "env \<Rightarrow> ResourceData \<Rightarrow> Instance \<Rightarrow> bool" where
  "interfacesNeedStop env d inst =
     (case planNetworkInterfaces env d inst of
        Inl err \<Rightarrow> False
      | Inr plan \<Rightarrow> needUpdateInterfacesOnStoppedInstance plan)"

text \<open>
  The calls that do not need a stopped instance: not Stop, Start or Move, not the attach
  or detach of a network interface, an \<open>UpdateInstanceRequest\<close> only with a mask that
  has a path and has none of the paths of the request to the stopped instance, and,
  where the change of \<open>network_interface\<close> needs a stopped instance (\<open>nics\<close>), no update of
  a network interface and no request to add or remove a NAT.
\<close>

fun withoutStopping :: "bool \<Rightarrow> rpc \<Rightarrow> bool" where
  "withoutStopping nics (InstanceStop i) = False"
| "withoutStopping nics (InstanceStart i) = False"
| "withoutStopping nics (InstanceMove req) = False"
| "withoutStopping nics (InstanceAttachNetworkInterface req) = False"
| "withoutStopping nics (InstanceDetachNetworkInterface req) = False"
| "withoutStopping nics (InstanceUpdate req) =
     (uir_UpdateMask req \<noteq> [] \<and> list_all (\<lambda>p. p \<notin> set stoppedMaskPaths) (uir_UpdateMask req))"
| "withoutStopping nics (InstanceUpdateNetworkInterface req) = (\<not> nics)"
| "withoutStopping nics (InstanceAddOneToOneNat req) = (\<not> nics)"
| "withoutStopping nics (InstanceRemoveOneToOneNat req) = (\<not> nics)"
| "withoutStopping nics r = True"

text \<open>Stopping is not allowed, and the changes are those of \<open>d0\<close>.\<close>

definition stoppingRefused :: "ResourceData \<Rightarrow> ResourceData \<Rightarrow> bool" where
  "stoppingRefused d0 d =
     (sameChange d0 d \<and> \<not> asBool (d_Get d ''allow_stopping_for_update''))"

text \<open>
  An instance whose \<open>platform_id\<close> and \<open>labels\<close> are to change, with stopping not
  allowed.
\<close>

definition refusedData :: ResourceData where
  "refusedData =
     \<lparr> rd_Id = ''vm-1'', rd_partial = False,
       rd_attrs = (\<lambda>k. VNil)
         (''name'' := VString ''vm'', ''platform_id'' := VString ''standard-v3'',
          ''labels'' := VObj [(''env'', VString ''prod'')],
          ''allow_stopping_for_update'' := VBool False),
       rd_old = (\<lambda>k. VNil)
         (''name'' := VString ''vm'', ''platform_id'' := VString ''standard-v1'',
          ''allow_stopping_for_update'' := VBool False),
       rd_new = (\<lambda>k. VNil)
         (''name'' := VString ''vm'', ''platform_id'' := VString ''standard-v3'',
          ''labels'' := VObj [(''env'', VString ''prod'')],
          ''allow_stopping_for_update'' := VBool False) \<rparr>"

definition refusedEvents :: "event list" where
  "refusedEvents =
     [Called (InstanceGet \<lparr>gir_InstanceId = ''vm-1'', gir_View = BASIC\<rparr>) None,
      Called (InstanceUpdate (labelsRequest ''vm-1'')) None,
      Waited (InstanceUpdate (labelsRequest ''vm-1'')) None]"

text \<open>
  An instance whose only change is the subnet of its network interface, with stopping
  not allowed.
\<close>

definition nicData :: ResourceData where
  "nicData =
     \<lparr> rd_Id = ''vm-1'', rd_partial = False,
       rd_attrs = (\<lambda>k. VNil)
         (''name'' := VString ''vm'',
          ''network_interface'' := VList [VObj [(''subnet_id'', VString ''subnet-b'')]],
          ''allow_stopping_for_update'' := VBool False),
       rd_old = (\<lambda>k. VNil)
         (''name'' := VString ''vm'',
          ''network_interface'' := VList [VObj [(''subnet_id'', VString ''subnet-a'')]],
          ''allow_stopping_for_update'' := VBool False),
       rd_new = (\<lambda>k. VNil)
         (''name'' := VString ''vm'',
          ''network_interface'' := VList [VObj [(''subnet_id'', VString ''subnet-b'')]],
          ''allow_stopping_for_update'' := VBool False) \<rparr>"

text \<open>
  An instance whose \<open>folder_id\<close> is to change, with the values of
  \<open>allow_stopping_for_update\<close> and \<open>allow_recreate\<close>.
\<close>

definition moveData :: "bool \<Rightarrow> bool \<Rightarrow> ResourceData" where
  "moveData allowStopping allowRecreate =
     \<lparr> rd_Id = ''vm-1'', rd_partial = False,
       rd_attrs = (\<lambda>k. VNil)
         (''name'' := VString ''vm'', ''folder_id'' := VString ''folder-b'',
          ''allow_stopping_for_update'' := VBool allowStopping,
          ''allow_recreate'' := VBool allowRecreate),
       rd_old = (\<lambda>k. VNil)
         (''name'' := VString ''vm'', ''folder_id'' := VString ''folder-a'',
          ''allow_stopping_for_update'' := VBool allowStopping,
          ''allow_recreate'' := VBool allowRecreate),
       rd_new = (\<lambda>k. VNil)
         (''name'' := VString ''vm'', ''folder_id'' := VString ''folder-b'',
          ''allow_stopping_for_update'' := VBool allowStopping,
          ''allow_recreate'' := VBool allowRecreate) \<rparr>"

section \<open>Update when the folder changes\<close>

text \<open>A call that returned an operation, and the wait for it that succeeded.\<close>

definition okEvents :: "rpc \<Rightarrow> event list" where
  "okEvents r = [Called r None, Waited r None]"

text \<open>The events of a call that failed, or whose operation failed.\<close>

fun failedEvents :: "rpc \<Rightarrow> event list \<Rightarrow> bool" where
  "failedEvents r [Called r' (Some e)] = (r' = r)"
| "failedEvents r [Called r' None, Waited r'' (Some e)] = (r' = r \<and> r'' = r)"
| "failedEvents r evs = False"

text \<open>
  \<open>ran rs evs ok\<close>: \<open>evs\<close> are the events of the calls \<open>rs\<close> made in this order, each
  waited for, up to the first that fails; \<open>ok\<close> tells that none failed.
\<close>

fun ran :: "rpc list \<Rightarrow> event list \<Rightarrow> bool \<Rightarrow> bool" where
  "ran [] evs ok = (evs = [] \<and> ok)"
| "ran (r # rs) evs ok =
     ((failedEvents r evs \<and> \<not> ok) \<or> (take 2 evs = okEvents r \<and> ran rs (drop 2 evs) ok))"

text \<open>
  The calls that move the instance \<open>inst\<close> to the folder of the configuration: Stop unless
  the instance is stopped, Move, Start.
\<close>

definition moveSteps :: "Instance \<Rightarrow> ResourceData \<Rightarrow> rpc list" where
  "moveSteps inst d =
     (if inst_Status inst \<noteq> STOPPED then [InstanceStop (rd_Id d)] else [])
     @ [InstanceMove \<lparr>mir_InstanceId = rd_Id d,
                      mir_DestinationFolderId = asString (d_Get d ''folder_id'')\<rparr>,
        InstanceStart (rd_Id d)]"

fun isMove :: "rpc \<Rightarrow> bool" where
  "isMove (InstanceMove req) = True"
| "isMove r = False"

definition notMove :: "rpc \<Rightarrow> bool" where
  "notMove r = (\<not> isMove r)"





text \<open>The resource data after Read in the example environment.\<close>

definition readData :: "ResourceData \<Rightarrow> ResourceData" where
  "readData d = fst (snd (resourceYandexComputeInstanceRead exampleEnv [] d))"

section \<open>Stop, update, start\<close>

text \<open>
  The requests for the interfaces of a stopped instance, in the order in which Update
  sends them.
\<close>

definition interfaceSteps :: "nic_plan \<Rightarrow> rpc list" where
  "interfaceSteps plan =
     (if needUpdateInterfacesOnStoppedInstance plan then
        map InstanceRemoveOneToOneNat (removeNatRequests plan)
        @ map InstanceAddOneToOneNat (addNatRequests plan)
        @ map InstanceUpdateNetworkInterface (updateInterfaceRequests plan)
        @ map InstanceAttachNetworkInterface (attachInterfaceRequests plan)
        @ map InstanceDetachNetworkInterface (detachInterfaceRequests plan)
      else [])"

text \<open>
  The calls of the last block of Update: Stop, the request to the stopped instance when
  one of its five properties changed, the requests for the interfaces, Start. \<open>None\<close>
  where the request to the stopped instance cannot be built.
\<close>

definition stoppedSteps :: "env \<Rightarrow> ResourceData \<Rightarrow> nic_plan \<Rightarrow> rpc list option" where
  "stoppedSteps env d plan =
     (if list_ex (d_HasChange d) stopProperties then
        (case stoppedInstanceUpdateRequest env d of
           Inl err \<Rightarrow> None
         | Inr req \<Rightarrow>
             Some ([InstanceStop (rd_Id d), InstanceUpdate req] @ interfaceSteps plan
                   @ [InstanceStart (rd_Id d)]))
      else Some ([InstanceStop (rd_Id d)] @ interfaceSteps plan @ [InstanceStart (rd_Id d)]))"

text \<open>
  The calls that Update makes outside its last block: no attach or detach of a network
  interface, an \<open>UpdateInstanceRequest\<close> only with a mask that has a path and has none of
  the paths of the request to the stopped instance, and, where the change of
  \<open>network_interface\<close> needs a stopped instance (\<open>nics\<close>), no update of a network interface
  and no request to add or remove a NAT.
\<close>

fun unstopped :: "bool \<Rightarrow> rpc \<Rightarrow> bool" where
  "unstopped nics (InstanceAttachNetworkInterface req) = False"
| "unstopped nics (InstanceDetachNetworkInterface req) = False"
| "unstopped nics (InstanceUpdate req) =
     (uir_UpdateMask req \<noteq> [] \<and> list_all (\<lambda>p. p \<notin> set stoppedMaskPaths) (uir_UpdateMask req))"
| "unstopped nics (InstanceUpdateNetworkInterface req) = (\<not> nics)"
| "unstopped nics (InstanceAddOneToOneNat req) = (\<not> nics)"
| "unstopped nics (InstanceRemoveOneToOneNat req) = (\<not> nics)"
| "unstopped nics r = True"

text \<open>The changes and the value of \<open>allow_stopping_for_update\<close> are those of \<open>d0\<close>.\<close>

definition sameSettings :: "ResourceData \<Rightarrow> ResourceData \<Rightarrow> bool" where
  "sameSettings d0 d =
     (sameChange d0 d
      \<and> d_Get d ''allow_stopping_for_update'' = d_Get d0 ''allow_stopping_for_update'')"

text \<open>
  \<open>calls m r d\<close>: on the resource data \<open>d\<close>, the program \<open>m\<close> makes the call \<open>r\<close> and waits
  for it, and leaves \<open>d\<close> as it is. \<open>runs n rs d\<close>: the program \<open>n\<close> makes the calls \<open>rs\<close> in
  this order up to the first that fails.
\<close>

definition calls :: "unit prog \<Rightarrow> rpc \<Rightarrow> ResourceData \<Rightarrow> bool" where
  "calls m r d = (\<forall>h res d' evs. m h d = (res, d', evs) \<longrightarrow>
       d' = d \<and> (res = Inr () \<and> evs = okEvents r \<or> isl res \<and> failedEvents r evs))"

definition runs :: "unit prog \<Rightarrow> rpc list \<Rightarrow> ResourceData \<Rightarrow> bool" where
  "runs n rs d = (\<forall>h res d' evs. n h d = (res, d', evs) \<longrightarrow>
       d' = d \<and> ran rs evs (\<not> isl res))"

text \<open>The instance must be stopped for what changed.\<close>

definition needsStop :: "env \<Rightarrow> ResourceData \<Rightarrow> Instance \<Rightarrow> bool" where
  "needsStop env d inst =
     (list_ex (d_HasChange d) stopProperties \<or> interfacesNeedStop env d inst)"

text \<open>
  An instance whose only change is the subnet of its network interface, with stopping
  allowed; the request for that interface, and the events of Update.
\<close>

definition nicAllowedData :: ResourceData where
  "nicAllowedData =
     \<lparr> rd_Id = ''vm-1'', rd_partial = False,
       rd_attrs = (\<lambda>k. VNil)
         (''name'' := VString ''vm'',
          ''network_interface'' := VList [VObj [(''subnet_id'', VString ''subnet-b'')]],
          ''allow_stopping_for_update'' := VBool True),
       rd_old = (\<lambda>k. VNil)
         (''name'' := VString ''vm'',
          ''network_interface'' := VList [VObj [(''subnet_id'', VString ''subnet-a'')]],
          ''allow_stopping_for_update'' := VBool True),
       rd_new = (\<lambda>k. VNil)
         (''name'' := VString ''vm'',
          ''network_interface'' := VList [VObj [(''subnet_id'', VString ''subnet-b'')]],
          ''allow_stopping_for_update'' := VBool True) \<rparr>"

definition subnetRequest :: UpdateInstanceNetworkInterfaceRequest where
  "subnetRequest =
     \<lparr> unr_InstanceId = ''vm-1'',
       unr_NetworkInterfaceIndex = digits 0,
       unr_UpdateMask = [''subnet_id'', ''primary_v4_address_spec'', ''primary_v6_address_spec''],
       unr_SubnetId = ''subnet-b'',
       unr_PrimaryV4AddressSpec = None,
       unr_PrimaryV6AddressSpec = None,
       unr_SecurityGroupIds = [] \<rparr>"

definition subnetPlan :: nic_plan where
  "subnetPlan = noInterfaceChanges\<lparr> needUpdateInterfacesOnStoppedInstance := True,
                                    updateInterfaceRequests := [subnetRequest] \<rparr>"

definition subnetEvents :: "event list" where
  "subnetEvents =
     [Called (InstanceGet \<lparr>gir_InstanceId = ''vm-1'', gir_View = BASIC\<rparr>) None]
     @ okEvents (InstanceStop ''vm-1'')
     @ okEvents (InstanceUpdateNetworkInterface subnetRequest)
     @ okEvents (InstanceStart ''vm-1'')
     @ [Called (InstanceGet \<lparr>gir_InstanceId = ''vm-1'', gir_View = FULL\<rparr>) None]"

section \<open>Properties of the string functions\<close>

lemma hasPrefix_iff_prefix: "hasPrefix s p \<longleftrightarrow> prefix p s"
  by (induction s p rule: hasPrefix.induct) auto

lemma indexOf_single_None: "indexOf s [c] = None \<longleftrightarrow> c \<notin> set s"
  by (induction s) auto

lemma strings_Contains_single: "strings_Contains s [c] \<longleftrightarrow> c \<in> set s"
  using indexOf_single_None [of s c] by (simp add: strings_Contains_def)

lemma strings_HasSuffix_iff_suffix: "strings_HasSuffix s suf \<longleftrightarrow> suffix suf s"
proof
  assume "strings_HasSuffix s suf"
  then have "drop (length s - length suf) s = suf"
    by (simp add: strings_HasSuffix_def)
  then have "s = take (length s - length suf) s @ suf"
    by (metis append_take_drop_id)
  then show "suffix suf s"
    by (metis suffixI)
next
  assume "suffix suf s"
  then obtain zs where "s = zs @ suf"
    by (auto simp: suffix_def)
  then show "strings_HasSuffix s suf"
    by (simp add: strings_HasSuffix_def)
qed

lemma splitFrom_single:
  "\<exists>rest. splitFrom [c] acc s = (rev acc @ takeWhile (\<lambda>x. x \<noteq> c) s) # rest"
proof (induction s arbitrary: acc)
  case Nil
  show ?case by simp
next
  case (Cons a s)
  show ?case using Cons.IH [of "a # acc"] by auto
qed

lemma strings_Split_single:
  "\<exists>rest. strings_Split s [c] = takeWhile (\<lambda>x. x \<noteq> c) s # rest"
  using splitFrom_single [of c "[]" s] by (simp add: strings_Split_def)

lemma parseHostnameFromFQDN_result:
  "parseHostnameFromFQDN fqdn =
     Some ((if CHR ''.'' \<notin> set fqdn then fqdn @ ''.''
            else if suffix ''.auto.internal'' fqdn then []
            else if suffix ''.internal'' fqdn then takeWhile (\<lambda>c. c \<noteq> CHR ''.'') fqdn
            else fqdn),
           None)"
proof -
  obtain rest where sp: "strings_Split fqdn ''.'' = takeWhile (\<lambda>c. c \<noteq> CHR ''.'') fqdn # rest"
    using strings_Split_single [of fqdn "CHR ''.''"] by blast
  show ?thesis
    unfolding parseHostnameFromFQDN_def
    by (simp add: strings_Contains_single strings_HasSuffix_iff_suffix sp)
qed

section \<open>Rules for programs\<close>

lemmas prog_defs = bind_def branch_def andThen_def withData_def lift_def mapErr_def return_def
  failWith_def whenever_def callOperation_def WrapOperation_def opWait_def opResponse_def
  d_SetId_def d_Partial_def d_Set_def d_Set_unchecked_def returnHandleNotFoundError_def
  callAndWait_def instanceGet_def profileGet_def

lemma branch_Inl:
  "m h d = (Inl e, d1, ev1) \<Longrightarrow>
   branch m onErr onOk h d = (case onErr e (h @ ev1) d1 of (r, d2, ev2) \<Rightarrow> (r, d2, ev1 @ ev2))"
  by (simp add: branch_def)

lemma branch_Inr:
  "m h d = (Inr x, d1, ev1) \<Longrightarrow>
   branch m onErr onOk h d = (case onOk x (h @ ev1) d1 of (r, d2, ev2) \<Rightarrow> (r, d2, ev1 @ ev2))"
  by (simp add: branch_def)

lemma bind_Inl: "m h d = (Inl e, d1, ev1) \<Longrightarrow> bind m f h d = (Inl e, d1, ev1)"
  by (simp add: bind_def branch_def failWith_def)

lemma bind_Inr:
  "m h d = (Inr x, d1, ev1) \<Longrightarrow>
   bind m f h d = (case f x (h @ ev1) d1 of (r, d2, ev2) \<Rightarrow> (r, d2, ev1 @ ev2))"
  by (simp add: bind_def branch_def)

lemma bind_success:
  assumes "bind m f h d = (Inr y, d2, evs)"
  obtains x d1 ev1 ev2 where "m h d = (Inr x, d1, ev1)" "f x (h @ ev1) d1 = (Inr y, d2, ev2)"
    "evs = ev1 @ ev2"
proof -
  obtain r d1 ev1 where m: "m h d = (r, d1, ev1)" by (metis prod_cases3)
  show ?thesis
  proof (cases r)
    case (Inl e)
    with m assms show ?thesis by (simp add: bind_Inl)
  next
    case (Inr x)
    obtain r2 d2' ev2 where f: "f x (h @ ev1) d1 = (r2, d2', ev2)" by (metis prod_cases3)
    with m Inr assms have "r2 = Inr y" "d2' = d2" "evs = ev1 @ ev2" by (simp_all add: bind_Inr)
    with m Inr f that show ?thesis by blast
  qed
qed

subsection \<open>Rules for \<open>safe\<close>\<close>

lemma safeI:
  "(\<And>h d r d' evs. I d \<Longrightarrow> m h d = (r, d', evs) \<Longrightarrow> I d' \<and> list_all E evs) \<Longrightarrow> safe I E m"
  by (auto simp: safe_def)

lemma safeD:
  assumes "safe I E m" "I d" "m h d = (r, d', evs)"
  shows "I d' \<and> list_all E evs"
  using assms(1) [unfolded safe_def, rule_format, OF assms(2), of h] assms(3) by simp

lemma safe_return: "safe I E (return x)"
  by (simp add: safe_def return_def)

lemma safe_failWith: "safe I E (failWith e)"
  by (simp add: safe_def failWith_def)

lemma safe_lift: "safe I E (lift r)"
  by (simp add: safe_def lift_def)

lemma safe_branch:
  assumes "safe I E m" "\<And>e. safe I E (onErr e)" "\<And>x. safe I E (onOk x)"
  shows "safe I E (branch m onErr onOk)"
proof (rule safeI)
  fix h d r d' evs
  assume I: "I d" and run: "branch m onErr onOk h d = (r, d', evs)"
  obtain r1 d1 ev1 where m: "m h d = (r1, d1, ev1)" by (metis prod_cases3)
  from safeD [OF assms(1) I m] have I1: "I d1" and E1: "list_all E ev1" by auto
  show "I d' \<and> list_all E evs"
  proof (cases r1)
    case (Inl e)
    obtain r2 d2 ev2 where k: "onErr e (h @ ev1) d1 = (r2, d2, ev2)" by (metis prod_cases3)
    from safeD [OF assms(2) I1 k] run m Inl k E1 show ?thesis by (auto simp: branch_Inl)
  next
    case (Inr x)
    obtain r2 d2 ev2 where k: "onOk x (h @ ev1) d1 = (r2, d2, ev2)" by (metis prod_cases3)
    from safeD [OF assms(3) I1 k] run m Inr k E1 show ?thesis by (auto simp: branch_Inr)
  qed
qed

lemma safe_bind: "safe I E m \<Longrightarrow> (\<And>x. safe I E (f x)) \<Longrightarrow> safe I E (bind m f)"
  unfolding bind_def by (rule safe_branch) (simp_all add: safe_failWith)

lemma safe_bind_lift: "(\<And>x. r = Inr x \<Longrightarrow> safe I E (f x)) \<Longrightarrow> safe I E (bind (lift r) f)"
  by (cases r) (auto simp: safe_def bind_def branch_def lift_def failWith_def split: prod.splits)

lemma safe_andThen: "safe I E m \<Longrightarrow> safe I E n \<Longrightarrow> safe I E (andThen m n)"
  unfolding andThen_def by (rule safe_bind)

lemma safe_seq: "(\<And>m. m \<in> set ms \<Longrightarrow> safe I E m) \<Longrightarrow> safe I E (seq ms)"
  by (induction ms) (simp_all add: safe_return safe_andThen)

lemma safe_whenever: "(b \<Longrightarrow> safe I E m) \<Longrightarrow> safe I E (whenever b m)"
  by (simp add: whenever_def safe_return)

lemma safe_forEach: "(\<And>x. x \<in> set xs \<Longrightarrow> safe I E (f x)) \<Longrightarrow> safe I E (forEach xs f)"
  by (induction xs) (simp_all add: safe_return safe_andThen)

lemma safe_mapErr: "safe I E m \<Longrightarrow> safe I E (mapErr g m)"
  unfolding mapErr_def by (rule safe_branch) (simp_all add: safe_failWith safe_return)

lemma safe_withData: "(\<And>d. I d \<Longrightarrow> safe I E (f d)) \<Longrightarrow> safe I E (withData f)"
  by (auto simp: safe_def withData_def)

lemma safe_callOperation: "(\<And>e. E (Called r e)) \<Longrightarrow> safe I E (callOperation env r)"
  by (auto simp: safe_def callOperation_def split: sum.splits)

lemma safe_opWait: "(\<And>e. E (Waited r e)) \<Longrightarrow> safe I E (opWait r op)"
  by (auto simp: safe_def opWait_def split: option.splits)

lemma safe_opResponse: "safe I E (opResponse op)"
  by (simp add: opResponse_def safe_lift)

lemma safe_callAndWait:
  "(\<And>e. E (Called r e)) \<Longrightarrow> (\<And>e. E (Waited r e)) \<Longrightarrow> safe I E (callAndWait env r f g)"
  unfolding callAndWait_def
  by (intro safe_bind safe_mapErr safe_callOperation safe_opWait)

lemma safe_instanceGet: "(\<And>e. E (Called (InstanceGet req) e)) \<Longrightarrow> safe I E (instanceGet env req)"
  by (auto simp: safe_def instanceGet_def split: sum.splits)

lemma safe_profileGet: "(\<And>e. E (Called (ProfileGet req) e)) \<Longrightarrow> safe I E (profileGet env req)"
  by (auto simp: safe_def profileGet_def split: sum.splits)

lemma safe_d_Set:
  "(\<And>d. I d \<Longrightarrow> I (d\<lparr>rd_attrs := (rd_attrs d)(k := v)\<rparr>)) \<Longrightarrow> safe I E (d_Set env k v)"
  by (auto simp: safe_def d_Set_def split: option.splits)

lemma safe_d_Set_unchecked:
  "(\<And>d. I d \<Longrightarrow> I (d\<lparr>rd_attrs := (rd_attrs d)(k := v)\<rparr>)) \<Longrightarrow> safe I E (d_Set_unchecked env k v)"
  by (auto simp: safe_def d_Set_unchecked_def d_Set_def split: option.splits)

lemma safe_d_SetId: "(\<And>d. I d \<Longrightarrow> I (d\<lparr>rd_Id := v\<rparr>)) \<Longrightarrow> safe I E (d_SetId v)"
  by (auto simp: safe_def d_SetId_def)

lemma safe_d_Partial: "(\<And>d. I d \<Longrightarrow> I (d\<lparr>rd_partial := b\<rparr>)) \<Longrightarrow> safe I E (d_Partial b)"
  by (auto simp: safe_def d_Partial_def)

lemma safe_returnHandleNotFoundError:
  "(\<And>d v. I d \<Longrightarrow> I (d\<lparr>rd_Id := v\<rparr>)) \<Longrightarrow> safe I E (returnHandleNotFoundError env err name)"
  by (auto simp: safe_def returnHandleNotFoundError_def split: prod.splits option.splits)

subsection \<open>A run of \<open>d.Set\<close> calls\<close>

lemma andThen_d_Set:
  "andThen (d_Set env k v) m h d =
     (case set_error env k v of
        Some err \<Rightarrow> (Inl err, d, [])
      | None \<Rightarrow> m h (d\<lparr>rd_attrs := (rd_attrs d)(k := v)\<rparr>))"
  by (simp add: andThen_def bind_def branch_def d_Set_def failWith_def split: option.splits prod.splits)

lemma setAll_result:
  "setAll env kvs h d = (r, d', evs) \<Longrightarrow>
     evs = [] \<and> rd_Id d' = rd_Id d \<and>
     (case r of
        Inr u \<Rightarrow> (\<forall>(k, v) \<in> set kvs. set_error env k v = None)
                 \<and> rd_attrs d' = fold (\<lambda>(k, v) f. f(k := v)) kvs (rd_attrs d)
      | Inl err \<Rightarrow> (\<exists>(k, v) \<in> set kvs. set_error env k v = Some err))"
proof (induction kvs arbitrary: d)
  case Nil
  then show ?case by (auto simp: setAll_def return_def)
next
  case (Cons kv kvs)
  obtain k v where kv: "kv = (k, v)" by (cases kv)
  show ?case
  proof (cases "set_error env k v")
    case None
    with Cons.prems kv
    have "setAll env kvs h (d\<lparr>rd_attrs := (rd_attrs d)(k := v)\<rparr>) = (r, d', evs)"
      by (simp add: setAll_def andThen_d_Set)
    from Cons.IH [OF this] None kv show ?thesis
      by (cases r) simp_all
  next
    case (Some err)
    with Cons.prems kv show ?thesis
      by (auto simp: setAll_def andThen_d_Set)
  qed
qed

subsection \<open>The example environment\<close>

lemma exampleEnv_simps:
  "api_operation exampleEnv = (\<lambda>h r. Inr (doneOperation r))"
  "api_instance exampleEnv = (\<lambda>h req. Inr exampleInstance)"
  "api_profile exampleEnv = (\<lambda>h profileId. Inr exampleProfile)"
  "handleNotFoundError exampleEnv = (\<lambda>err name. (Some (''error reading '' @ name @ '': '' @ err), None))"
  "set_error exampleEnv = (\<lambda>k v. None)"
  "expand_d exampleEnv = (\<lambda>name d. Inr (Some name))"
  "expand_v exampleEnv = (\<lambda>name v. Inr (Some name))"
  "build_d exampleEnv = (\<lambda>name d. Some name)"
  "build_v exampleEnv = (\<lambda>name v. Some name)"
  "string_d exampleEnv = (\<lambda>name d. Inr name)"
  "flatten_i exampleEnv = (\<lambda>name i. Inr (VString name))"
  "flat_i exampleEnv = (\<lambda>name i. VString name)"
  "flattenRuleSlice exampleEnv = (\<lambda>rules. Inr (VList []))"
  "getTimestamp exampleEnv = (\<lambda>t. t)"
  "formatDuration exampleEnv = (\<lambda>p. [])"
  by (simp_all add: exampleEnv_def)

lemma waitFailsEnv_simps:
  "api_operation waitFailsEnv =
     (\<lambda>h r. Inr ((doneOperation r)\<lparr> op_Wait := Some ''deadline exceeded'' \<rparr>))"
  "expand_d waitFailsEnv = (\<lambda>name d. Inr (Some name))"
  "expand_v waitFailsEnv = (\<lambda>name v. Inr (Some name))"
  "build_d waitFailsEnv = (\<lambda>name d. Some name)"
  "build_v waitFailsEnv = (\<lambda>name v. Some name)"
  "string_d waitFailsEnv = (\<lambda>name d. Inr name)"
  by (simp_all add: waitFailsEnv_def exampleEnv_def)

lemma setFailsEnv_simps:
  "api_profile setFailsEnv = (\<lambda>h profileId. Inr exampleProfile)"
  "set_error setFailsEnv = (\<lambda>k v. if k = ''labels'' then Some ''labels: invalid value'' else None)"
  "flattenRuleSlice setFailsEnv = (\<lambda>rules. Inr (VList []))"
  "getTimestamp setFailsEnv = (\<lambda>t. t)"
  by (simp_all add: setFailsEnv_def exampleEnv_def)

lemma profileData_simps:
  "rd_Id profileData = ''arl-1''"
  "rd_attrs profileData = (\<lambda>k. VNil)(''name'' := VString ''limits'')"
  "rd_old profileData = (\<lambda>k. VNil)(''name'' := VString ''limit'')"
  "rd_new profileData = (\<lambda>k. VNil)(''name'' := VString ''limits'')"
  by (simp_all add: profileData_def)

subsection \<open>Create, and the profile resource\<close>

lemma computeCreate_wait_fails:
  assumes "prepareCreateInstanceRequest env d = Inr req"
      and "api_operation env h (InstanceCreate req) = Inr op"
      and "op_Metadata op = Inr (CreateInstanceMetadata instanceId)"
      and "op_Wait op = Some err"
  shows "resourceYandexComputeInstanceCreate env h d =
           (Inl (''Error while waiting operation to create instance: '' @ err),
            d\<lparr>rd_Id := instanceId\<rparr>,
            [Called (InstanceCreate req) None, Waited (InstanceCreate req) (Some err)])"
  using assms
  by (simp add: resourceYandexComputeInstanceCreate_def createInstanceMetadataId_def prog_defs)

lemma profileCreate_wait_fails:
  assumes "string_d env ''getFolderID'' d = Inr folderId"
      and "expand_d env ''expandAdvancedRateLimiterProfileAdvancedRateLimiterRulesSlice'' d = Inr rules"
      and "req = \<lparr> carl_FolderId = folderId,
                   carl_Labels = build_v env ''expandStringStringMap'' (d_Get d ''labels''),
                   carl_Name = asString (d_Get d ''name''),
                   carl_Description = asString (d_Get d ''description''),
                   carl_AdvancedRateLimiterRules = rules \<rparr>"
      and "api_operation env h (ProfileCreate req) = Inr op"
      and "op_Metadata op = Inr (CreateAdvancedRateLimiterProfileMetadata profileId)"
      and "op_Wait op = Some err"
  shows "resourceYandexSmartwebsecurityAdvancedRateLimiterAdvancedRateLimiterProfileCreate env h d =
           (Inl err, d\<lparr>rd_Id := profileId\<rparr>,
            [Called (ProfileCreate req) None, Waited (ProfileCreate req) (Some err)])"
  using assms
  by (simp add: resourceYandexSmartwebsecurityAdvancedRateLimiterAdvancedRateLimiterProfileCreate_def
      createProfileMetadataId_def prog_defs Let_def)

lemma exampleData_prepare: "\<exists>req. prepareCreateInstanceRequest waitFailsEnv exampleData = Inr req"
  by (simp add: prepareCreateInstanceRequest_def waitFailsEnv_simps bindE_def wrapE_def
      expandMaintenancePolicy_def d_GetOk_def d_Get_def exampleData_def)

lemma set_generateFieldMasks: "set (generateFieldMasks d fieldsMap) \<subseteq> snd ` set fieldsMap"
  by (auto simp: generateFieldMasks_def)

lemma profileUpdateRequest_mask:
  assumes "profileUpdateRequest env d = Inr req"
  shows "set (uarl_UpdateMask req)
           \<subseteq> {''labels'', ''name'', ''description'', ''advanced_rate_limiter_rules''}"
proof -
  from assms have "uarl_UpdateMask req = generateFieldMasks d
      resourceYandexSmartwebsecurityAdvancedRateLimiterAdvancedRateLimiterProfileUpdateFieldsMap"
    by (auto simp: profileUpdateRequest_def bindE_def Let_def split: sum.splits)
  then show ?thesis
    using set_generateFieldMasks [of d
        resourceYandexSmartwebsecurityAdvancedRateLimiterAdvancedRateLimiterProfileUpdateFieldsMap]
    by (auto simp: resourceYandexSmartwebsecurityAdvancedRateLimiterAdvancedRateLimiterProfileUpdateFieldsMap_def)
qed

lemma safe_profileRead:
  "(\<And>d v. I d \<Longrightarrow> I (d\<lparr>rd_Id := v\<rparr>)) \<Longrightarrow>
   (\<And>d k v. I d \<Longrightarrow> I (d\<lparr>rd_attrs := (rd_attrs d)(k := v)\<rparr>)) \<Longrightarrow>
   (\<And>p e. E (Called (ProfileGet p) e)) \<Longrightarrow>
   safe I E (resourceYandexSmartwebsecurityAdvancedRateLimiterAdvancedRateLimiterProfileRead env)"
  unfolding resourceYandexSmartwebsecurityAdvancedRateLimiterAdvancedRateLimiterProfileRead_def Let_def
  by (intro safe_withData safe_branch safe_profileGet safe_returnHandleNotFoundError
      safe_bind safe_lift safe_seq) (auto intro!: safe_d_Set)

lemma safe_profileUpdate:
  "safe (\<lambda>d. True)
     (maskWithin {''labels'', ''name'', ''description'', ''advanced_rate_limiter_rules''})
     (resourceYandexSmartwebsecurityAdvancedRateLimiterAdvancedRateLimiterProfileUpdate env)"
  unfolding resourceYandexSmartwebsecurityAdvancedRateLimiterAdvancedRateLimiterProfileUpdate_def
  apply (intro safe_withData safe_bind_lift safe_bind safe_seq safe_callOperation)
   apply (simp add: maskWithin_def profileUpdateRequest_mask)
  apply (auto intro!: safe_opWait safe_profileRead simp: maskWithin_def)
  done

lemma profileData_update_events:
  "snd (snd (resourceYandexSmartwebsecurityAdvancedRateLimiterAdvancedRateLimiterProfileUpdate
               exampleEnv [] profileData)) =
     [Called (ProfileUpdate profileDataRequest) None,
      Waited (ProfileUpdate profileDataRequest) None,
      Called (ProfileGet ''arl-1'') None]"
  by (simp add: resourceYandexSmartwebsecurityAdvancedRateLimiterAdvancedRateLimiterProfileUpdate_def
     resourceYandexSmartwebsecurityAdvancedRateLimiterAdvancedRateLimiterProfileRead_def
     profileUpdateRequest_def bindE_def prog_defs doneOperation_def Let_def
     exampleEnv_simps profileData_simps generateFieldMasks_def d_HasChange_def d_GetChange_def d_Get_def
     resourceYandexSmartwebsecurityAdvancedRateLimiterAdvancedRateLimiterProfileUpdateFieldsMap_def
     profileDataRequest_def)

lemma profileRead_unfold:
  "resourceYandexSmartwebsecurityAdvancedRateLimiterAdvancedRateLimiterProfileRead env h d =
     (case api_profile env h (rd_Id d) of
        Inl err \<Rightarrow>
          (case returnHandleNotFoundError env err
                  (''advanced_rate_limiter_profile '' @ quoted (rd_Id d))
                  (h @ [Called (ProfileGet (rd_Id d)) (Some err)]) d of
             (r, d2, ev2) \<Rightarrow> (r, d2, Called (ProfileGet (rd_Id d)) (Some err) # ev2))
      | Inr resp \<Rightarrow>
          (case flattenRuleSlice env (arl_AdvancedRateLimiterRules resp) of
             Inl err \<Rightarrow> (Inl err, d, [Called (ProfileGet (rd_Id d)) None])
           | Inr rule \<Rightarrow>
               (case setAll env
                       [(''advanced_rate_limiter_rule'', rule),
                        (''cloud_id'', VString (arl_CloudId resp)),
                        (''created_at'', VString (getTimestamp env (arl_CreatedAt resp))),
                        (''description'', VString (arl_Description resp)),
                        (''folder_id'', VString (arl_FolderId resp)),
                        (''labels'', stringMap (arl_Labels resp)),
                        (''name'', VString (arl_Name resp))]
                       (h @ [Called (ProfileGet (rd_Id d)) None]) d of
                  (r, d2, ev2) \<Rightarrow> (r, d2, Called (ProfileGet (rd_Id d)) None # ev2))))"
  by (simp add: resourceYandexSmartwebsecurityAdvancedRateLimiterAdvancedRateLimiterProfileRead_def
      withData_def branch_def profileGet_def bind_def lift_def failWith_def setAll_def Let_def
      split: sum.splits prod.splits)

lemma returnHandleNotFoundError_events:
  "returnHandleNotFoundError env err name h d = (r, d', evs) \<Longrightarrow> evs = []"
  by (auto simp: returnHandleNotFoundError_def split: prod.splits)

lemma some_set_fails_not_all_succeed:
  "\<exists>(k, v) \<in> S. f k v \<noteq> None \<Longrightarrow> \<forall>(k, v) \<in> S. f k v = None \<Longrightarrow> False"
  by auto

lemma profileData_read_ok:
  "fst (resourceYandexSmartwebsecurityAdvancedRateLimiterAdvancedRateLimiterProfileRead
          exampleEnv [] profileData) = Inr ()"
  by (simp add: profileRead_unfold exampleEnv_simps profileData_simps setAll_def andThen_d_Set
      return_def)

subsection \<open>Rules for \<open>polls\<close>\<close>


lemma settled_awaited: "settled a \<Longrightarrow> awaited a"
  by (induction a rule: settled.induct) (auto split: list.splits event.splits option.splits)




















lemma quiet_callOperation_fails:
  "deletes r \<Longrightarrow> callOperation env r h d = (Inl e, d', evs) \<Longrightarrow> settled evs"
  by (auto simp: callOperation_def split: sum.splits)




























subsection \<open>The example run of Update\<close>

lemma exampleData_simps:
  "rd_Id exampleData = ''vm-1''"
  "rd_partial exampleData = False"
  "rd_attrs exampleData = (\<lambda>k. VNil)
         (''name'' := VString ''vm'', ''platform_id'' := VString ''standard-v3'',
          ''labels'' := VObj [(''env'', VString ''prod'')],
          ''allow_stopping_for_update'' := VBool True)"
  "rd_old exampleData = (\<lambda>k. VNil)
         (''name'' := VString ''vm'', ''platform_id'' := VString ''standard-v1'',
          ''allow_stopping_for_update'' := VBool True)"
  "rd_new exampleData = (\<lambda>k. VNil)
         (''name'' := VString ''vm'', ''platform_id'' := VString ''standard-v3'',
          ''labels'' := VObj [(''env'', VString ''prod'')],
          ''allow_stopping_for_update'' := VBool True)"
  by (simp_all add: exampleData_def)

lemmas update_defs = resourceYandexComputeInstanceUpdate_def updateBeforeStop_def
    updateFolder_def updateLabels_def updateMetadata_def updateMetadataOptions_def updateName_def
    updateDescription_def updateServiceAccount_def updateMaintenance_def
    updateNetworkInterfaces_def updateSecondaryDisks_def updateFilesystems_def
    updateOnStoppedInstance_def planNetworkInterfaces_def noInterfaceChanges_def
    d_HasChange_def d_GetChange_def d_Get_def prog_defs
    makeInstanceUpdateRequest_def makeInstanceActionRequest_def makeInstanceMoveRequest_def Let_def
    ensureAllowStoppingForUpdate_def stoppedInstanceUpdateRequest_def bindE_def
    resourceYandexComputeInstanceRead_def readInstanceInto_def doneOperation_def
    stopProperties_def emptyUpdateInstanceRequest_def
    parseHostnameFromFQDN_result

lemma exampleData_run:
  "\<exists>d'. resourceYandexComputeInstanceUpdate exampleEnv [] exampleData = (Inr (), d', exampleEvents)"
  by (simp add: update_defs exampleData_simps exampleEnv_simps exampleInstance_def
      exampleEvents_def labelsRequest_def platformRequest_def)

subsection \<open>Runs without a wait\<close>






section \<open>Rules for the events of the compute instance resource\<close>

lemma keepsD:
  assumes "keeps I" "I d"
  shows "I (d\<lparr>rd_Id := v\<rparr>)" "I (d\<lparr>rd_partial := b\<rparr>)"
    "k \<in> set readKeys \<Longrightarrow> I (d\<lparr>rd_attrs := (rd_attrs d)(k := w)\<rparr>)"
  using assms unfolding keeps_def by blast+

lemma safe_onRpc_callAndWait: "P r \<Longrightarrow> safe I (onRpc P) (callAndWait env r f g)"
  by (rule safe_callAndWait) (simp_all add: onRpc_def)

lemma safe_make:
  "P (InstanceUpdate req) \<Longrightarrow> safe I (onRpc P) (makeInstanceUpdateRequest env req)"
  "P (InstanceUpdateNetworkInterface nreq) \<Longrightarrow>
     safe I (onRpc P) (makeInstanceUpdateNetworkInterfaceRequest env nreq)"
  "P (InstanceAddOneToOneNat areq) \<Longrightarrow> safe I (onRpc P) (makeInstanceAddOneToOneNatRequest env areq)"
  "P (InstanceRemoveOneToOneNat rreq) \<Longrightarrow>
     safe I (onRpc P) (makeInstanceRemoveOneToOneNatRequest env rreq)"
  "P (InstanceAttachNetworkInterface atreq) \<Longrightarrow>
     safe I (onRpc P) (makeInstanceAttachNetworkInterfaceRequest env atreq)"
  "P (InstanceDetachNetworkInterface dereq) \<Longrightarrow>
     safe I (onRpc P) (makeInstanceDetachNetworkInterfaceRequest env dereq)"
  "P (InstanceDetachDisk ddreq) \<Longrightarrow> safe I (onRpc P) (makeDetachDiskRequest env ddreq)"
  "P (InstanceAttachDisk adreq) \<Longrightarrow> safe I (onRpc P) (makeAttachDiskRequest env adreq)"
  "P (InstanceDetachFilesystem dfreq) \<Longrightarrow> safe I (onRpc P) (makeDetachFilesystemRequest env dfreq)"
  "P (InstanceAttachFilesystem afreq) \<Longrightarrow> safe I (onRpc P) (makeAttachFilesystemRequest env afreq)"
  "P (InstanceMove mreq) \<Longrightarrow> safe I (onRpc P) (makeInstanceMoveRequest env mreq)"
  unfolding makeInstanceUpdateRequest_def makeInstanceUpdateNetworkInterfaceRequest_def
    makeInstanceAddOneToOneNatRequest_def makeInstanceRemoveOneToOneNatRequest_def
    makeInstanceAttachNetworkInterfaceRequest_def makeInstanceDetachNetworkInterfaceRequest_def
    makeDetachDiskRequest_def makeAttachDiskRequest_def makeDetachFilesystemRequest_def
    makeAttachFilesystemRequest_def makeInstanceMoveRequest_def
  by (simp_all add: safe_withData safe_onRpc_callAndWait)

lemma safe_makeInstanceActionRequest:
  assumes "\<And>i. action = instanceActionStop \<Longrightarrow> P (InstanceStop i)"
      and "\<And>i. action = instanceActionStart \<Longrightarrow> P (InstanceStart i)"
  shows "safe I (onRpc P) (makeInstanceActionRequest env action)"
  unfolding makeInstanceActionRequest_def Let_def
  by (rule safe_withData) (cases action; simp add: safe_onRpc_callAndWait safe_failWith assms)

lemma safe_set_readKey:
  assumes "keeps I" "k \<in> set readKeys"
  shows "safe I E (d_Set env k v)" "safe I E (d_Set_unchecked env k v)"
  using assms
  by (auto simp: safe_def d_Set_def d_Set_unchecked_def keepsD split: option.splits)

lemma safe_if: "(b \<Longrightarrow> safe I E m) \<Longrightarrow> (\<not> b \<Longrightarrow> safe I E n) \<Longrightarrow> safe I E (if b then m else n)"
  by simp

lemma safe_case_prod: "(\<And>a b. safe I E (f a b)) \<Longrightarrow> safe I E (case p of (a, b) \<Rightarrow> f a b)"
  by (cases p) simp

lemma safe_case_option:
  "safe I E m \<Longrightarrow> (\<And>x. safe I E (f x)) \<Longrightarrow> safe I E (case v of None \<Rightarrow> m | Some x \<Rightarrow> f x)"
  by (cases v) simp_all

lemma safe_readInstanceInto:
  assumes "keeps I"
  shows "safe I E (readInstanceInto env instance)"
  unfolding readInstanceInto_def seq.simps
  by (intro safe_bind safe_lift safe_andThen safe_return safe_whenever safe_case_option
        safe_case_prod safe_failWith safe_set_readKey [OF assms])
     (simp_all add: readKeys_def)

lemma safe_computeRead:
  assumes "keeps I" "\<And>req. P (InstanceGet req)"
  shows "safe I (onRpc P) (resourceYandexComputeInstanceRead env)"
  unfolding resourceYandexComputeInstanceRead_def
  by (intro safe_withData safe_branch safe_instanceGet safe_returnHandleNotFoundError
        safe_readInstanceInto assms(1))
     (simp_all add: onRpc_def assms keepsD [OF assms(1)])

lemma safe_computeDelete:
  assumes "keeps I" "\<And>i. P (InstanceDelete i)"
  shows "safe I (onRpc P) (resourceYandexComputeInstanceDelete env)"
  unfolding resourceYandexComputeInstanceDelete_def seq.simps
  by (intro safe_withData safe_branch safe_callOperation safe_returnHandleNotFoundError
        safe_andThen safe_opWait safe_opResponse safe_return)
     (simp_all add: onRpc_def assms keepsD [OF assms(1)])

lemma safe_computeCreate:
  assumes "keeps I" "\<And>req. P (InstanceCreate req)" "\<And>req. P (InstanceGet req)"
  shows "safe I (onRpc P) (resourceYandexComputeInstanceCreate env)"
  unfolding resourceYandexComputeInstanceCreate_def seq.simps
  by (intro safe_withData safe_bind safe_lift safe_mapErr safe_callOperation safe_andThen
        safe_d_SetId safe_opWait safe_opResponse safe_return safe_computeRead assms)
     (simp_all add: onRpc_def assms keepsD [OF assms(1)])

subsection \<open>The update masks\<close>

lemma keeps_sameChange: "keeps (sameChange d0)"
  by (simp add: keeps_def sameChange_def)

lemma sameChange_HasChange: "sameChange d0 d \<Longrightarrow> d_HasChange d k = d_HasChange d0 k"
  by (simp add: sameChange_def d_HasChange_def d_GetChange_def)

lemma sameChange_maskExact: "sameChange d0 d \<Longrightarrow> maskExact d req = maskExact d0 req"
  by (simp add: maskExact_def changedPaths_def sameChange_HasChange list_ex_iff)

lemma populated_empty: "populated (emptyUpdateInstanceRequest i) = []"
  by (simp add: populated_def emptyUpdateInstanceRequest_def)

lemma maskExact_single:
  assumes "d_HasChange d k" "k \<in> set singleProperties"
    "uir_UpdateMask req = [k]" "set (populated req) \<subseteq> {k}"
  shows "maskExact d req"
  using assms by (auto simp: maskExact_def list_ex_iff)

lemma maskExact_maintenance:
  assumes "maintenanceUpdateRequest env d = Inr req"
      and "d_HasChange d ''maintenance_policy'' \<or> d_HasChange d ''maintenance_grace_period''"
  shows "maskExact d req"
proof -
  have "uir_UpdateMask req = changedPaths d maintenancePaths
        \<and> set (populated req) \<subseteq> set (uir_UpdateMask req)"
    using assms(1)
    by (auto simp: maintenanceUpdateRequest_def bindE_def changedPaths_def maintenancePaths_def
          populated_def emptyUpdateInstanceRequest_def split: if_splits sum.splits)
  moreover have "changedPaths d maintenancePaths \<noteq> []"
    using assms(2) by (auto simp: changedPaths_def maintenancePaths_def)
  ultimately show ?thesis by (auto simp: maskExact_def)
qed

lemma placement_paths:
  "preparePlacementPolicyForUpdateRequest env d = (p, paths) \<Longrightarrow>
     paths = changedPaths d placementPaths
     \<and> (pp_PlacementGroupId p \<noteq> [] \<longrightarrow> ''placement_policy.placement_group_id'' \<in> set paths)
     \<and> (pp_HostAffinityRules p \<noteq> None \<longrightarrow> ''placement_policy.host_affinity_rules'' \<in> set paths)
     \<and> (pp_PlacementGroupPartition p \<noteq> 0 \<longrightarrow>
          ''placement_policy.placement_group_partition'' \<in> set paths)"
  by (auto simp: preparePlacementPolicyForUpdateRequest_def changedPaths_def placementPaths_def
        Let_def split: if_splits)

lemma bindE_InrE:
  assumes "bindE m f = Inr y"
  obtains x where "m = Inr x" "f x = Inr y"
  using assms by (cases m) (auto simp: bindE_def)

lemma populated_mask [simp]: "populated (req\<lparr>uir_UpdateMask := m\<rparr>) = populated req"
  by (simp add: populated_def)

lemma populated_upd:
  "set (populated (req\<lparr>uir_ResourcesSpec := v1\<rparr>))
     \<subseteq> insert ''resources_spec'' (set (populated req))"
  "set (populated (req\<lparr>uir_PlatformId := v2\<rparr>))
     \<subseteq> insert ''platform_id'' (set (populated req))"
  "set (populated (req\<lparr>uir_NetworkSettings := v3\<rparr>))
     \<subseteq> insert ''network_settings'' (set (populated req))"
  "set (populated (req\<lparr>uir_SchedulingPolicy := v4\<rparr>))
     \<subseteq> insert ''scheduling_policy.preemptible'' (set (populated req))"
  by (auto simp: populated_def)

lemma populated_placement:
  assumes "preparePlacementPolicyForUpdateRequest env d = (p, paths)"
  shows "set (populated (req\<lparr>uir_PlacementPolicy := Some p\<rparr>))
           \<subseteq> set (populated req) \<union> set paths"
  using placement_paths [OF assms]
  by (auto simp: populated_def)

lemma changedPaths_snoc:
  "changedPaths d (t @ [(k, p)]) = changedPaths d t @ (if d_HasChange d k then [p] else [])"
  by (simp add: changedPaths_def)

lemma stopped_mask:
  assumes "stoppedInstanceUpdateRequest env d = Inr req"
  shows "uir_UpdateMask req =
           changedPaths d stoppedPaths
           @ (if d_HasChange d ''placement_policy'' then changedPaths d placementPaths else [])
         \<and> set (populated req) \<subseteq> set (uir_UpdateMask req)"
proof -
  let ?t1 = "[(''resources'', ''resources_spec'')]"
  let ?t2 = "?t1 @ [(''platform_id'', ''platform_id'')]"
  let ?t3 = "?t2 @ [(''network_acceleration_type'', ''network_settings'')]"
  let ?t4 = "?t3 @ [(''scheduling_policy'', ''scheduling_policy.preemptible'')]"
  let ?good = "\<lambda>t r. uir_UpdateMask r = changedPaths d t
                     \<and> set (populated r) \<subseteq> set (uir_UpdateMask r)"
  from assms show ?thesis
    unfolding stoppedInstanceUpdateRequest_def Let_def
  proof (elim bindE_InrE, goal_cases)
    case (1 req1 req3 req4)
    note r1 = 1(1) and r3 = 1(2) and r4 = 1(3) and r5 = 1(4)
    define req2 where "req2 = (if d_HasChange d ''platform_id''
                      then req1\<lparr> uir_PlatformId := asString (d_Get d ''platform_id''),
                                 uir_UpdateMask := uir_UpdateMask req1 @ [''platform_id''] \<rparr>
                      else req1)"
    have g1: "?good ?t1 req1"
    proof (cases "d_HasChange d ''resources''")
      case True
      with r1 obtain spec where
        "req1 = (emptyUpdateInstanceRequest (rd_Id d))
                  \<lparr> uir_ResourcesSpec := spec, uir_UpdateMask := [''resources_spec''] \<rparr>"
        by (auto elim!: bindE_InrE)
      with True populated_upd(1) [where req = "emptyUpdateInstanceRequest (rd_Id d)" and ?v1.0 = spec]
      show ?thesis by (simp add: changedPaths_def populated_empty)
    next
      case False
      with r1 have "req1 = emptyUpdateInstanceRequest (rd_Id d)" by simp
      with False show ?thesis
        by (simp add: changedPaths_def populated_empty) (simp add: emptyUpdateInstanceRequest_def)
    qed
    have g2: "?good ?t2 req2"
    proof (cases "d_HasChange d ''platform_id''")
      case True
      with g1 populated_upd(2) [where req = req1 and ?v2.0 = "asString (d_Get d ''platform_id'')"]
      show ?thesis unfolding changedPaths_snoc req2_def by auto
    next
      case False
      with g1 show ?thesis unfolding changedPaths_snoc req2_def by auto
    qed
    have g3: "?good ?t3 req3"
    proof (cases "d_HasChange d ''network_acceleration_type''")
      case True
      with r3 obtain v where
        "req3 = req2\<lparr> uir_NetworkSettings := v,
                      uir_UpdateMask := uir_UpdateMask req2 @ [''network_settings''] \<rparr>"
        unfolding req2_def [symmetric] by (auto elim!: bindE_InrE)
      with True g2 populated_upd(3) [where req = req2 and ?v3.0 = v]
      show ?thesis unfolding changedPaths_snoc by auto
    next
      case False
      with r3 have "req3 = req2" unfolding req2_def [symmetric] by simp
      with False g2 show ?thesis unfolding changedPaths_snoc by auto
    qed
    have g4: "?good ?t4 req4"
    proof (cases "d_HasChange d ''scheduling_policy''")
      case True
      with r4 obtain v where
        "req4 = req3\<lparr> uir_SchedulingPolicy := v,
                      uir_UpdateMask := uir_UpdateMask req3 @ [''scheduling_policy.preemptible''] \<rparr>"
        by (auto elim!: bindE_InrE)
      with True g3 populated_upd(4) [where req = req3 and ?v4.0 = v]
      show ?thesis unfolding changedPaths_snoc by auto
    next
      case False
      with r4 have "req4 = req3" by simp
      with False g3 show ?thesis unfolding changedPaths_snoc by auto
    qed
    have t4: "?t4 = stoppedPaths" by (simp add: stoppedPaths_def)
    show ?thesis
    proof (cases "d_HasChange d ''placement_policy''")
      case True
      obtain p paths where pp: "preparePlacementPolicyForUpdateRequest env d = (p, paths)"
        by (cases "preparePlacementPolicyForUpdateRequest env d")
      with True r5 have req: "req = req4\<lparr> uir_PlacementPolicy := Some p,
                                          uir_UpdateMask := uir_UpdateMask req4 @ paths \<rparr>"
        by simp
      from placement_paths [OF pp] have "paths = changedPaths d placementPaths" by simp
      with True g4 populated_placement [OF pp, where req = req4] req
      show ?thesis unfolding t4 by auto
    next
      case False
      with r5 have "req = req4" by simp
      with False g4 show ?thesis unfolding t4 by auto
    qed
  qed
qed

lemma maskExact_stopped:
  assumes "stoppedInstanceUpdateRequest env d = Inr req"
      and "d_HasChange d ''resources'' \<or> d_HasChange d ''platform_id''
           \<or> d_HasChange d ''network_acceleration_type''
           \<or> d_HasChange d ''placement_policy'' \<or> d_HasChange d ''scheduling_policy''"
  shows "maskExact d req"
proof -
  from assms(2) have "list_ex (d_HasChange d) stopProperties"
    by (auto simp: stopProperties_def)
  with stopped_mask [OF assms(1)] show ?thesis by (auto simp: maskExact_def)
qed

lemmas safe_rules = safe_withData safe_whenever safe_bind_lift safe_if safe_case_prod
  safe_andThen safe_forEach safe_lift safe_return safe_failWith safe_make
  safe_makeInstanceActionRequest safe_bind

lemma updatesExact_simps [simp]:
  "updatesExact d (InstanceUpdate req) = maskExact d req"
  "updatesExact d (InstanceGet greq)" "updatesExact d (InstanceCreate creq)"
  "updatesExact d (InstanceDelete i)" "updatesExact d (InstanceMove mreq)"
  "updatesExact d (InstanceStop i)" "updatesExact d (InstanceStart i)"
  "updatesExact d (InstanceUpdateNetworkInterface nreq)"
  "updatesExact d (InstanceAddOneToOneNat areq)"
  "updatesExact d (InstanceRemoveOneToOneNat rreq)"
  "updatesExact d (InstanceAttachNetworkInterface atreq)"
  "updatesExact d (InstanceDetachNetworkInterface dereq)"
  "updatesExact d (InstanceDetachDisk ddreq)" "updatesExact d (InstanceAttachDisk adreq)"
  "updatesExact d (InstanceDetachFilesystem dfreq)"
  "updatesExact d (InstanceAttachFilesystem afreq)"
  by (simp_all add: updatesExact_def)

lemma exact_updateFolder:
  "safe (sameChange d0) (onRpc (updatesExact d0)) (updateFolder env instance)"
  unfolding updateFolder_def seq.simps
  by (intro safe_rules safe_computeDelete safe_computeCreate keeps_sameChange) simp_all

lemma exact_single:
  assumes "sameChange d0 d" "d_HasChange d k" "k \<in> set singleProperties"
    "uir_UpdateMask req = [k]" "set (populated req) \<subseteq> {k}"
  shows "maskExact d0 req"
  using assms maskExact_single [of d k req] by (simp add: sameChange_maskExact)

lemma exact_simple_updates:
  "safe (sameChange d0) (onRpc (updatesExact d0)) (updateLabels env)"
  "safe (sameChange d0) (onRpc (updatesExact d0)) (updateMetadata env)"
  "safe (sameChange d0) (onRpc (updatesExact d0)) (updateMetadataOptions env)"
  "safe (sameChange d0) (onRpc (updatesExact d0)) (updateName env)"
  "safe (sameChange d0) (onRpc (updatesExact d0)) (updateDescription env)"
  "safe (sameChange d0) (onRpc (updatesExact d0)) (updateServiceAccount env)"
  unfolding updateLabels_def updateMetadata_def updateMetadataOptions_def updateName_def
    updateDescription_def updateServiceAccount_def
  subgoal
    by (intro safe_rules, simp, rule exact_single [where k = "''labels''"])
       (auto simp: singleProperties_def populated_def emptyUpdateInstanceRequest_def)
  subgoal
    by (intro safe_rules, simp, rule exact_single [where k = "''metadata''"])
       (auto simp: singleProperties_def populated_def emptyUpdateInstanceRequest_def)
  subgoal
    by (intro safe_rules, simp, rule exact_single [where k = "''metadata_options''"])
       (auto simp: singleProperties_def populated_def emptyUpdateInstanceRequest_def)
  subgoal
    by (intro safe_rules, simp, rule exact_single [where k = "''name''"])
       (auto simp: singleProperties_def populated_def emptyUpdateInstanceRequest_def)
  subgoal
    by (intro safe_rules, simp, rule exact_single [where k = "''description''"])
       (auto simp: singleProperties_def populated_def emptyUpdateInstanceRequest_def)
  subgoal
    by (intro safe_rules, simp, rule exact_single [where k = "''service_account_id''"])
       (auto simp: singleProperties_def populated_def emptyUpdateInstanceRequest_def)
  done

lemma exact_updateMaintenance:
  "safe (sameChange d0) (onRpc (updatesExact d0)) (updateMaintenance env)"
  unfolding updateMaintenance_def
  by (intro safe_rules) (simp add: sameChange_maskExact [symmetric] maskExact_maintenance)

lemma exact_updateNetworkInterfaces:
  "safe (sameChange d0) (onRpc (updatesExact d0)) (updateNetworkInterfaces env instance)"
  unfolding updateNetworkInterfaces_def seq.simps
  by (intro safe_rules) simp_all

lemma exact_updateSecondaryDisks:
  "safe (sameChange d0) (onRpc (updatesExact d0)) (updateSecondaryDisks env instance)"
  unfolding updateSecondaryDisks_def seq.simps
  by (intro safe_rules) simp_all

lemma exact_updateFilesystems:
  "safe (sameChange d0) (onRpc (updatesExact d0)) (updateFilesystems env instance)"
  unfolding updateFilesystems_def seq.simps
  by (intro safe_rules) simp_all

lemma exact_updateOnStoppedInstance:
  "safe (sameChange d0) (onRpc (updatesExact d0)) (updateOnStoppedInstance env plan)"
  unfolding updateOnStoppedInstance_def seq.simps
  by (intro safe_rules) (simp_all add: sameChange_maskExact [symmetric] maskExact_stopped)

lemma exact_updateBeforeStop:
  "safe (sameChange d0) (onRpc (updatesExact d0)) (updateBeforeStop env instance)"
  unfolding updateBeforeStop_def seq.simps
  by (intro safe_andThen safe_bind safe_return exact_updateFolder exact_simple_updates
        exact_updateMaintenance exact_updateNetworkInterfaces exact_updateSecondaryDisks
        exact_updateFilesystems)

lemma exact_computeUpdate:
  "safe (sameChange d0) (onRpc (updatesExact d0)) (resourceYandexComputeInstanceUpdate env)"
  unfolding resourceYandexComputeInstanceUpdate_def seq.simps
  by (intro safe_withData safe_branch safe_instanceGet safe_returnHandleNotFoundError
        safe_andThen safe_bind safe_return safe_d_Partial exact_updateBeforeStop
        exact_updateOnStoppedInstance safe_computeRead keeps_sameChange)
     (simp_all add: onRpc_def sameChange_def)

subsection \<open>Whether the interfaces need a stopped instance\<close>

lemma updateInterfaceRequest_stop:
  "snd (updateInterfaceRequest env d p n oldIface newIface o4 o6 n4 n6)
     = snd (updateInterfaceRequest env d' p n oldIface newIface o4 o6 n4 n6)"
  by (simp add: updateInterfaceRequest_def Let_def split_beta)

lemma updateLoop_stop:
  "map_sum (\<lambda>e. e) snd (updateLoop env d p n os ns reqs st)
     = map_sum (\<lambda>e. e) snd (updateLoop env d' p n os ns reqs' st)"
proof (induction os arbitrary: ns n reqs reqs' st)
  case Nil
  show ?case by simp
next
  case (Cons oldIface os)
  show ?case
  proof (cases ns)
    case Nil
    then show ?thesis by simp
  next
    case (Cons newIface ns')
    show ?thesis
      unfolding Cons updateLoop.simps
      using updateInterfaceRequest_stop [of env d p n oldIface newIface _ _ _ _ d']
        Cons.IH
      by (auto simp: bindE_def split_beta split: sum.splits)
  qed
qed

lemma attachLoop_isl:
  "isl (attachLoop env i ck n xs a k) = isl (attachLoop env i' ck n xs a' k)"
proof (induction xs arbitrary: n a a' k)
  case Nil
  show ?case by simp
next
  case (Cons x xs)
  show ?case
    using Cons.IH by (auto simp: Let_def split: tfvalue.splits sum.splits)
qed

lemma natLoop_isl:
  "isl (natLoop env i n os ns a r) = isl (natLoop env i' n os ns a' r')"
proof (induction os arbitrary: ns n a a' r r')
  case Nil
  show ?case by simp
next
  case (Cons oldIface os)
  show ?case
  proof (cases ns)
    case Nil
    then show ?thesis by simp
  next
    case (Cons newIface ns')
    show ?thesis
      unfolding Cons natLoop.simps
      using Cons.IH
      by (auto simp: bindE_def split: sum.splits option.splits)
  qed
qed

lemma interfacesNeedStop_sameChange:
  assumes "sameChange d0 d"
  shows "interfacesNeedStop env d inst = interfacesNeedStop env d0 inst"
proof -
  have c: "d_HasChange d ''network_interface'' = d_HasChange d0 ''network_interface''"
    "d_GetChange d ''network_interface'' = d_GetChange d0 ''network_interface''"
    using assms by (simp_all add: sameChange_def d_HasChange_def d_GetChange_def)
  obtain oldValue newValue where g: "d_GetChange d0 ''network_interface'' = (oldValue, newValue)"
    by (cases "d_GetChange d0 ''network_interface''")
  have attach: "isl (getSpecsForAttachDetachNetworkInterfaces env xs (rd_Id d) nis)
                 = isl (getSpecsForAttachDetachNetworkInterfaces env xs (rd_Id d0) nis)" for xs nis
    using attachLoop_isl [of env "rd_Id d" "remdups (map ni_Index nis)" 0 xs "[]" "[]"
        "rd_Id d0" "[]"]
    by (cases "attachLoop env (rd_Id d) (remdups (map ni_Index nis)) 0 xs [] []";
        cases "attachLoop env (rd_Id d0) (remdups (map ni_Index nis)) 0 xs [] []")
       (auto simp: getSpecsForAttachDetachNetworkInterfaces_def Let_def)
  have upd: "map_sum (\<lambda>e. e) snd (getSpecsForUpdateNetworkInterfaces env d p os ns)
              = map_sum (\<lambda>e. e) snd (getSpecsForUpdateNetworkInterfaces env d0 p os ns)" for p os ns
    unfolding getSpecsForUpdateNetworkInterfaces_def by (rule updateLoop_stop)
  have nat: "isl (getSpecsForAddRemoveNatNetworkInterfaces env (rd_Id d) os ns)
              = isl (getSpecsForAddRemoveNatNetworkInterfaces env (rd_Id d0) os ns)" for os ns
    unfolding getSpecsForAddRemoveNatNetworkInterfaces_def by (rule natLoop_isl)
  show ?thesis
    unfolding interfacesNeedStop_def planNetworkInterfaces_def c g
    using attach [of "asList newValue" "inst_NetworkInterfaces inst"]
      upd [of "''network_interface''" "asList oldValue" "asList newValue"]
      nat [of "asList oldValue" "asList newValue"]
    by (auto simp: Let_def bindE_def split: sum.splits prod.splits)
qed

subsection \<open>Stopping is not allowed\<close>

lemma keeps_stoppingRefused: "keeps (stoppingRefused d0)"
  by (auto simp: keeps_def stoppingRefused_def sameChange_def d_Get_def readKeys_def)

lemma ensure_refused:
  "\<not> asBool (d_Get d ''allow_stopping_for_update'') \<Longrightarrow>
     ensureAllowStoppingForUpdate d names = Inl (stoppingError names)"
  by (simp add: ensureAllowStoppingForUpdate_def stoppingError_def)

lemma safe_andThen_lift:
  "(\<And>x. r = Inr x \<Longrightarrow> safe I E m) \<Longrightarrow> safe I E (andThen (lift r) m)"
  unfolding andThen_def by (rule safe_bind_lift)

lemma refused_andThen_ensure:
  "stoppingRefused d0 d \<Longrightarrow>
     safe I E (andThen (lift (ensureAllowStoppingForUpdate d names)) m)"
  by (rule safe_andThen_lift) (simp add: ensure_refused stoppingRefused_def)

lemma refused_updateFolder:
  "safe (stoppingRefused d0) (onRpc (withoutStopping nics)) (updateFolder env inst)"
  unfolding updateFolder_def seq.simps
  by (intro safe_withData safe_whenever safe_if refused_andThen_ensure safe_andThen safe_return
        safe_computeDelete safe_computeCreate keeps_stoppingRefused)
     simp_all

lemma refused_simple_updates:
  "safe (stoppingRefused d0) (onRpc (withoutStopping nics)) (updateLabels env)"
  "safe (stoppingRefused d0) (onRpc (withoutStopping nics)) (updateMetadata env)"
  "safe (stoppingRefused d0) (onRpc (withoutStopping nics)) (updateMetadataOptions env)"
  "safe (stoppingRefused d0) (onRpc (withoutStopping nics)) (updateName env)"
  "safe (stoppingRefused d0) (onRpc (withoutStopping nics)) (updateDescription env)"
  "safe (stoppingRefused d0) (onRpc (withoutStopping nics)) (updateServiceAccount env)"
  unfolding updateLabels_def updateMetadata_def updateMetadataOptions_def updateName_def
    updateDescription_def updateServiceAccount_def
  by (intro safe_rules;
      simp add: stoppedMaskPaths_def stoppedPaths_def placementPaths_def)+

lemma maintenance_mask:
  assumes "maintenanceUpdateRequest env d = Inr req"
      and "d_HasChange d ''maintenance_policy'' \<or> d_HasChange d ''maintenance_grace_period''"
  shows "withoutStopping nics (InstanceUpdate req)"
  using assms
  by (auto simp: maintenanceUpdateRequest_def bindE_def emptyUpdateInstanceRequest_def
        stoppedMaskPaths_def stoppedPaths_def placementPaths_def split: if_splits sum.splits)

lemma refused_updateMaintenance:
  "safe (stoppingRefused d0) (onRpc (withoutStopping nics)) (updateMaintenance env)"
  unfolding updateMaintenance_def
  by (intro safe_rules) (use maintenance_mask in auto)

text \<open>The requests of this block are sent only when the plan does not ask for a stop.\<close>

lemma refused_updateNetworkInterfaces:
  "safe (stoppingRefused d0) (onRpc (withoutStopping (interfacesNeedStop env d0 inst)))
     (updateNetworkInterfaces env inst)"
proof -
  have "\<not> interfacesNeedStop env d0 inst"
    if "stoppingRefused d0 d" "planNetworkInterfaces env d inst = Inr plan"
      "\<not> needUpdateInterfacesOnStoppedInstance plan" for d plan
  proof -
    from that(1) have "sameChange d0 d" by (simp add: stoppingRefused_def)
    from interfacesNeedStop_sameChange [OF this]
    have "interfacesNeedStop env d0 inst = interfacesNeedStop env d inst" by simp
    with that(2,3) show ?thesis by (simp add: interfacesNeedStop_def)
  qed
  then show ?thesis
    unfolding updateNetworkInterfaces_def seq.simps
    by (intro safe_rules) auto
qed

lemma refused_updateNetworkInterfaces_any:
  "safe (stoppingRefused d0) (onRpc (withoutStopping False)) (updateNetworkInterfaces env inst)"
  unfolding updateNetworkInterfaces_def seq.simps
  by (intro safe_rules) simp_all

lemma refused_updateSecondaryDisks:
  "safe (stoppingRefused d0) (onRpc (withoutStopping nics)) (updateSecondaryDisks env inst)"
  unfolding updateSecondaryDisks_def seq.simps
  by (intro safe_rules) simp_all

lemma refused_updateFilesystems:
  "safe (stoppingRefused d0) (onRpc (withoutStopping nics)) (updateFilesystems env inst)"
  unfolding updateFilesystems_def seq.simps
  by (intro safe_rules) simp_all

lemma refused_updateOnStoppedInstance:
  "safe (stoppingRefused d0) (onRpc (withoutStopping nics)) (updateOnStoppedInstance env plan)"
  unfolding updateOnStoppedInstance_def seq.simps
  by (intro safe_withData safe_whenever refused_andThen_ensure)

lemma refused_updateBeforeStop:
  "safe (stoppingRefused d0) (onRpc (withoutStopping (interfacesNeedStop env d0 inst)))
     (updateBeforeStop env inst)"
  "safe (stoppingRefused d0) (onRpc (withoutStopping False)) (updateBeforeStop env inst)"
  unfolding updateBeforeStop_def seq.simps
  by (intro safe_andThen safe_bind safe_return refused_updateFolder refused_simple_updates
        refused_updateMaintenance refused_updateNetworkInterfaces
        refused_updateNetworkInterfaces_any refused_updateSecondaryDisks
        refused_updateFilesystems)+

lemma refused_afterGet:
  "safe (stoppingRefused d0) (onRpc (withoutStopping (interfacesNeedStop env d0 inst)))
     (bind (updateBeforeStop env inst) (\<lambda>plan.
        seq [updateOnStoppedInstance env plan, d_Partial False,
             resourceYandexComputeInstanceRead env]))"
  unfolding seq.simps
  by (intro safe_andThen safe_bind safe_return safe_d_Partial refused_updateBeforeStop
        refused_updateOnStoppedInstance safe_computeRead keeps_stoppingRefused)
     (simp_all add: stoppingRefused_def sameChange_def d_Get_def)

lemma refused_computeUpdate:
  "safe (stoppingRefused d0) (onRpc (withoutStopping False))
     (resourceYandexComputeInstanceUpdate env)"
  unfolding resourceYandexComputeInstanceUpdate_def seq.simps
  by (intro safe_withData safe_branch safe_instanceGet safe_returnHandleNotFoundError
        safe_andThen safe_bind safe_return safe_d_Partial refused_updateBeforeStop
        refused_updateOnStoppedInstance safe_computeRead keeps_stoppingRefused)
     (simp_all add: onRpc_def stoppingRefused_def sameChange_def d_Get_def)

subsection \<open>Runs of Update, block by block\<close>

lemma andThen_Inl: "m h d = (Inl e, d1, ev1) \<Longrightarrow> andThen m n h d = (Inl e, d1, ev1)"
  by (simp add: andThen_def bind_Inl)

lemma andThen_success:
  assumes "andThen m n h d = (Inr y, d2, evs)"
  obtains d1 ev1 ev2 where "m h d = (Inr (), d1, ev1)" "n (h @ ev1) d1 = (Inr y, d2, ev2)"
    "evs = ev1 @ ev2"
  using assms unfolding andThen_def by (elim bind_success) auto

lemma update_after_get:
  assumes "api_instance env h \<lparr>gir_InstanceId = rd_Id d, gir_View = BASIC\<rparr> = Inr inst"
  shows "resourceYandexComputeInstanceUpdate env h d =
     (case bind (updateBeforeStop env inst) (\<lambda>plan.
             seq [updateOnStoppedInstance env plan, d_Partial False,
                  resourceYandexComputeInstanceRead env])
             (h @ [Called (InstanceGet \<lparr>gir_InstanceId = rd_Id d, gir_View = BASIC\<rparr>) None])
             (d\<lparr>rd_partial := True\<rparr>) of
        (r, d2, ev2) \<Rightarrow>
          (r, d2, Called (InstanceGet \<lparr>gir_InstanceId = rd_Id d, gir_View = BASIC\<rparr>) None # ev2))"
  using assms
  by (simp add: resourceYandexComputeInstanceUpdate_def withData_def branch_def instanceGet_def
        andThen_def bind_def d_Partial_def split: prod.splits sum.splits)

lemma updateFolder_refused:
  assumes "d_HasChange d ''folder_id''" "\<not> asBool (d_Get d ''allow_recreate'')"
    "\<not> asBool (d_Get d ''allow_stopping_for_update'')"
  shows "updateFolder env inst h d = (Inl (stoppingError [''folder_id'']), d, [])"
  using assms
  by (simp add: updateFolder_def withData_def whenever_def andThen_Inl lift_def ensure_refused)

lemma updateBeforeStop_refused:
  assumes "d_HasChange d ''folder_id''" "\<not> asBool (d_Get d ''allow_recreate'')"
    "\<not> asBool (d_Get d ''allow_stopping_for_update'')"
  shows "updateBeforeStop env inst h d = (Inl (stoppingError [''folder_id'']), d, [])"
  unfolding updateBeforeStop_def seq.simps
  by (intro andThen_Inl updateFolder_refused assms)

lemma updateOnStoppedInstance_refused:
  assumes "list_ex (d_HasChange d) stopProperties \<or> needUpdateInterfacesOnStoppedInstance plan"
    "\<not> asBool (d_Get d ''allow_stopping_for_update'')"
  shows "updateOnStoppedInstance env plan h d = (Inl (stoppingError stopProperties), d, [])"
proof -
  from assms(1) have "d_HasChange d ''resources'' \<or> d_HasChange d ''platform_id''
               \<or> d_HasChange d ''network_acceleration_type''
               \<or> needUpdateInterfacesOnStoppedInstance plan
               \<or> d_HasChange d ''scheduling_policy'' \<or> d_HasChange d ''placement_policy''"
    by (auto simp: stopProperties_def)
  then show ?thesis
    unfolding updateOnStoppedInstance_def withData_def whenever_def seq.simps
    by (simp add: andThen_Inl lift_def ensure_refused [OF assms(2)])
qed

text \<open>The plan that \<open>updateBeforeStop\<close> returns is the plan for the interfaces.\<close>

lemma updateNetworkInterfaces_plan:
  assumes "updateNetworkInterfaces env inst h d = (Inr plan, d1, evs)"
  shows "planNetworkInterfaces env d inst = Inr plan"
proof -
  from assms obtain plan' da eva evb where
    a: "lift (planNetworkInterfaces env d inst) h d = (Inr plan', da, eva)"
    and b: "andThen
       (whenever (d_HasChange d ''network_interface''
                  \<and> \<not> needUpdateInterfacesOnStoppedInstance plan'
                  \<and> (removeNatRequests plan' \<noteq> [] \<or> addNatRequests plan' \<noteq> []
                       \<or> updateInterfaceRequests plan' \<noteq> []))
          (seq [
             forEach (removeNatRequests plan') (makeInstanceRemoveOneToOneNatRequest env),
             forEach (addNatRequests plan') (makeInstanceAddOneToOneNatRequest env),
             forEach (updateInterfaceRequests plan') (makeInstanceUpdateNetworkInterfaceRequest env)
           ]))
       (return plan') (h @ eva) da = (Inr plan, d1, evb)"
    unfolding updateNetworkInterfaces_def withData_def by (rule bind_success)
  from b have "plan = plan'"
    by (elim andThen_success) (simp add: return_def)
  with a show ?thesis by (auto simp: lift_def)
qed

lemma updateBeforeStop_plan:
  assumes "stoppingRefused d0 d"
      and "updateBeforeStop env inst h d = (Inr plan, d1, evs1)"
  shows "needUpdateInterfacesOnStoppedInstance plan = interfacesNeedStop env d0 inst"
proof -
  from assms(2) obtain dA evA evB where
    A: "andThen (updateFolder env inst)
          (seq [updateLabels env, updateMetadata env, updateMetadataOptions env,
                updateName env, updateDescription env, updateServiceAccount env,
                updateMaintenance env]) h d = (Inr (), dA, evA)"
    and B: "bind (updateNetworkInterfaces env inst) (\<lambda>plan.
              andThen (seq [updateSecondaryDisks env inst, updateFilesystems env inst])
                (return plan)) (h @ evA) dA = (Inr plan, d1, evB)"
    unfolding updateBeforeStop_def seq.simps(2) [of "updateFolder env inst"]
    by (rule andThen_success)
  have "safe (stoppingRefused d0) (onRpc (withoutStopping False))
          (andThen (updateFolder env inst)
          (seq [updateLabels env, updateMetadata env, updateMetadataOptions env,
                updateName env, updateDescription env, updateServiceAccount env,
                updateMaintenance env]))"
    unfolding seq.simps
    by (intro safe_andThen safe_return refused_updateFolder refused_simple_updates
          refused_updateMaintenance)
  from safeD [OF this assms(1) A] have dA: "sameChange d0 dA"
    by (simp add: stoppingRefused_def)
  from B obtain plan' dN evN evK where
    N: "updateNetworkInterfaces env inst (h @ evA) dA = (Inr plan', dN, evN)"
    and K: "andThen (seq [updateSecondaryDisks env inst, updateFilesystems env inst])
                (return plan') ((h @ evA) @ evN) dN = (Inr plan, d1, evK)"
    by (rule bind_success)
  from K have "plan = plan'"
    by (elim andThen_success) (simp add: return_def)
  with updateNetworkInterfaces_plan [OF N]
  have "interfacesNeedStop env dA inst = needUpdateInterfacesOnStoppedInstance plan"
    by (simp add: interfacesNeedStop_def)
  with interfacesNeedStop_sameChange [OF dA] show ?thesis by simp
qed

subsection \<open>The example runs with stopping not allowed\<close>

lemma refusedData_simps:
  "rd_Id refusedData = ''vm-1''"
  "rd_partial refusedData = False"
  "rd_attrs refusedData = (\<lambda>k. VNil)
         (''name'' := VString ''vm'', ''platform_id'' := VString ''standard-v3'',
          ''labels'' := VObj [(''env'', VString ''prod'')],
          ''allow_stopping_for_update'' := VBool False)"
  "rd_old refusedData = (\<lambda>k. VNil)
         (''name'' := VString ''vm'', ''platform_id'' := VString ''standard-v1'',
          ''allow_stopping_for_update'' := VBool False)"
  "rd_new refusedData = (\<lambda>k. VNil)
         (''name'' := VString ''vm'', ''platform_id'' := VString ''standard-v3'',
          ''labels'' := VObj [(''env'', VString ''prod'')],
          ''allow_stopping_for_update'' := VBool False)"
  by (simp_all add: refusedData_def)

lemma nicData_simps:
  "rd_Id nicData = ''vm-1''"
  "rd_partial nicData = False"
  "rd_attrs nicData = (\<lambda>k. VNil)
         (''name'' := VString ''vm'',
          ''network_interface'' := VList [VObj [(''subnet_id'', VString ''subnet-b'')]],
          ''allow_stopping_for_update'' := VBool False)"
  "rd_old nicData = (\<lambda>k. VNil)
         (''name'' := VString ''vm'',
          ''network_interface'' := VList [VObj [(''subnet_id'', VString ''subnet-a'')]],
          ''allow_stopping_for_update'' := VBool False)"
  "rd_new nicData = (\<lambda>k. VNil)
         (''name'' := VString ''vm'',
          ''network_interface'' := VList [VObj [(''subnet_id'', VString ''subnet-b'')]],
          ''allow_stopping_for_update'' := VBool False)"
  by (simp_all add: nicData_def)

lemma moveData_simps:
  "rd_Id (moveData s c) = ''vm-1''"
  "rd_partial (moveData s c) = False"
  "rd_attrs (moveData s c) = (\<lambda>k. VNil)
         (''name'' := VString ''vm'', ''folder_id'' := VString ''folder-b'',
          ''allow_stopping_for_update'' := VBool s, ''allow_recreate'' := VBool c)"
  "rd_old (moveData s c) = (\<lambda>k. VNil)
         (''name'' := VString ''vm'', ''folder_id'' := VString ''folder-a'',
          ''allow_stopping_for_update'' := VBool s, ''allow_recreate'' := VBool c)"
  "rd_new (moveData s c) = (\<lambda>k. VNil)
         (''name'' := VString ''vm'', ''folder_id'' := VString ''folder-b'',
          ''allow_stopping_for_update'' := VBool s, ''allow_recreate'' := VBool c)"
  by (simp_all add: moveData_def)

lemma exampleEnv_interfaces:
  "expandPrimaryV4AddressSpec exampleEnv = (\<lambda>v. Inr None)"
  "expandPrimaryV6AddressSpec exampleEnv = (\<lambda>v. Inr None)"
  "expandSecurityGroupIds exampleEnv = (\<lambda>v. [])"
  by (simp_all add: exampleEnv_def)

lemma refusedData_facts:
  "\<not> asBool (d_Get refusedData ''allow_stopping_for_update'')"
  "list_ex (d_HasChange refusedData) stopProperties"
  by (simp_all add: d_Get_def d_HasChange_def d_GetChange_def refusedData_simps
        stopProperties_def)

lemma refusedData_run:
  "\<exists>d'. resourceYandexComputeInstanceUpdate exampleEnv [] refusedData
          = (Inl (stoppingError stopProperties), d', refusedEvents)"
  by (simp add: update_defs refusedData_simps exampleEnv_simps
      exampleInstance_def refusedEvents_def labelsRequest_def stoppingError_def)

lemma refusedData_before:
  "\<exists>d1. updateBeforeStop exampleEnv exampleInstance
          [Called (InstanceGet \<lparr>gir_InstanceId = ''vm-1'', gir_View = BASIC\<rparr>) None]
          (refusedData\<lparr>rd_partial := True\<rparr>)
        = (Inr noInterfaceChanges, d1,
           [Called (InstanceUpdate (labelsRequest ''vm-1'')) None,
            Waited (InstanceUpdate (labelsRequest ''vm-1'')) None])"
  by (simp add: update_defs refusedData_simps exampleEnv_simps
      exampleInstance_def labelsRequest_def)

lemma nicData_facts:
  "\<not> asBool (d_Get nicData ''allow_stopping_for_update'')"
  "\<not> list_ex (d_HasChange nicData) stopProperties"
  "interfacesNeedStop exampleEnv nicData exampleInstance"
  by (simp_all add: d_Get_def d_HasChange_def d_GetChange_def nicData_simps stopProperties_def
        interfacesNeedStop_def planNetworkInterfaces_def getSpecsForUpdateNetworkInterfaces_def
        getSpecsForAddRemoveNatNetworkInterfaces_def updateInterfaceRequest_def bindE_def
        Let_def exampleEnv_interfaces noInterfaceChanges_def)

lemma nicData_before:
  "\<exists>plan d1. updateBeforeStop exampleEnv exampleInstance
          [Called (InstanceGet \<lparr>gir_InstanceId = ''vm-1'', gir_View = BASIC\<rparr>) None]
          (nicData\<lparr>rd_partial := True\<rparr>)
        = (Inr plan, d1, [])"
  by (simp add: update_defs nicData_simps exampleEnv_simps exampleInstance_def
        getSpecsForUpdateNetworkInterfaces_def
        getSpecsForAddRemoveNatNetworkInterfaces_def updateInterfaceRequest_def
        exampleEnv_interfaces)

lemma mutating_rpcOf_refused:
  "\<not> list_all (\<lambda>ev. \<not> mutating (rpcOf ev)) refusedEvents"
  by (simp add: refusedEvents_def)

subsection \<open>The folder changes\<close>

lemma andThen_first:
  assumes "andThen m n h d = (r, d2, evs)"
  obtains res d1 ev1 rest where "m h d = (res, d1, ev1)" "evs = ev1 @ rest"
    "\<And>e. res = Inl e \<Longrightarrow> rest = [] \<and> r = Inl e \<and> d2 = d1"
    "res = Inr () \<Longrightarrow> n (h @ ev1) d1 = (r, d2, rest)"
proof -
  obtain res d1 ev1 where m: "m h d = (res, d1, ev1)" by (metis prod_cases3)
  show ?thesis
  proof (cases res)
    case (Inl e)
    with m assms have "r = Inl e" "d2 = d1" "evs = ev1 @ []"
      by (simp_all add: andThen_Inl)
    with m Inl that show ?thesis by blast
  next
    case (Inr u)
    obtain r' d' ev' where n: "n (h @ ev1) d1 = (r', d', ev')" by (metis prod_cases3)
    with m Inr assms have "r' = r" "d' = d2" "evs = ev1 @ ev'"
      by (simp_all add: andThen_def bind_Inr)
    with m Inr n that show ?thesis by auto
  qed
qed


lemma callAndWait_run:
  assumes "callAndWait env r f g h d = (res, d', evs)"
  shows "d' = d \<and> (res = Inr () \<and> evs = okEvents r \<or> isl res \<and> failedEvents r evs)"
  using assms
  by (auto simp: callAndWait_def bind_def branch_def mapErr_def callOperation_def opWait_def
        failWith_def return_def okEvents_def split: sum.splits option.splits prod.splits)




text \<open>One more call in front of a run.\<close>

lemma ran_step:
  assumes run: "andThen m n h d = (res, d', evs)"
      and step: "\<And>res d' evs. m h d = (res, d', evs) \<Longrightarrow>
                   d' = d \<and> (res = Inr () \<and> evs = okEvents r \<or> isl res \<and> failedEvents r evs)"
      and rest: "\<And>res d' evs. n (h @ okEvents r) d = (res, d', evs) \<Longrightarrow>
                   d' = d \<and> ran rs evs (\<not> isl res)"
  shows "d' = d \<and> ran (r # rs) evs (\<not> isl res)"
proof (rule andThen_first [OF run], goal_cases)
  case (1 res1 d1 ev1 rest1)
  note m = 1(1) and evs = 1(2) and fail = 1(3) and ok = 1(4)
  from step [OF m] have d1: "d1 = d"
    and cases: "res1 = Inr () \<and> ev1 = okEvents r \<or> isl res1 \<and> failedEvents r ev1"
    by simp_all
  from cases show ?case
  proof
    assume a: "res1 = Inr () \<and> ev1 = okEvents r"
    with ok d1 have "n (h @ okEvents r) d = (res, d', rest1)" by simp
    from rest [OF this] a evs show ?thesis by (simp add: okEvents_def)
  next
    assume a: "isl res1 \<and> failedEvents r ev1"
    then obtain e where "res1 = Inl e" by (cases res1) auto
    with fail a evs d1 show ?thesis by simp
  qed
qed

lemma whenever_simps: "whenever True m = m" "whenever False m = return ()"
  by (simp_all add: whenever_def)

lemma andThen_skip:
  "andThen (lift (Inr ())) n h d = n h d" "andThen (return ()) n h d = n h d"
  by (simp_all add: andThen_def bind_def branch_def lift_def return_def split: prod.splits)



lemma safe_events:
  "m h d = (r, d', evs) \<Longrightarrow> safe (\<lambda>d. True) E m \<Longrightarrow> list_all E evs"
  using safeD [of "\<lambda>d. True" E m d h r d' evs] by simp



lemma notMove_simps [simp]:
  "notMove (InstanceMove mreq) = False"
  "notMove (InstanceUpdate req)"
  "notMove (InstanceGet greq)" "notMove (InstanceCreate creq)"
  "notMove (InstanceDelete i)"
  "notMove (InstanceStop i)" "notMove (InstanceStart i)"
  "notMove (InstanceUpdateNetworkInterface nreq)"
  "notMove (InstanceAddOneToOneNat areq)"
  "notMove (InstanceRemoveOneToOneNat rreq)"
  "notMove (InstanceAttachNetworkInterface atreq)"
  "notMove (InstanceDetachNetworkInterface dereq)"
  "notMove (InstanceDetachDisk ddreq)" "notMove (InstanceAttachDisk adreq)"
  "notMove (InstanceDetachFilesystem dfreq)"
  "notMove (InstanceAttachFilesystem afreq)"
  by (simp_all add: notMove_def)












lemma moveSteps_partial [simp]: "moveSteps inst (d\<lparr>rd_partial := b\<rparr>) = moveSteps inst d"
  by (simp add: moveSteps_def d_Get_def)


subsection \<open>The example runs with a change of the folder\<close>

lemma exampleEnv_read:
  "resourceYandexComputeInstanceRead exampleEnv h d
     = (Inr (), readData d,
        [Called (InstanceGet \<lparr>gir_InstanceId = rd_Id d, gir_View = FULL\<rparr>) None])"
  "rd_old (readData d) = rd_old d" "rd_new (readData d) = rd_new d"
  "rd_Id (readData d) = rd_Id d"
  by (simp_all add: readData_def resourceYandexComputeInstanceRead_def readInstanceInto_def
      prog_defs exampleEnv_simps exampleInstance_def parseHostnameFromFQDN_result)

lemmas update_blocks = resourceYandexComputeInstanceUpdate_def updateBeforeStop_def
    updateFolder_def updateLabels_def updateMetadata_def updateMetadataOptions_def updateName_def
    updateDescription_def updateServiceAccount_def updateMaintenance_def
    updateNetworkInterfaces_def updateSecondaryDisks_def updateFilesystems_def
    updateOnStoppedInstance_def planNetworkInterfaces_def noInterfaceChanges_def
    d_HasChange_def d_GetChange_def d_Get_def prog_defs
    makeInstanceUpdateRequest_def makeInstanceActionRequest_def makeInstanceMoveRequest_def Let_def
    ensureAllowStoppingForUpdate_def stoppedInstanceUpdateRequest_def bindE_def
    doneOperation_def stopProperties_def emptyUpdateInstanceRequest_def





subsection \<open>Calls in a row\<close>

lemma runs_return: "runs (return ()) [] d"
  by (simp add: runs_def return_def)

lemma runs_andThen:
  assumes "calls m r d" "runs n rs d"
  shows "runs (andThen m n) (r # rs) d"
  unfolding runs_def
proof (intro allI impI)
  fix h res d' evs
  assume "andThen m n h d = (res, d', evs)"
  then show "d' = d \<and> ran (r # rs) evs (\<not> isl res)"
    by (rule ran_step)
       (use assms in \<open>auto simp: calls_def runs_def\<close>)
qed

lemma andThen_assoc: "andThen (andThen a b) c = andThen a (andThen b c)"
  by (intro ext)
     (simp add: andThen_def bind_def branch_def failWith_def split: prod.splits sum.splits)

lemma andThen_return: "andThen (return ()) n = n"
  by (intro ext) (simp add: andThen_skip)

lemma bind_lift_Inr: "bind (lift (Inr x)) f = f x"
  by (intro ext) (simp add: bind_def branch_def lift_def split: prod.splits)

lemma runs_forEach:
  assumes "\<And>x. x \<in> set xs \<Longrightarrow> calls (f x) (c x) d" "runs n rs d"
  shows "runs (andThen (forEach xs f) n) (map c xs @ rs) d"
  using assms(1)
proof (induction xs)
  case Nil
  with assms(2) show ?case by (simp add: andThen_return)
next
  case (Cons x xs)
  then have "runs (andThen (f x) (andThen (forEach xs f) n)) (c x # map c xs @ rs) d"
    by (intro runs_andThen) simp_all
  then show ?case by (simp add: andThen_assoc)
qed

lemma calls_callAndWait: "calls (callAndWait env r f g) r d"
  unfolding calls_def by (blast dest: callAndWait_run)

lemma calls_make:
  "calls (makeInstanceUpdateRequest env req) (InstanceUpdate req) d"
  "calls (makeInstanceUpdateNetworkInterfaceRequest env nreq) (InstanceUpdateNetworkInterface nreq) d"
  "calls (makeInstanceAddOneToOneNatRequest env areq) (InstanceAddOneToOneNat areq) d"
  "calls (makeInstanceRemoveOneToOneNatRequest env rreq) (InstanceRemoveOneToOneNat rreq) d"
  "calls (makeInstanceAttachNetworkInterfaceRequest env atreq)
     (InstanceAttachNetworkInterface atreq) d"
  "calls (makeInstanceDetachNetworkInterfaceRequest env dereq)
     (InstanceDetachNetworkInterface dereq) d"
  "calls (makeInstanceActionRequest env instanceActionStop) (InstanceStop (rd_Id d)) d"
  "calls (makeInstanceActionRequest env instanceActionStart) (InstanceStart (rd_Id d)) d"
  using calls_callAndWait
  unfolding makeInstanceUpdateRequest_def makeInstanceUpdateNetworkInterfaceRequest_def
    makeInstanceAddOneToOneNatRequest_def makeInstanceRemoveOneToOneNatRequest_def
    makeInstanceAttachNetworkInterfaceRequest_def makeInstanceDetachNetworkInterfaceRequest_def
    makeInstanceActionRequest_def
  by (simp_all add: calls_def withData_def Let_def)

lemma runs_cong: "(\<And>h. n h d = n' h d) \<Longrightarrow> runs n rs d = runs n' rs d"
  by (simp add: runs_def)

lemma interfaces_runs:
  assumes "runs n rs d"
  shows "runs (andThen
           (whenever (needUpdateInterfacesOnStoppedInstance plan)
              (seq [
                 forEach (removeNatRequests plan) (makeInstanceRemoveOneToOneNatRequest env),
                 forEach (addNatRequests plan) (makeInstanceAddOneToOneNatRequest env),
                 forEach (updateInterfaceRequests plan) (makeInstanceUpdateNetworkInterfaceRequest env),
                 forEach (attachInterfaceRequests plan) (makeInstanceAttachNetworkInterfaceRequest env),
                 forEach (detachInterfaceRequests plan) (makeInstanceDetachNetworkInterfaceRequest env)
               ])) n)
           (interfaceSteps plan @ rs) d"
proof (cases "needUpdateInterfacesOnStoppedInstance plan")
  case False
  with assms show ?thesis by (simp add: whenever_simps andThen_return interfaceSteps_def)
next
  case True
  have "runs
     (andThen (forEach (removeNatRequests plan) (makeInstanceRemoveOneToOneNatRequest env))
     (andThen (forEach (addNatRequests plan) (makeInstanceAddOneToOneNatRequest env))
     (andThen (forEach (updateInterfaceRequests plan) (makeInstanceUpdateNetworkInterfaceRequest env))
     (andThen (forEach (attachInterfaceRequests plan) (makeInstanceAttachNetworkInterfaceRequest env))
     (andThen (forEach (detachInterfaceRequests plan) (makeInstanceDetachNetworkInterfaceRequest env))
        n)))))
     (map InstanceRemoveOneToOneNat (removeNatRequests plan)
      @ map InstanceAddOneToOneNat (addNatRequests plan)
      @ map InstanceUpdateNetworkInterface (updateInterfaceRequests plan)
      @ map InstanceAttachNetworkInterface (attachInterfaceRequests plan)
      @ map InstanceDetachNetworkInterface (detachInterfaceRequests plan) @ rs) d"
    by (intro runs_forEach calls_make assms)
  with True show ?thesis
    by (simp add: whenever_simps andThen_assoc andThen_return interfaceSteps_def)
qed

lemma five_changed:
  "(d_HasChange d ''resources'' \<or> d_HasChange d ''platform_id''
    \<or> d_HasChange d ''network_acceleration_type''
    \<or> d_HasChange d ''placement_policy'' \<or> d_HasChange d ''scheduling_policy'')
   = list_ex (d_HasChange d) stopProperties"
  "(d_HasChange d ''resources'' \<or> d_HasChange d ''platform_id''
    \<or> d_HasChange d ''network_acceleration_type''
    \<or> needUpdateInterfacesOnStoppedInstance plan
    \<or> d_HasChange d ''scheduling_policy'' \<or> d_HasChange d ''placement_policy'')
   = (list_ex (d_HasChange d) stopProperties \<or> needUpdateInterfacesOnStoppedInstance plan)"
  by (auto simp: stopProperties_def)

text \<open>The last block, when the instance may be stopped and must be.\<close>

lemma stopped_block:
  assumes allow: "asBool (d_Get d ''allow_stopping_for_update'')"
      and needs: "list_ex (d_HasChange d) stopProperties
                  \<or> needUpdateInterfacesOnStoppedInstance plan"
  shows "updateOnStoppedInstance env plan h d =
     andThen (makeInstanceActionRequest env instanceActionStop)
       (andThen
          (whenever (list_ex (d_HasChange d) stopProperties)
             (bind (lift (stoppedInstanceUpdateRequest env d)) (makeInstanceUpdateRequest env)))
       (andThen
          (whenever (needUpdateInterfacesOnStoppedInstance plan)
              (seq [
                 forEach (removeNatRequests plan) (makeInstanceRemoveOneToOneNatRequest env),
                 forEach (addNatRequests plan) (makeInstanceAddOneToOneNatRequest env),
                 forEach (updateInterfaceRequests plan) (makeInstanceUpdateNetworkInterfaceRequest env),
                 forEach (attachInterfaceRequests plan) (makeInstanceAttachNetworkInterfaceRequest env),
                 forEach (detachInterfaceRequests plan) (makeInstanceDetachNetworkInterfaceRequest env)
               ]))
       (andThen (makeInstanceActionRequest env instanceActionStart) (return ())))) h d"
  using allow needs
  unfolding updateOnStoppedInstance_def withData_def five_changed
  by (simp add: whenever_simps ensureAllowStoppingForUpdate_def andThen_skip)

lemma stopped_block_runs:
  assumes allow: "asBool (d_Get d ''allow_stopping_for_update'')"
      and needs: "list_ex (d_HasChange d) stopProperties
                  \<or> needUpdateInterfacesOnStoppedInstance plan"
      and steps: "stoppedSteps env d plan = Some steps"
  shows "runs (updateOnStoppedInstance env plan) steps d"
proof -
  let ?block = "andThen (makeInstanceActionRequest env instanceActionStop)
       (andThen
          (whenever (list_ex (d_HasChange d) stopProperties)
             (bind (lift (stoppedInstanceUpdateRequest env d)) (makeInstanceUpdateRequest env)))
       (andThen
          (whenever (needUpdateInterfacesOnStoppedInstance plan)
              (seq [
                 forEach (removeNatRequests plan) (makeInstanceRemoveOneToOneNatRequest env),
                 forEach (addNatRequests plan) (makeInstanceAddOneToOneNatRequest env),
                 forEach (updateInterfaceRequests plan) (makeInstanceUpdateNetworkInterfaceRequest env),
                 forEach (attachInterfaceRequests plan) (makeInstanceAttachNetworkInterfaceRequest env),
                 forEach (detachInterfaceRequests plan) (makeInstanceDetachNetworkInterfaceRequest env)
               ]))
       (andThen (makeInstanceActionRequest env instanceActionStart) (return ()))))"
  have eq: "runs (updateOnStoppedInstance env plan) rs d = runs ?block rs d" for rs
    by (rule runs_cong) (rule stopped_block [OF allow needs])
  have tail: "runs (andThen (makeInstanceActionRequest env instanceActionStart) (return ()))
                [InstanceStart (rd_Id d)] d"
    by (intro runs_andThen calls_make runs_return)
  note nics = interfaces_runs [OF tail, of plan env]
  show ?thesis
  proof (cases "list_ex (d_HasChange d) stopProperties")
    case False
    with steps have s: "steps = [InstanceStop (rd_Id d)] @ interfaceSteps plan
                                @ [InstanceStart (rd_Id d)]"
      by (simp add: stoppedSteps_def)
    from False nics show ?thesis
      unfolding s
      by (simp add: eq whenever_simps andThen_return runs_andThen calls_make)
  next
    case True
    with steps obtain req where req: "stoppedInstanceUpdateRequest env d = Inr req"
      and s: "steps = [InstanceStop (rd_Id d), InstanceUpdate req] @ interfaceSteps plan
                      @ [InstanceStart (rd_Id d)]"
      by (auto simp: stoppedSteps_def split: sum.splits)
    from True nics show ?thesis
      unfolding s
      by (simp add: eq whenever_simps req bind_lift_Inr runs_andThen calls_make)
  qed
qed

text \<open>When the request to the stopped instance cannot be built, the block ends after Stop.\<close>

lemma stopped_block_fails:
  assumes allow: "asBool (d_Get d ''allow_stopping_for_update'')"
      and needs: "list_ex (d_HasChange d) stopProperties
                  \<or> needUpdateInterfacesOnStoppedInstance plan"
      and steps: "stoppedSteps env d plan = None"
      and run: "updateOnStoppedInstance env plan h d = (res, d', evs)"
  shows "d' = d \<and> isl res
         \<and> (failedEvents (InstanceStop (rd_Id d)) evs \<or> evs = okEvents (InstanceStop (rd_Id d)))"
proof -
  from steps obtain e where five: "list_ex (d_HasChange d) stopProperties"
    and e: "stoppedInstanceUpdateRequest env d = Inl e"
    by (auto simp: stoppedSteps_def split: if_splits sum.splits)
  let ?rest = "andThen
          (whenever (needUpdateInterfacesOnStoppedInstance plan)
              (seq [
                 forEach (removeNatRequests plan) (makeInstanceRemoveOneToOneNatRequest env),
                 forEach (addNatRequests plan) (makeInstanceAddOneToOneNatRequest env),
                 forEach (updateInterfaceRequests plan) (makeInstanceUpdateNetworkInterfaceRequest env),
                 forEach (attachInterfaceRequests plan) (makeInstanceAttachNetworkInterfaceRequest env),
                 forEach (detachInterfaceRequests plan) (makeInstanceDetachNetworkInterfaceRequest env)
               ]))
       (andThen (makeInstanceActionRequest env instanceActionStart) (return ()))"
  have fails: "andThen (bind (lift (stoppedInstanceUpdateRequest env d))
                          (makeInstanceUpdateRequest env)) ?rest h' d = (Inl e, d, [])" for h'
    by (simp add: e andThen_Inl bind_Inl lift_def)
  from run have "andThen (makeInstanceActionRequest env instanceActionStop)
       (andThen (bind (lift (stoppedInstanceUpdateRequest env d))
                   (makeInstanceUpdateRequest env)) ?rest) h d = (res, d', evs)"
    by (simp add: stopped_block [OF allow needs] five whenever_simps)
  then show ?thesis
  proof (rule andThen_first, goal_cases)
    case (1 res1 d1 ev1 rest)
    from calls_make(7) [of env d] 1(1) have d1: "d1 = d"
      and c: "res1 = Inr () \<and> ev1 = okEvents (InstanceStop (rd_Id d))
              \<or> isl res1 \<and> failedEvents (InstanceStop (rd_Id d)) ev1"
      by (auto simp: calls_def)
    from c show ?case
    proof
      assume a: "res1 = Inr () \<and> ev1 = okEvents (InstanceStop (rd_Id d))"
      with 1(4) d1 fails [of "h @ ev1"] have "res = Inl e" "d' = d" "rest = []" by simp_all
      with a 1(2) show ?thesis by simp
    next
      assume a: "isl res1 \<and> failedEvents (InstanceStop (rd_Id d)) ev1"
      then obtain e' where "res1 = Inl e'" by (cases res1) auto
      with 1(3) [OF this] a 1(2) d1 show ?thesis by simp
    qed
  qed
qed

text \<open>Read calls Get once, and that is all it calls.\<close>

lemma readInstanceInto_events:
  assumes "readInstanceInto env inst h d = (r, d', evs)"
  shows "evs = []"
proof -
  have "safe (\<lambda>d. True) (\<lambda>ev. False) (readInstanceInto env inst)"
    by (rule safe_readInstanceInto) (simp add: keeps_def)
  from safe_events [OF assms this] show ?thesis by (cases evs) simp_all
qed

lemma computeRead_events:
  assumes "resourceYandexComputeInstanceRead env h d = (r, d', evs)"
  shows "\<exists>e. evs = [Called (InstanceGet \<lparr>gir_InstanceId = rd_Id d, gir_View = FULL\<rparr>) e]"
proof (cases "api_instance env h \<lparr>gir_InstanceId = rd_Id d, gir_View = FULL\<rparr>")
  case (Inl err)
  with assms show ?thesis
    by (auto simp: resourceYandexComputeInstanceRead_def withData_def branch_def
          instanceGet_def returnHandleNotFoundError_def split: prod.splits)
next
  case (Inr inst)
  let ?G = "Called (InstanceGet \<lparr>gir_InstanceId = rd_Id d, gir_View = FULL\<rparr>) None"
  obtain r2 d2 ev2 where
    into: "readInstanceInto env inst (h @ [?G]) d = (r2, d2, ev2)"
    by (metis prod_cases3)
  from Inr have get:
    "instanceGet env \<lparr>gir_InstanceId = rd_Id d, gir_View = FULL\<rparr> h d = (Inr inst, d, [?G])"
    by (simp add: instanceGet_def)
  from assms have "resourceYandexComputeInstanceRead env h d = (r2, d2, [?G] @ ev2)"
    unfolding resourceYandexComputeInstanceRead_def withData_def
    by (simp add: branch_Inr
          [where m = "instanceGet env \<lparr>gir_InstanceId = rd_Id d, gir_View = FULL\<rparr>", OF get]
          into)
  with assms readInstanceInto_events [OF into] show ?thesis by auto
qed

lemma final_read:
  assumes "andThen (d_Partial False) (andThen (resourceYandexComputeInstanceRead env) (return ()))
             h d = (r, d', evs)"
  shows "\<exists>e. evs = [Called (InstanceGet \<lparr>gir_InstanceId = rd_Id d, gir_View = FULL\<rparr>) e]"
  using assms
proof (rule andThen_first, goal_cases)
  case (1 res1 d1 ev1 rest1)
  from 1(1) have p: "res1 = Inr ()" "d1 = d\<lparr>rd_partial := False\<rparr>" "ev1 = []"
    by (simp_all add: d_Partial_def)
  from 1(4) [OF p(1)] show ?case
  proof (rule andThen_first, goal_cases)
    case (1 res2 d2 ev2 rest2)
    from computeRead_events [OF 1(1)] p obtain e where
      ev2: "ev2 = [Called (InstanceGet \<lparr>gir_InstanceId = rd_Id d, gir_View = FULL\<rparr>) e]"
      by auto
    have "rest2 = []"
    proof (cases res2)
      case (Inl err)
      from 1(3) [OF this] show ?thesis by simp
    next
      case (Inr u)
      then have "res2 = Inr ()" by simp
      from 1(4) [OF this] show ?thesis by (simp add: return_def)
    qed
    with ev2 1(2) \<open>evs = ev1 @ rest1\<close> p show ?thesis by simp
  qed
qed

subsection \<open>Before the last block\<close>

lemma keeps_sameSettings: "keeps (sameSettings d0)"
  by (auto simp: keeps_def sameSettings_def sameChange_def d_Get_def readKeys_def)

lemma before_updateFolder:
  "safe (sameSettings d0) (onRpc (unstopped nics)) (updateFolder env inst)"
  unfolding updateFolder_def seq.simps
  by (intro safe_rules safe_computeDelete safe_computeCreate keeps_sameSettings) simp_all

lemma before_simple_updates:
  "safe (sameSettings d0) (onRpc (unstopped nics)) (updateLabels env)"
  "safe (sameSettings d0) (onRpc (unstopped nics)) (updateMetadata env)"
  "safe (sameSettings d0) (onRpc (unstopped nics)) (updateMetadataOptions env)"
  "safe (sameSettings d0) (onRpc (unstopped nics)) (updateName env)"
  "safe (sameSettings d0) (onRpc (unstopped nics)) (updateDescription env)"
  "safe (sameSettings d0) (onRpc (unstopped nics)) (updateServiceAccount env)"
  unfolding updateLabels_def updateMetadata_def updateMetadataOptions_def updateName_def
    updateDescription_def updateServiceAccount_def
  by (intro safe_rules;
      simp add: stoppedMaskPaths_def stoppedPaths_def placementPaths_def)+

lemma before_updateMaintenance:
  "safe (sameSettings d0) (onRpc (unstopped nics)) (updateMaintenance env)"
  unfolding updateMaintenance_def
  by (intro safe_rules) (use maintenance_mask [where nics = nics] in auto)

lemma before_updateNetworkInterfaces:
  "safe (sameSettings d0) (onRpc (unstopped (interfacesNeedStop env d0 inst)))
     (updateNetworkInterfaces env inst)"
proof -
  have "\<not> interfacesNeedStop env d0 inst"
    if "sameSettings d0 d" "planNetworkInterfaces env d inst = Inr plan"
      "\<not> needUpdateInterfacesOnStoppedInstance plan" for d plan
  proof -
    from that(1) have "sameChange d0 d" by (simp add: sameSettings_def)
    from interfacesNeedStop_sameChange [OF this]
    have "interfacesNeedStop env d0 inst = interfacesNeedStop env d inst" by simp
    with that(2,3) show ?thesis by (simp add: interfacesNeedStop_def)
  qed
  then show ?thesis
    unfolding updateNetworkInterfaces_def seq.simps
    by (intro safe_rules) auto
qed

lemma before_disks:
  "safe (sameSettings d0) (onRpc (unstopped nics)) (updateSecondaryDisks env inst)"
  "safe (sameSettings d0) (onRpc (unstopped nics)) (updateFilesystems env inst)"
  unfolding updateSecondaryDisks_def updateFilesystems_def seq.simps
  by (intro safe_rules; simp)+

lemma before_first:
  "safe (sameSettings d0) (onRpc (unstopped nics))
     (andThen (updateFolder env inst)
        (seq [updateLabels env, updateMetadata env, updateMetadataOptions env,
              updateName env, updateDescription env, updateServiceAccount env,
              updateMaintenance env]))"
  unfolding seq.simps
  by (intro safe_andThen safe_return before_updateFolder before_simple_updates
        before_updateMaintenance)

lemma before_updateBeforeStop:
  "safe (sameSettings d0) (onRpc (unstopped (interfacesNeedStop env d0 inst)))
     (updateBeforeStop env inst)"
  unfolding updateBeforeStop_def seq.simps
  by (intro safe_andThen safe_bind safe_return before_updateFolder before_simple_updates
        before_updateMaintenance before_updateNetworkInterfaces before_disks)

lemma updateBeforeStop_flag:
  assumes "sameSettings d0 d"
      and "updateBeforeStop env inst h d = (Inr plan, d1, evs1)"
  shows "needUpdateInterfacesOnStoppedInstance plan = interfacesNeedStop env d0 inst"
proof -
  from assms(2) obtain dA evA evB where
    A: "andThen (updateFolder env inst)
          (seq [updateLabels env, updateMetadata env, updateMetadataOptions env,
                updateName env, updateDescription env, updateServiceAccount env,
                updateMaintenance env]) h d = (Inr (), dA, evA)"
    and B: "bind (updateNetworkInterfaces env inst) (\<lambda>plan.
              andThen (seq [updateSecondaryDisks env inst, updateFilesystems env inst])
                (return plan)) (h @ evA) dA = (Inr plan, d1, evB)"
    unfolding updateBeforeStop_def seq.simps(2) [of "updateFolder env inst"]
    by (rule andThen_success)
  from safeD [OF before_first assms(1) A] have dA: "sameChange d0 dA"
    by (simp add: sameSettings_def)
  from B obtain plan' dN evN evK where
    N: "updateNetworkInterfaces env inst (h @ evA) dA = (Inr plan', dN, evN)"
    and K: "andThen (seq [updateSecondaryDisks env inst, updateFilesystems env inst])
                (return plan') ((h @ evA) @ evN) dN = (Inr plan, d1, evK)"
    by (rule bind_success)
  from K have "plan = plan'"
    by (elim andThen_success) (simp add: return_def)
  with updateNetworkInterfaces_plan [OF N]
  have "interfacesNeedStop env dA inst = needUpdateInterfacesOnStoppedInstance plan"
    by (simp add: interfacesNeedStop_def)
  with interfacesNeedStop_sameChange [OF dA] show ?thesis by simp
qed

lemma stopped_block_skipped:
  assumes "\<not> (list_ex (d_HasChange d) stopProperties
              \<or> needUpdateInterfacesOnStoppedInstance plan)"
  shows "updateOnStoppedInstance env plan h d = (Inr (), d, [])"
  using assms
  unfolding updateOnStoppedInstance_def withData_def five_changed
  by (simp add: whenever_simps return_def)

subsection \<open>The example runs that stop the instance\<close>

lemma nicAllowedData_simps:
  "rd_Id nicAllowedData = ''vm-1''"
  "rd_partial nicAllowedData = False"
  "rd_attrs nicAllowedData = (\<lambda>k. VNil)
         (''name'' := VString ''vm'',
          ''network_interface'' := VList [VObj [(''subnet_id'', VString ''subnet-b'')]],
          ''allow_stopping_for_update'' := VBool True)"
  "rd_old nicAllowedData = (\<lambda>k. VNil)
         (''name'' := VString ''vm'',
          ''network_interface'' := VList [VObj [(''subnet_id'', VString ''subnet-a'')]],
          ''allow_stopping_for_update'' := VBool True)"
  "rd_new nicAllowedData = (\<lambda>k. VNil)
         (''name'' := VString ''vm'',
          ''network_interface'' := VList [VObj [(''subnet_id'', VString ''subnet-b'')]],
          ''allow_stopping_for_update'' := VBool True)"
  by (simp_all add: nicAllowedData_def)

lemma exampleData_before:
  "updateBeforeStop exampleEnv exampleInstance
     [Called (InstanceGet \<lparr>gir_InstanceId = ''vm-1'', gir_View = BASIC\<rparr>) None]
     (exampleData\<lparr>rd_partial := True\<rparr>)
   = (Inr noInterfaceChanges, exampleData\<lparr>rd_partial := True\<rparr>,
      okEvents (InstanceUpdate (labelsRequest ''vm-1'')))"
  by (simp add: update_blocks exampleData_simps exampleEnv_simps exampleInstance_def
      labelsRequest_def okEvents_def)

lemma exampleData_steps:
  "stoppedSteps exampleEnv (exampleData\<lparr>rd_partial := True\<rparr>) noInterfaceChanges
     = Some [InstanceStop ''vm-1'', InstanceUpdate (platformRequest ''vm-1''),
             InstanceStart ''vm-1'']"
  "needsStop exampleEnv exampleData exampleInstance"
  "asBool (d_Get exampleData ''allow_stopping_for_update'')"
  by (simp_all add: stoppedSteps_def needsStop_def stopProperties_def d_HasChange_def
        d_GetChange_def d_Get_def exampleData_simps stoppedInstanceUpdateRequest_def bindE_def
        Let_def exampleEnv_simps platformRequest_def emptyUpdateInstanceRequest_def
        interfaceSteps_def noInterfaceChanges_def)

lemma nicAllowedData_before:
  "updateBeforeStop exampleEnv exampleInstance
     [Called (InstanceGet \<lparr>gir_InstanceId = ''vm-1'', gir_View = BASIC\<rparr>) None]
     (nicAllowedData\<lparr>rd_partial := True\<rparr>)
   = (Inr subnetPlan, nicAllowedData\<lparr>rd_partial := True\<rparr>, [])"
  by (simp add: update_blocks nicAllowedData_simps exampleEnv_simps exampleInstance_def
        getSpecsForUpdateNetworkInterfaces_def
        getSpecsForAddRemoveNatNetworkInterfaces_def updateInterfaceRequest_def
        exampleEnv_interfaces subnetPlan_def subnetRequest_def)

lemma nicAllowedData_steps:
  "stoppedSteps exampleEnv (nicAllowedData\<lparr>rd_partial := True\<rparr>) subnetPlan
     = Some [InstanceStop ''vm-1'', InstanceUpdateNetworkInterface subnetRequest,
             InstanceStart ''vm-1'']"
  "needsStop exampleEnv nicAllowedData exampleInstance"
  "asBool (d_Get nicAllowedData ''allow_stopping_for_update'')"
  "\<not> list_ex (d_HasChange nicAllowedData) stopProperties"
  by (simp_all add: stoppedSteps_def needsStop_def stopProperties_def d_HasChange_def
        d_GetChange_def d_Get_def nicAllowedData_simps interfaceSteps_def subnetPlan_def
        noInterfaceChanges_def
        interfacesNeedStop_def planNetworkInterfaces_def getSpecsForUpdateNetworkInterfaces_def
        getSpecsForAddRemoveNatNetworkInterfaces_def updateInterfaceRequest_def bindE_def
        Let_def exampleEnv_interfaces)

lemma nicAllowedData_run:
  "\<exists>d'. resourceYandexComputeInstanceUpdate exampleEnv [] nicAllowedData
          = (Inr (), d', subnetEvents)"
  by (simp add: update_blocks exampleEnv_read nicAllowedData_simps exampleEnv_simps
        exampleInstance_def getSpecsForUpdateNetworkInterfaces_def
        getSpecsForAddRemoveNatNetworkInterfaces_def updateInterfaceRequest_def
        exampleEnv_interfaces subnetEvents_def subnetRequest_def okEvents_def
        makeInstanceUpdateNetworkInterfaceRequest_def)

section \<open>Claims\<close>

text \<open>
  C9. For every string \<open>fqdn\<close>, \<open>parseHostnameFromFQDN\<close> returns, never with an
  error and never panicking: \<open>fqdn\<close> with a trailing dot when \<open>fqdn\<close> contains no dot;
  the empty string when \<open>fqdn\<close> ends with \<open>.auto.internal\<close>; the text before the first dot
  when \<open>fqdn\<close> ends with \<open>.internal\<close> but not with \<open>.auto.internal\<close>; and \<open>fqdn\<close> itself
  otherwise.
\<close>

theorem C9_parseHostnameFromFQDN:
  "parseHostnameFromFQDN fqdn =
     Some ((if CHR ''.'' \<notin> set fqdn then fqdn @ ''.''
            else if suffix ''.auto.internal'' fqdn then []
            else if suffix ''.internal'' fqdn then takeWhile (\<lambda>c. c \<noteq> CHR ''.'') fqdn
            else fqdn),
           None)"
  by (rule parseHostnameFromFQDN_result)

text \<open>
  C10. In both Create functions the id from the metadata of the create operation is
  written to the resource data before \<open>op.Wait\<close> is called: when the request was built,
  the call returned an operation, its metadata held the id and waiting then failed,
  Create returns the error and the resource data already hold that id; the events are
  the call and the failed wait.
\<close>

theorem C10_create_records_id_before_wait:
  "(prepareCreateInstanceRequest env d = Inr req
      \<and> api_operation env h (InstanceCreate req) = Inr op
      \<and> op_Metadata op = Inr (CreateInstanceMetadata instanceId)
      \<and> op_Wait op = Some err
    \<longrightarrow> resourceYandexComputeInstanceCreate env h d =
          (Inl (''Error while waiting operation to create instance: '' @ err),
           d\<lparr>rd_Id := instanceId\<rparr>,
           [Called (InstanceCreate req) None, Waited (InstanceCreate req) (Some err)]))
   \<and>
   (string_d env ''getFolderID'' d = Inr folderId
      \<and> expand_d env ''expandAdvancedRateLimiterProfileAdvancedRateLimiterRulesSlice'' d = Inr rules
      \<and> preq = \<lparr> carl_FolderId = folderId,
                   carl_Labels = build_v env ''expandStringStringMap'' (d_Get d ''labels''),
                   carl_Name = asString (d_Get d ''name''),
                   carl_Description = asString (d_Get d ''description''),
                   carl_AdvancedRateLimiterRules = rules \<rparr>
      \<and> api_operation env h (ProfileCreate preq) = Inr pop
      \<and> op_Metadata pop = Inr (CreateAdvancedRateLimiterProfileMetadata profileId)
      \<and> op_Wait pop = Some perr
    \<longrightarrow> resourceYandexSmartwebsecurityAdvancedRateLimiterAdvancedRateLimiterProfileCreate env h d =
          (Inl perr, d\<lparr>rd_Id := profileId\<rparr>,
           [Called (ProfileCreate preq) None, Waited (ProfileCreate preq) (Some perr)]))"
  using computeCreate_wait_fails [of env d req h op instanceId err]
    profileCreate_wait_fails [of env d folderId rules preq h pop profileId perr]
  by blast

theorem C10_create_records_id_before_wait_witness:
  "(\<exists>err. fst (resourceYandexComputeInstanceCreate waitFailsEnv [] exampleData) = Inl err)
   \<and> rd_Id (fst (snd (resourceYandexComputeInstanceCreate waitFailsEnv [] exampleData))) = ''vm-2''
   \<and> fst (resourceYandexSmartwebsecurityAdvancedRateLimiterAdvancedRateLimiterProfileCreate
            waitFailsEnv [] profileData) = Inl ''deadline exceeded''
   \<and> rd_Id (fst (snd (resourceYandexSmartwebsecurityAdvancedRateLimiterAdvancedRateLimiterProfileCreate
            waitFailsEnv [] profileData))) = ''arl-1''"
proof -
  obtain req where req: "prepareCreateInstanceRequest waitFailsEnv exampleData = Inr req"
    using exampleData_prepare by blast
  define preq where "preq =
     \<lparr> carl_FolderId = ''getFolderID'',
       carl_Labels = build_v waitFailsEnv ''expandStringStringMap'' (d_Get profileData ''labels''),
       carl_Name = asString (d_Get profileData ''name''),
       carl_Description = asString (d_Get profileData ''description''),
       carl_AdvancedRateLimiterRules =
         Some ''expandAdvancedRateLimiterProfileAdvancedRateLimiterRulesSlice'' \<rparr>"
  have "resourceYandexComputeInstanceCreate waitFailsEnv [] exampleData =
          (Inl (''Error while waiting operation to create instance: '' @ ''deadline exceeded''),
           exampleData\<lparr>rd_Id := ''vm-2''\<rparr>,
           [Called (InstanceCreate req) None, Waited (InstanceCreate req) (Some ''deadline exceeded'')])"
    using C10_create_records_id_before_wait
      [of waitFailsEnv exampleData req "[]"
          "(doneOperation (InstanceCreate req))\<lparr> op_Wait := Some ''deadline exceeded'' \<rparr>"
          "''vm-2''" "''deadline exceeded''"] req
    by (simp add: waitFailsEnv_simps doneOperation_def)
  moreover
  have "resourceYandexSmartwebsecurityAdvancedRateLimiterAdvancedRateLimiterProfileCreate
          waitFailsEnv [] profileData =
          (Inl ''deadline exceeded'', profileData\<lparr>rd_Id := ''arl-1''\<rparr>,
           [Called (ProfileCreate preq) None, Waited (ProfileCreate preq) (Some ''deadline exceeded'')])"
    using C10_create_records_id_before_wait
      [of waitFailsEnv profileData _ "[]" _ _ _ "''getFolderID''"
          "Some ''expandAdvancedRateLimiterProfileAdvancedRateLimiterRulesSlice''" preq
          "(doneOperation (ProfileCreate preq))\<lparr> op_Wait := Some ''deadline exceeded'' \<rparr>"
          "''arl-1''" "''deadline exceeded''"]
    by (simp add: waitFailsEnv_simps doneOperation_def preq_def)
  ultimately show ?thesis by simp
qed

text \<open>
  C5. Whatever the resource data, every update request that Update of the Advanced Rate
  Limiter profile sends has an update mask whose paths are among \<open>labels\<close>, \<open>name\<close>,
  \<open>description\<close> and \<open>advanced_rate_limiter_rules\<close>, the four values of the fields map.
\<close>

theorem C5_update_mask_paths:
  assumes "resourceYandexSmartwebsecurityAdvancedRateLimiterAdvancedRateLimiterProfileUpdate env h d
             = (r, d', evs)"
      and "Called (ProfileUpdate req) e \<in> set evs"
  shows "set (uarl_UpdateMask req)
           \<subseteq> {''labels'', ''name'', ''description'', ''advanced_rate_limiter_rules''}"
proof -
  from safeD [OF safe_profileUpdate _ assms(1)]
  have "list_all (maskWithin {''labels'', ''name'', ''description'', ''advanced_rate_limiter_rules''}) evs"
    by simp
  with assms(2) show ?thesis
    by (auto simp: list_all_iff maskWithin_def)
qed

theorem C5_update_mask_paths_witness:
  "Called (ProfileUpdate profileDataRequest) None
     \<in> set (snd (snd (resourceYandexSmartwebsecurityAdvancedRateLimiterAdvancedRateLimiterProfileUpdate
                        exampleEnv [] profileData)))
   \<and> set (uarl_UpdateMask profileDataRequest)
       \<subseteq> {''labels'', ''name'', ''description'', ''advanced_rate_limiter_rules''}"
proof -
  have mem: "Called (ProfileUpdate profileDataRequest) None
     \<in> set (snd (snd (resourceYandexSmartwebsecurityAdvancedRateLimiterAdvancedRateLimiterProfileUpdate
                        exampleEnv [] profileData)))"
    by (simp add: profileData_update_events)
  obtain r d' evs where run:
    "resourceYandexSmartwebsecurityAdvancedRateLimiterAdvancedRateLimiterProfileUpdate
       exampleEnv [] profileData = (r, d', evs)"
    by (metis prod_cases3)
  with mem have "Called (ProfileUpdate profileDataRequest) None \<in> set evs" by simp
  from C5_update_mask_paths [OF run this] mem show ?thesis by blast
qed

text \<open>
  C6. Read of the Advanced Rate Limiter profile makes exactly one remote call, the
  \<open>Get\<close> of the profile. When that call returned a profile and Read returns no error,
  the resource data hold the flattened rules, \<open>cloud_id\<close>, \<open>created_at\<close>,
  \<open>description\<close>, \<open>folder_id\<close>, \<open>labels\<close> and \<open>name\<close> of the response; and when one of these
  seven \<open>Set\<close> calls is refused, Read returns an error.
\<close>

theorem C6_profile_read:
  assumes run: "resourceYandexSmartwebsecurityAdvancedRateLimiterAdvancedRateLimiterProfileRead env h d
             = (r, d', evs)"
  shows "evs = [Called (ProfileGet (rd_Id d))
                  (case api_profile env h (rd_Id d) of Inl err \<Rightarrow> Some err | Inr resp \<Rightarrow> None)]
     \<and> (\<forall>resp. api_profile env h (rd_Id d) = Inr resp \<longrightarrow>
          (r = Inr () \<longrightarrow>
             (\<exists>rule. flattenRuleSlice env (arl_AdvancedRateLimiterRules resp) = Inr rule
                \<and> d_Get d' ''advanced_rate_limiter_rule'' = rule)
             \<and> d_Get d' ''cloud_id'' = VString (arl_CloudId resp)
             \<and> d_Get d' ''created_at'' = VString (getTimestamp env (arl_CreatedAt resp))
             \<and> d_Get d' ''description'' = VString (arl_Description resp)
             \<and> d_Get d' ''folder_id'' = VString (arl_FolderId resp)
             \<and> d_Get d' ''labels'' = stringMap (arl_Labels resp)
             \<and> d_Get d' ''name'' = VString (arl_Name resp))
          \<and> (\<forall>rule. flattenRuleSlice env (arl_AdvancedRateLimiterRules resp) = Inr rule \<longrightarrow>
                (\<exists>(k, v) \<in> set [(''advanced_rate_limiter_rule'', rule),
                     (''cloud_id'', VString (arl_CloudId resp)),
                     (''created_at'', VString (getTimestamp env (arl_CreatedAt resp))),
                     (''description'', VString (arl_Description resp)),
                     (''folder_id'', VString (arl_FolderId resp)),
                     (''labels'', stringMap (arl_Labels resp)),
                     (''name'', VString (arl_Name resp))]. set_error env k v \<noteq> None) \<longrightarrow>
                (\<exists>err. r = Inl err)))"
proof (cases "api_profile env h (rd_Id d)")
  case (Inl err)
  obtain r2 d2 ev2 where k: "returnHandleNotFoundError env err
        (''advanced_rate_limiter_profile '' @ quoted (rd_Id d))
        (h @ [Called (ProfileGet (rd_Id d)) (Some err)]) d = (r2, d2, ev2)"
    by (metis prod_cases3)
  from returnHandleNotFoundError_events [OF k] run Inl k show ?thesis
    by (auto simp: profileRead_unfold)
next
  case (Inr resp)
  note get = Inr
  show ?thesis
  proof (cases "flattenRuleSlice env (arl_AdvancedRateLimiterRules resp)")
    case (Inl err)
    with run get show ?thesis by (auto simp: profileRead_unfold)
  next
    case (Inr rule)
    let ?kvs = "[(''advanced_rate_limiter_rule'', rule),
                 (''cloud_id'', VString (arl_CloudId resp)),
                 (''created_at'', VString (getTimestamp env (arl_CreatedAt resp))),
                 (''description'', VString (arl_Description resp)),
                 (''folder_id'', VString (arl_FolderId resp)),
                 (''labels'', stringMap (arl_Labels resp)),
                 (''name'', VString (arl_Name resp))]"
    obtain r2 d2 ev2 where k:
      "setAll env ?kvs (h @ [Called (ProfileGet (rd_Id d)) None]) d = (r2, d2, ev2)"
      by (metis prod_cases3)
    with run get Inr have res: "r = r2" "d' = d2" "evs = Called (ProfileGet (rd_Id d)) None # ev2"
      by (simp_all add: profileRead_unfold)
    note sa = setAll_result [OF k]
    from sa have ev2: "ev2 = []" by simp
    have ok: "r2 = Inr () \<Longrightarrow> rd_attrs d2 = fold (\<lambda>(k, v) f. f(k := v)) ?kvs (rd_attrs d)"
      using sa by simp
    have bad: "\<exists>(k, v) \<in> set ?kvs. set_error env k v \<noteq> None \<Longrightarrow> \<exists>err. r2 = Inl err"
    proof (cases r2)
      case (Inl e)
      then show ?thesis by simp
    next
      case (Inr u)
      assume "\<exists>(k, v) \<in> set ?kvs. set_error env k v \<noteq> None"
      moreover from sa Inr have "\<forall>(k, v) \<in> set ?kvs. set_error env k v = None" by simp
      ultimately show ?thesis by (rule some_set_fails_not_all_succeed [THEN FalseE])
    qed
    have vals: "r2 = Inr () \<Longrightarrow>
        d_Get d2 ''advanced_rate_limiter_rule'' = rule
      \<and> d_Get d2 ''cloud_id'' = VString (arl_CloudId resp)
      \<and> d_Get d2 ''created_at'' = VString (getTimestamp env (arl_CreatedAt resp))
      \<and> d_Get d2 ''description'' = VString (arl_Description resp)
      \<and> d_Get d2 ''folder_id'' = VString (arl_FolderId resp)
      \<and> d_Get d2 ''labels'' = stringMap (arl_Labels resp)
      \<and> d_Get d2 ''name'' = VString (arl_Name resp)"
      using ok by (simp add: d_Get_def)
    from res ev2 get Inr vals bad show ?thesis by auto
  qed
qed

theorem C6_profile_read_witness:
  "snd (snd (resourceYandexSmartwebsecurityAdvancedRateLimiterAdvancedRateLimiterProfileRead
               exampleEnv [] profileData)) = [Called (ProfileGet ''arl-1'') None]
   \<and> d_Get (fst (snd (resourceYandexSmartwebsecurityAdvancedRateLimiterAdvancedRateLimiterProfileRead
                        exampleEnv [] profileData))) ''name'' = VString ''limits''
   \<and> d_Get (fst (snd (resourceYandexSmartwebsecurityAdvancedRateLimiterAdvancedRateLimiterProfileRead
                        exampleEnv [] profileData))) ''cloud_id'' = VString ''cloud-a''
   \<and> (\<exists>err. fst (resourceYandexSmartwebsecurityAdvancedRateLimiterAdvancedRateLimiterProfileRead
                    setFailsEnv [] profileData) = Inl err)"
proof -
  obtain r d' evs where run:
    "resourceYandexSmartwebsecurityAdvancedRateLimiterAdvancedRateLimiterProfileRead
       exampleEnv [] profileData = (r, d', evs)"
    by (metis prod_cases3)
  with profileData_read_ok have r: "r = Inr ()" by simp
  have get: "api_profile exampleEnv [] (rd_Id profileData) = Inr exampleProfile"
    by (simp add: exampleEnv_simps)
  obtain r2 d2 evs2 where run2:
    "resourceYandexSmartwebsecurityAdvancedRateLimiterAdvancedRateLimiterProfileRead
       setFailsEnv [] profileData = (r2, d2, evs2)"
    by (metis prod_cases3)
  have get2: "api_profile setFailsEnv [] (rd_Id profileData) = Inr exampleProfile"
    by (simp add: setFailsEnv_simps)
  have flat2: "flattenRuleSlice setFailsEnv (arl_AdvancedRateLimiterRules exampleProfile) = Inr (VList [])"
    by (simp add: setFailsEnv_simps)
  from C6_profile_read [OF run] get r
  have a: "evs = [Called (ProfileGet ''arl-1'') None]"
      "d_Get d' ''name'' = VString ''limits''" "d_Get d' ''cloud_id'' = VString ''cloud-a''"
    by (auto simp: profileData_simps exampleProfile_def profileRead_unfold exampleEnv_simps
        split: prod.splits)
  from C6_profile_read [OF run2] get2 flat2
  have b: "\<exists>err. r2 = Inl err"
    by (simp add: setFailsEnv_simps)
  from a b run run2 show ?thesis by simp
qed




text \<open>
  C3. Every \<open>UpdateInstanceRequest\<close> that \<open>resourceYandexComputeInstanceUpdate\<close> issues,
  in a run that ends with or without an error, has exactly the paths of what changed in
  its mask: a request for one of \<open>labels\<close>, \<open>metadata\<close>, \<open>metadata_options\<close>, \<open>name\<close>,
  \<open>description\<close>, \<open>service_account_id\<close> has that one path and the property changed; the
  request for the maintenance properties has the paths of those that changed; the
  request to the stopped instance has \<open>resources_spec\<close>, \<open>platform_id\<close>,
  \<open>network_settings\<close>, \<open>scheduling_policy.preemptible\<close> if and only if \<open>resources\<close>,
  \<open>platform_id\<close>, \<open>network_acceleration_type\<close>, \<open>scheduling_policy\<close> changed, and a path
  \<open>placement_policy.X\<close> if and only if \<open>placement_policy\<close> and \<open>placement_policy.0.X\<close>
  changed. No field whose path is outside the mask holds a value.
\<close>

theorem C3_update_mask_exact:
  assumes "resourceYandexComputeInstanceUpdate env h d = (r, d', evs)"
      and "Called (InstanceUpdate req) e \<in> set evs"
  shows "maskExact d req"
proof -
  have "sameChange d d" by (simp add: sameChange_def)
  from safeD [OF exact_computeUpdate this assms(1)]
  have "list_all (onRpc (updatesExact d)) evs" by simp
  with assms(2) have "onRpc (updatesExact d) (Called (InstanceUpdate req) e)"
    by (simp add: list_all_iff)
  then show ?thesis by (simp add: onRpc_def)
qed

theorem C3_update_mask_exact_witness:
  "(\<exists>d'. resourceYandexComputeInstanceUpdate exampleEnv [] exampleData
            = (Inr (), d', exampleEvents))
   \<and> Called (InstanceUpdate (labelsRequest ''vm-1'')) None \<in> set exampleEvents
   \<and> Called (InstanceUpdate (platformRequest ''vm-1'')) None \<in> set exampleEvents
   \<and> maskExact exampleData (labelsRequest ''vm-1'') \<and> uir_UpdateMask (labelsRequest ''vm-1'') = [''labels'']
   \<and> maskExact exampleData (platformRequest ''vm-1'')
   \<and> uir_UpdateMask (platformRequest ''vm-1'') = [''platform_id'']"
proof -
  from exampleData_run obtain d' where
    run: "resourceYandexComputeInstanceUpdate exampleEnv [] exampleData
            = (Inr (), d', exampleEvents)" ..
  have l: "Called (InstanceUpdate (labelsRequest ''vm-1'')) None \<in> set exampleEvents"
    and p: "Called (InstanceUpdate (platformRequest ''vm-1'')) None \<in> set exampleEvents"
    by (simp_all add: exampleEvents_def)
  from C3_update_mask_exact [OF run l] C3_update_mask_exact [OF run p] run l p
  show ?thesis
    by (simp add: labelsRequest_def platformRequest_def)
qed

text \<open>
  C2, as the code has it. When \<open>allow_stopping_for_update\<close> is false, no run of
  \<open>resourceYandexComputeInstanceUpdate\<close> issues a Stop, Start or Move request, an attach
  or detach of a network interface, or an \<open>UpdateInstanceRequest\<close> with a path of the
  request to the stopped instance; and when the change of \<open>network_interface\<close> needs a
  stopped instance, none issues an update of a network interface or a request to add
  or remove a NAT. If the instance was read, \<open>folder_id\<close> changed and \<open>allow_recreate\<close> is
  false, Update returns the error that names \<open>folder_id\<close>, and the Get is its only call.
  If the instance was read, one of \<open>resources\<close>, \<open>platform_id\<close>,
  \<open>network_acceleration_type\<close>, \<open>scheduling_policy\<close>, \<open>placement_policy\<close> changed or the
  change of \<open>network_interface\<close> needs a stopped instance, and all that Update does before
  its last block returned no error, Update returns the error of that block, whose text
  lists these five properties; the requests of the blocks before it have been sent.
\<close>

theorem C2_stopping_not_allowed:
  assumes "\<not> asBool (d_Get d ''allow_stopping_for_update'')"
      and "resourceYandexComputeInstanceUpdate env h d = (r, d', evs)"
  shows "list_all (onRpc (withoutStopping False)) evs
       \<and> (\<forall>inst.
            api_instance env h \<lparr>gir_InstanceId = rd_Id d, gir_View = BASIC\<rparr> = Inr inst \<longrightarrow>
              list_all (onRpc (withoutStopping (interfacesNeedStop env d inst))) evs
            \<and> (d_HasChange d ''folder_id'' \<and> \<not> asBool (d_Get d ''allow_recreate'') \<longrightarrow>
                 r = Inl (stoppingError [''folder_id''])
                 \<and> evs = [Called (InstanceGet \<lparr>gir_InstanceId = rd_Id d, gir_View = BASIC\<rparr>)
                            None])
            \<and> (\<forall>plan d1 evs1.
                 updateBeforeStop env inst
                   (h @ [Called (InstanceGet \<lparr>gir_InstanceId = rd_Id d, gir_View = BASIC\<rparr>)
                           None])
                   (d\<lparr>rd_partial := True\<rparr>) = (Inr plan, d1, evs1)
                 \<and> (list_ex (d_HasChange d) stopProperties \<or> interfacesNeedStop env d inst)
                 \<longrightarrow>
                   r = Inl (stoppingError stopProperties)
                   \<and> evs = Called (InstanceGet \<lparr>gir_InstanceId = rd_Id d, gir_View = BASIC\<rparr>)
                             None # evs1))"
proof (intro conjI allI impI)
  have I: "stoppingRefused d d"
    using assms(1) by (simp add: stoppingRefused_def sameChange_def)
  from safeD [OF refused_computeUpdate I assms(2)]
  show "list_all (onRpc (withoutStopping False)) evs" by simp
next
  fix inst
  let ?G = "Called (InstanceGet \<lparr>gir_InstanceId = rd_Id d, gir_View = BASIC\<rparr>) None"
  let ?d = "d\<lparr>rd_partial := True\<rparr>"
  let ?k = "\<lambda>plan. seq [updateOnStoppedInstance env plan, d_Partial False,
                         resourceYandexComputeInstanceRead env]"
  assume get: "api_instance env h \<lparr>gir_InstanceId = rd_Id d, gir_View = BASIC\<rparr> = Inr inst"
  obtain r2 d2 ev2 where
    b: "bind (updateBeforeStop env inst) ?k (h @ [?G]) ?d = (r2, d2, ev2)"
    by (metis prod_cases3)
  with assms(2) have evs: "evs = ?G # ev2"
    by (simp add: update_after_get [OF get])
  have I: "stoppingRefused d ?d"
    using assms(1) by (simp add: stoppingRefused_def sameChange_def d_Get_def)
  from safeD [OF refused_afterGet I b]
  have "list_all (onRpc (withoutStopping (interfacesNeedStop env d inst))) ev2" by simp
  with evs
  show "list_all (onRpc (withoutStopping (interfacesNeedStop env d inst))) evs"
    by (simp add: onRpc_def)
next
  fix inst
  assume get: "api_instance env h \<lparr>gir_InstanceId = rd_Id d, gir_View = BASIC\<rparr> = Inr inst"
    and a: "d_HasChange d ''folder_id'' \<and> \<not> asBool (d_Get d ''allow_recreate'')"
  let ?d = "d\<lparr>rd_partial := True\<rparr>"
  have "d_HasChange ?d ''folder_id''" "\<not> asBool (d_Get ?d ''allow_recreate'')"
    "\<not> asBool (d_Get ?d ''allow_stopping_for_update'')"
    using a assms(1) by (simp_all add: d_HasChange_def d_GetChange_def d_Get_def)
  from updateBeforeStop_refused [OF this]
  have "resourceYandexComputeInstanceUpdate env h d =
          (Inl (stoppingError [''folder_id'']), ?d,
           [Called (InstanceGet \<lparr>gir_InstanceId = rd_Id d, gir_View = BASIC\<rparr>) None])"
    using get by (simp add: update_after_get bind_Inl)
  with assms(2)
  show "r = Inl (stoppingError [''folder_id''])"
    "evs = [Called (InstanceGet \<lparr>gir_InstanceId = rd_Id d, gir_View = BASIC\<rparr>) None]"
    by simp_all
next
  fix inst plan d1 evs1
  let ?G = "Called (InstanceGet \<lparr>gir_InstanceId = rd_Id d, gir_View = BASIC\<rparr>) None"
  let ?d = "d\<lparr>rd_partial := True\<rparr>"
  assume get: "api_instance env h \<lparr>gir_InstanceId = rd_Id d, gir_View = BASIC\<rparr> = Inr inst"
    and a: "updateBeforeStop env inst (h @ [?G]) ?d = (Inr plan, d1, evs1)
            \<and> (list_ex (d_HasChange d) stopProperties \<or> interfacesNeedStop env d inst)"
  then have before: "updateBeforeStop env inst (h @ [?G]) ?d = (Inr plan, d1, evs1)"
    by simp
  have I: "stoppingRefused d ?d"
    using assms(1) by (simp add: stoppingRefused_def sameChange_def d_Get_def)
  from safeD [OF refused_updateBeforeStop(2) I before]
  have d1: "stoppingRefused d d1" by simp
  have "list_ex (d_HasChange d1) stopProperties = list_ex (d_HasChange d) stopProperties"
    using d1 by (simp add: stoppingRefused_def sameChange_HasChange [of d d1] list_ex_iff)
  with a updateBeforeStop_plan [OF I before]
  have "list_ex (d_HasChange d1) stopProperties \<or> needUpdateInterfacesOnStoppedInstance plan"
    by simp
  from updateOnStoppedInstance_refused [OF this] d1
  have "updateOnStoppedInstance env plan ((h @ [?G]) @ evs1) d1
          = (Inl (stoppingError stopProperties), d1, [])"
    by (simp add: stoppingRefused_def)
  then have "resourceYandexComputeInstanceUpdate env h d
               = (Inl (stoppingError stopProperties), d1, ?G # evs1)"
    using get
    by (simp add: update_after_get bind_Inr [where m = "updateBeforeStop env inst", OF before]
          andThen_Inl)
  with assms(2)
  show "r = Inl (stoppingError stopProperties)" "evs = ?G # evs1"
    by simp_all
qed

theorem C2_stopping_not_allowed_witness:
  "(\<exists>d'. resourceYandexComputeInstanceUpdate exampleEnv [] refusedData
           = (Inl (stoppingError stopProperties), d', refusedEvents))
   \<and> list_all (onRpc (withoutStopping False)) refusedEvents
   \<and> stoppingError stopProperties =
       ''Changing the resources, platform_id, network_acceleration_type, scheduling_policy, placement_policy in an instance requires stopping it. To acknowledge this action, please set allow_stopping_for_update = true in your config file.''
   \<and> (\<exists>d'. resourceYandexComputeInstanceUpdate exampleEnv [] (moveData False False)
           = (Inl (stoppingError [''folder_id'']), d',
              [Called (InstanceGet \<lparr>gir_InstanceId = ''vm-1'', gir_View = BASIC\<rparr>) None]))
   \<and> stoppingError [''folder_id''] =
       ''Changing the folder_id in an instance requires stopping it. To acknowledge this action, please set allow_stopping_for_update = true in your config file.''
   \<and> interfacesNeedStop exampleEnv nicData exampleInstance
   \<and> (\<exists>d'. resourceYandexComputeInstanceUpdate exampleEnv [] nicData
           = (Inl (stoppingError stopProperties), d',
              [Called (InstanceGet \<lparr>gir_InstanceId = ''vm-1'', gir_View = BASIC\<rparr>) None]))"
proof -
  let ?G = "Called (InstanceGet \<lparr>gir_InstanceId = ''vm-1'', gir_View = BASIC\<rparr>) None"
  have get: "api_instance exampleEnv [] \<lparr>gir_InstanceId = ''vm-1'', gir_View = BASIC\<rparr>
               = Inr exampleInstance"
    by (simp add: exampleEnv_simps)
  obtain r d' evs where
    run: "resourceYandexComputeInstanceUpdate exampleEnv [] refusedData = (r, d', evs)"
    by (metis prod_cases3)
  from refusedData_before obtain d1 where
    before: "updateBeforeStop exampleEnv exampleInstance ([] @ [?G])
               (refusedData\<lparr>rd_partial := True\<rparr>)
             = (Inr noInterfaceChanges, d1,
                [Called (InstanceUpdate (labelsRequest ''vm-1'')) None,
                 Waited (InstanceUpdate (labelsRequest ''vm-1'')) None])"
    by auto
  from C2_stopping_not_allowed [OF refusedData_facts(1) run]
  have "list_all (onRpc (withoutStopping False)) evs" by simp
  moreover
  from C2_stopping_not_allowed [OF refusedData_facts(1) run] get before refusedData_facts(2)
  have "r = Inl (stoppingError stopProperties)" "evs = refusedEvents"
    by (simp_all add: refusedData_simps refusedEvents_def)
  ultimately
  have 1: "\<exists>d'. resourceYandexComputeInstanceUpdate exampleEnv [] refusedData
           = (Inl (stoppingError stopProperties), d', refusedEvents)"
    and 2: "list_all (onRpc (withoutStopping False)) refusedEvents"
    using run by auto
  obtain r2 d2 evs2 where
    run2: "resourceYandexComputeInstanceUpdate exampleEnv [] (moveData False False)
             = (r2, d2, evs2)"
    by (metis prod_cases3)
  have "\<not> asBool (d_Get (moveData False False) ''allow_stopping_for_update'')"
    by (simp add: d_Get_def moveData_simps)
  from C2_stopping_not_allowed [OF this run2] get
  have "r2 = Inl (stoppingError [''folder_id''])" "evs2 = [?G]"
    by (simp_all add: moveData_simps d_Get_def d_HasChange_def d_GetChange_def)
  with run2 have 3: "\<exists>d'. resourceYandexComputeInstanceUpdate exampleEnv [] (moveData False False)
           = (Inl (stoppingError [''folder_id'']), d', [?G])"
    by auto
  obtain r3 d3 evs3 where
    run3: "resourceYandexComputeInstanceUpdate exampleEnv [] nicData = (r3, d3, evs3)"
    by (metis prod_cases3)
  from nicData_before obtain plan dn where
    before3: "updateBeforeStop exampleEnv exampleInstance ([] @ [?G])
               (nicData\<lparr>rd_partial := True\<rparr>) = (Inr plan, dn, [])"
    by auto
  from C2_stopping_not_allowed [OF nicData_facts(1) run3] get before3 nicData_facts(3)
  have "r3 = Inl (stoppingError stopProperties)" "evs3 = [?G]"
    by (simp_all add: nicData_simps)
  with run3 have 4: "\<exists>d'. resourceYandexComputeInstanceUpdate exampleEnv [] nicData
           = (Inl (stoppingError stopProperties), d', [?G])"
    by auto
  from 1 2 3 4 nicData_facts(3) show ?thesis
    by (simp add: stoppingError_def stopProperties_def)
qed

text \<open>
  C2 as the specification words it does not hold: with \<open>platform_id\<close> and \<open>labels\<close> changed
  and \<open>allow_stopping_for_update\<close> false, Update returns the error, but it has sent the
  request for \<open>labels\<close> and waited for it before: the remote state is not unchanged.
\<close>

theorem C2_counterexample:
  "list_ex (d_HasChange refusedData) stopProperties
   \<and> \<not> asBool (d_Get refusedData ''allow_stopping_for_update'')
   \<and> (\<exists>d'. resourceYandexComputeInstanceUpdate exampleEnv [] refusedData
           = (Inl (stoppingError stopProperties), d', refusedEvents))
   \<and> Waited (InstanceUpdate (labelsRequest ''vm-1'')) None \<in> set refusedEvents
   \<and> \<not> list_all (\<lambda>ev. \<not> mutating (rpcOf ev)) refusedEvents"
  using refusedData_facts refusedData_run mutating_rpcOf_refused
  by (simp add: refusedEvents_def)




text \<open>
  C1, as the code has it. Let the instance have been read, and take the run of all that
  Update does before its last block (\<open>updateBeforeStop\<close>), with the events \<open>evs1\<close>. None of
  \<open>evs1\<close> is a request to the stopped instance: no \<open>UpdateInstanceRequest\<close> with one of
  its paths, no attach or detach of a network interface and, when the change of
  \<open>network_interface\<close> needs a stopped instance, no update of an interface and no add or
  remove of a NAT. When that part returns an error, Update returns it and calls nothing
  more. Otherwise: if nothing needs a stopped instance, Update only reads the instance
  again; if something does and \<open>allow_stopping_for_update\<close> is false, Update returns the
  stopping error and calls nothing more; if something does and it is true, Update calls
  Stop, then the request to the stopped instance (when one of \<open>resources\<close>,
  \<open>platform_id\<close>, \<open>network_acceleration_type\<close>, \<open>scheduling_policy\<close>, \<open>placement_policy\<close>
  changed), then the requests for the interfaces (when they need a stopped instance),
  then Start, each waited for and in this order; the first that fails ends Update with
  an error, and so does a request to the stopped instance that cannot be built, after
  Stop; after Start, Update only reads the instance again.
\<close>

theorem C1_stop_update_start:
  assumes "api_instance env h \<lparr>gir_InstanceId = rd_Id d, gir_View = BASIC\<rparr> = Inr inst"
      and "updateBeforeStop env inst
             (h @ [Called (InstanceGet \<lparr>gir_InstanceId = rd_Id d, gir_View = BASIC\<rparr>) None])
             (d\<lparr>rd_partial := True\<rparr>) = (resB, d1, evs1)"
      and "resourceYandexComputeInstanceUpdate env h d = (r, d', evs)"
  shows "list_all (onRpc (unstopped (interfacesNeedStop env d inst))) evs1
       \<and> (\<forall>e. resB = Inl e \<longrightarrow>
            r = Inl e
            \<and> evs = Called (InstanceGet \<lparr>gir_InstanceId = rd_Id d, gir_View = BASIC\<rparr>) None
                    # evs1)
       \<and> (\<forall>plan. resB = Inr plan \<longrightarrow>
            needUpdateInterfacesOnStoppedInstance plan = interfacesNeedStop env d inst
            \<and> (\<not> needsStop env d inst \<longrightarrow>
                 (\<exists>e. evs = Called (InstanceGet \<lparr>gir_InstanceId = rd_Id d, gir_View = BASIC\<rparr>)
                              None # evs1
                            @ [Called (InstanceGet \<lparr>gir_InstanceId = rd_Id d1, gir_View = FULL\<rparr>)
                                 e]))
            \<and> (needsStop env d inst \<and> \<not> asBool (d_Get d ''allow_stopping_for_update'') \<longrightarrow>
                 r = Inl (stoppingError stopProperties)
                 \<and> evs = Called (InstanceGet \<lparr>gir_InstanceId = rd_Id d, gir_View = BASIC\<rparr>) None
                         # evs1)
            \<and> (needsStop env d inst \<and> asBool (d_Get d ''allow_stopping_for_update'') \<longrightarrow>
                 (\<exists>evsS rest.
                    evs = Called (InstanceGet \<lparr>gir_InstanceId = rd_Id d, gir_View = BASIC\<rparr>) None
                          # evs1 @ evsS @ rest
                    \<and> (case stoppedSteps env d1 plan of
                         Some steps \<Rightarrow>
                           (\<exists>ok. ran steps evsS ok
                              \<and> (\<not> ok \<longrightarrow> rest = [] \<and> isl r)
                              \<and> (ok \<longrightarrow>
                                   (\<exists>e. rest =
                                      [Called (InstanceGet
                                         \<lparr>gir_InstanceId = rd_Id d1, gir_View = FULL\<rparr>) e])))
                       | None \<Rightarrow>
                           isl r \<and> rest = []
                           \<and> (failedEvents (InstanceStop (rd_Id d1)) evsS
                              \<or> evsS = okEvents (InstanceStop (rd_Id d1)))))))"
proof -
  let ?G = "Called (InstanceGet \<lparr>gir_InstanceId = rd_Id d, gir_View = BASIC\<rparr>) None"
  let ?d = "d\<lparr>rd_partial := True\<rparr>"
  let ?k = "\<lambda>plan. seq [updateOnStoppedInstance env plan, d_Partial False,
                         resourceYandexComputeInstanceRead env]"
  note before = assms(2)
  have I: "sameSettings d ?d"
    by (simp add: sameSettings_def sameChange_def d_Get_def)
  from safeD [OF before_updateBeforeStop I before]
  have d1: "sameSettings d d1"
    and safe1: "list_all (onRpc (unstopped (interfacesNeedStop env d inst))) evs1"
    by simp_all
  from d1 have change: "d_HasChange d1 k = d_HasChange d k" for k
    by (simp add: sameSettings_def sameChange_HasChange)
  from d1 have allow: "d_Get d1 ''allow_stopping_for_update'' = d_Get d ''allow_stopping_for_update''"
    by (simp add: sameSettings_def)
  have five: "list_ex (d_HasChange d1) stopProperties = list_ex (d_HasChange d) stopProperties"
    by (simp add: list_ex_iff change)
  obtain r2 d2 ev2 where
    b: "bind (updateBeforeStop env inst) ?k (h @ [?G]) ?d = (r2, d2, ev2)"
    by (metis prod_cases3)
  with assms(3) have r2: "r2 = r" and evs: "evs = ?G # ev2"
    by (simp_all add: update_after_get [OF assms(1)])
  have failed: "r = Inl e \<and> evs = ?G # evs1" if "resB = Inl e" for e
    using b before that r2 evs
    by (simp add: bind_Inl [where m = "updateBeforeStop env inst"])
  have reached:
    "needUpdateInterfacesOnStoppedInstance plan = interfacesNeedStop env d inst
     \<and> (\<not> needsStop env d inst \<longrightarrow>
          (\<exists>e. evs = ?G # evs1
                 @ [Called (InstanceGet \<lparr>gir_InstanceId = rd_Id d1, gir_View = FULL\<rparr>) e]))
     \<and> (needsStop env d inst \<and> \<not> asBool (d_Get d ''allow_stopping_for_update'') \<longrightarrow>
          r = Inl (stoppingError stopProperties) \<and> evs = ?G # evs1)
     \<and> (needsStop env d inst \<and> asBool (d_Get d ''allow_stopping_for_update'') \<longrightarrow>
          (\<exists>evsS rest.
             evs = ?G # evs1 @ evsS @ rest
             \<and> (case stoppedSteps env d1 plan of
                  Some steps \<Rightarrow>
                    (\<exists>ok. ran steps evsS ok
                       \<and> (\<not> ok \<longrightarrow> rest = [] \<and> isl r)
                       \<and> (ok \<longrightarrow>
                            (\<exists>e. rest =
                               [Called (InstanceGet
                                  \<lparr>gir_InstanceId = rd_Id d1, gir_View = FULL\<rparr>) e])))
                | None \<Rightarrow>
                    isl r \<and> rest = []
                    \<and> (failedEvents (InstanceStop (rd_Id d1)) evsS
                       \<or> evsS = okEvents (InstanceStop (rd_Id d1))))))"
    if plan: "resB = Inr plan" for plan
  proof -
    from before plan have before': "updateBeforeStop env inst (h @ [?G]) ?d = (Inr plan, d1, evs1)"
      by simp
    from updateBeforeStop_flag [OF I before']
    have flag: "needUpdateInterfacesOnStoppedInstance plan = interfacesNeedStop env d inst" .
    then have needs: "(list_ex (d_HasChange d1) stopProperties
                        \<or> needUpdateInterfacesOnStoppedInstance plan) = needsStop env d inst"
      by (simp add: needsStop_def five)
    obtain rest2 where
      k: "?k plan ((h @ [?G]) @ evs1) d1 = (r, d', rest2)" and ev2: "ev2 = evs1 @ rest2"
      using b r2 assms(3) evs
      by (cases "?k plan ((h @ [?G]) @ evs1) d1")
         (simp add: bind_Inr [where m = "updateBeforeStop env inst", OF before']
            update_after_get [OF assms(1)])
    from k have "andThen (updateOnStoppedInstance env plan)
                   (andThen (d_Partial False)
                      (andThen (resourceYandexComputeInstanceRead env) (return ())))
                   ((h @ [?G]) @ evs1) d1 = (r, d', rest2)"
      by simp
    then obtain resS dS evsS rest where
      block: "updateOnStoppedInstance env plan ((h @ [?G]) @ evs1) d1 = (resS, dS, evsS)"
      and rest2: "rest2 = evsS @ rest"
      and bad: "\<And>e. resS = Inl e \<Longrightarrow> rest = [] \<and> r = Inl e"
      and good: "resS = Inr () \<Longrightarrow>
                   andThen (d_Partial False)
                      (andThen (resourceYandexComputeInstanceRead env) (return ()))
                      (((h @ [?G]) @ evs1) @ evsS) dS = (r, d', rest)"
      by (rule andThen_first) blast
    have all: "evs = ?G # evs1 @ evsS @ rest"
      using evs ev2 rest2 by simp
    have read: "\<exists>e. rest = [Called (InstanceGet \<lparr>gir_InstanceId = rd_Id dS, gir_View = FULL\<rparr>) e]"
      if "resS = Inr ()"
      using final_read [OF good [OF that]] .
    have bad': "rest = [] \<and> isl r" if "isl resS"
    proof -
      from that obtain e where "resS = Inl e" by (cases resS) auto
      from bad [OF this] show ?thesis by simp
    qed
    have 1: "\<exists>e. evs = ?G # evs1
                 @ [Called (InstanceGet \<lparr>gir_InstanceId = rd_Id d1, gir_View = FULL\<rparr>) e]"
      if "\<not> needsStop env d inst"
    proof -
      from that needs stopped_block_skipped [of d1 plan env "(h @ [?G]) @ evs1"] block
      have "resS = Inr ()" "dS = d1" "evsS = []" by simp_all
      with read all show ?thesis by auto
    qed
    have 2: "r = Inl (stoppingError stopProperties) \<and> evs = ?G # evs1"
      if "needsStop env d inst" "\<not> asBool (d_Get d ''allow_stopping_for_update'')"
    proof -
      from that needs allow
        updateOnStoppedInstance_refused [of d1 plan env "(h @ [?G]) @ evs1"] block
      have "resS = Inl (stoppingError stopProperties)" "evsS = []" by simp_all
      with bad all show ?thesis by simp
    qed
    have 3: "\<exists>evsS rest.
             evs = ?G # evs1 @ evsS @ rest
             \<and> (case stoppedSteps env d1 plan of
                  Some steps \<Rightarrow>
                    (\<exists>ok. ran steps evsS ok
                       \<and> (\<not> ok \<longrightarrow> rest = [] \<and> isl r)
                       \<and> (ok \<longrightarrow>
                            (\<exists>e. rest =
                               [Called (InstanceGet
                                  \<lparr>gir_InstanceId = rd_Id d1, gir_View = FULL\<rparr>) e])))
                | None \<Rightarrow>
                    isl r \<and> rest = []
                    \<and> (failedEvents (InstanceStop (rd_Id d1)) evsS
                       \<or> evsS = okEvents (InstanceStop (rd_Id d1))))"
      if n: "needsStop env d inst" and a: "asBool (d_Get d ''allow_stopping_for_update'')"
    proof -
      from a allow have a1: "asBool (d_Get d1 ''allow_stopping_for_update'')" by simp
      from n needs have n1: "list_ex (d_HasChange d1) stopProperties
                              \<or> needUpdateInterfacesOnStoppedInstance plan" by simp
      have "case stoppedSteps env d1 plan of
                  Some steps \<Rightarrow>
                    (\<exists>ok. ran steps evsS ok
                       \<and> (\<not> ok \<longrightarrow> rest = [] \<and> isl r)
                       \<and> (ok \<longrightarrow>
                            (\<exists>e. rest =
                               [Called (InstanceGet
                                  \<lparr>gir_InstanceId = rd_Id d1, gir_View = FULL\<rparr>) e])))
                | None \<Rightarrow>
                    isl r \<and> rest = []
                    \<and> (failedEvents (InstanceStop (rd_Id d1)) evsS
                       \<or> evsS = okEvents (InstanceStop (rd_Id d1)))"
      proof (cases "stoppedSteps env d1 plan")
        case None
        from stopped_block_fails [OF a1 n1 None block] bad' None show ?thesis by simp
      next
        case (Some steps)
        from stopped_block_runs [OF a1 n1 Some] block
        have dS: "dS = d1" and ran: "ran steps evsS (\<not> isl resS)"
          by (simp_all add: runs_def)
        have "\<exists>e. rest = [Called (InstanceGet \<lparr>gir_InstanceId = rd_Id d1, gir_View = FULL\<rparr>) e]"
          if "\<not> isl resS"
        proof -
          from that have "resS = Inr ()" by (cases resS) auto
          from read [OF this] dS show ?thesis by simp
        qed
        with ran bad' Some show ?thesis by auto
      qed
      with all show ?thesis by blast
    qed
    from flag 1 2 3 show ?thesis by blast
  qed
  from safe1 failed reached show ?thesis by blast
qed

theorem C1_stop_update_start_witness:
  "(\<exists>d'. resourceYandexComputeInstanceUpdate exampleEnv [] exampleData
           = (Inr (), d', exampleEvents))
   \<and> (\<exists>evsS e.
         exampleEvents =
           Called (InstanceGet \<lparr>gir_InstanceId = ''vm-1'', gir_View = BASIC\<rparr>) None
           # okEvents (InstanceUpdate (labelsRequest ''vm-1'')) @ evsS
           @ [Called (InstanceGet \<lparr>gir_InstanceId = ''vm-1'', gir_View = FULL\<rparr>) e]
         \<and> ran [InstanceStop ''vm-1'', InstanceUpdate (platformRequest ''vm-1''),
                 InstanceStart ''vm-1''] evsS True)
   \<and> (\<exists>d'. resourceYandexComputeInstanceUpdate exampleEnv [] nicAllowedData
           = (Inr (), d', subnetEvents))
   \<and> interfacesNeedStop exampleEnv nicAllowedData exampleInstance
   \<and> (\<exists>evsS e.
         subnetEvents =
           Called (InstanceGet \<lparr>gir_InstanceId = ''vm-1'', gir_View = BASIC\<rparr>) None
           # evsS
           @ [Called (InstanceGet \<lparr>gir_InstanceId = ''vm-1'', gir_View = FULL\<rparr>) e]
         \<and> ran [InstanceStop ''vm-1'', InstanceUpdateNetworkInterface subnetRequest,
                 InstanceStart ''vm-1''] evsS True)"
proof -
  let ?G = "Called (InstanceGet \<lparr>gir_InstanceId = ''vm-1'', gir_View = BASIC\<rparr>) None"
  have get: "api_instance exampleEnv [] \<lparr>gir_InstanceId = rd_Id exampleData, gir_View = BASIC\<rparr>
               = Inr exampleInstance"
    "api_instance exampleEnv [] \<lparr>gir_InstanceId = rd_Id nicAllowedData, gir_View = BASIC\<rparr>
               = Inr exampleInstance"
    by (simp_all add: exampleEnv_simps)
  from exampleData_run obtain d1 where
    run1: "resourceYandexComputeInstanceUpdate exampleEnv [] exampleData
             = (Inr (), d1, exampleEvents)" ..
  have before1: "updateBeforeStop exampleEnv exampleInstance
       ([] @ [Called (InstanceGet \<lparr>gir_InstanceId = rd_Id exampleData, gir_View = BASIC\<rparr>) None])
       (exampleData\<lparr>rd_partial := True\<rparr>)
     = (Inr noInterfaceChanges, exampleData\<lparr>rd_partial := True\<rparr>,
        okEvents (InstanceUpdate (labelsRequest ''vm-1'')))"
    using exampleData_before by (simp add: exampleData_simps)
  from C1_stop_update_start [OF get(1) before1 run1] exampleData_steps
  have "\<exists>evsS rest. exampleEvents = ?G # okEvents (InstanceUpdate (labelsRequest ''vm-1''))
                        @ evsS @ rest
          \<and> (\<exists>ok. ran [InstanceStop ''vm-1'', InstanceUpdate (platformRequest ''vm-1''),
                         InstanceStart ''vm-1''] evsS ok
                \<and> (\<not> ok \<longrightarrow> rest = [] \<and> False)
                \<and> (ok \<longrightarrow> (\<exists>e. rest =
                      [Called (InstanceGet \<lparr>gir_InstanceId = ''vm-1'', gir_View = FULL\<rparr>) e])))"
    by (simp add: exampleData_simps)
  then have 1: "\<exists>evsS e.
         exampleEvents = ?G # okEvents (InstanceUpdate (labelsRequest ''vm-1'')) @ evsS
           @ [Called (InstanceGet \<lparr>gir_InstanceId = ''vm-1'', gir_View = FULL\<rparr>) e]
         \<and> ran [InstanceStop ''vm-1'', InstanceUpdate (platformRequest ''vm-1''),
                 InstanceStart ''vm-1''] evsS True"
    by (metis (full_types))
  from nicAllowedData_run obtain d2 where
    run2: "resourceYandexComputeInstanceUpdate exampleEnv [] nicAllowedData
             = (Inr (), d2, subnetEvents)" ..
  have before2: "updateBeforeStop exampleEnv exampleInstance
       ([] @ [Called (InstanceGet \<lparr>gir_InstanceId = rd_Id nicAllowedData, gir_View = BASIC\<rparr>)
                None])
       (nicAllowedData\<lparr>rd_partial := True\<rparr>)
     = (Inr subnetPlan, nicAllowedData\<lparr>rd_partial := True\<rparr>, [])"
    using nicAllowedData_before by (simp add: nicAllowedData_simps)
  have flag: "interfacesNeedStop exampleEnv nicAllowedData exampleInstance"
    using nicAllowedData_steps(2,4) by (simp add: needsStop_def)
  from C1_stop_update_start [OF get(2) before2 run2] nicAllowedData_steps(1,2,3)
  have "\<exists>evsS rest. subnetEvents = ?G # evsS @ rest
          \<and> (\<exists>ok. ran [InstanceStop ''vm-1'', InstanceUpdateNetworkInterface subnetRequest,
                         InstanceStart ''vm-1''] evsS ok
                \<and> (\<not> ok \<longrightarrow> rest = [] \<and> False)
                \<and> (ok \<longrightarrow> (\<exists>e. rest =
                      [Called (InstanceGet \<lparr>gir_InstanceId = ''vm-1'', gir_View = FULL\<rparr>) e])))"
    by (simp add: nicAllowedData_simps)
  then have 2: "\<exists>evsS e.
         subnetEvents = ?G # evsS
           @ [Called (InstanceGet \<lparr>gir_InstanceId = ''vm-1'', gir_View = FULL\<rparr>) e]
         \<and> ran [InstanceStop ''vm-1'', InstanceUpdateNetworkInterface subnetRequest,
                 InstanceStart ''vm-1''] evsS True"
    by (metis (full_types))
  from run1 1 run2 flag 2 show ?thesis by blast
qed

text \<open>
  C1 as the specification words it does not hold: with \<open>platform_id\<close> changed and
  \<open>allow_stopping_for_update\<close> false, Update calls neither Stop nor Start and sends no
  request for \<open>platform_id\<close>; it returns an error.
\<close>

theorem C1_counterexample:
  "list_ex (d_HasChange refusedData) stopProperties
   \<and> (\<exists>d'. resourceYandexComputeInstanceUpdate exampleEnv [] refusedData
           = (Inl (stoppingError stopProperties), d', refusedEvents))
   \<and> list_all (\<lambda>ev. rpcOf ev \<noteq> InstanceStop ''vm-1'' \<and> rpcOf ev \<noteq> InstanceStart ''vm-1''
                   \<and> rpcOf ev \<noteq> InstanceUpdate (platformRequest ''vm-1'')) refusedEvents"
proof -
  have "labelsRequest ''vm-1'' \<noteq> platformRequest ''vm-1''"
    by (simp add: labelsRequest_def platformRequest_def emptyUpdateInstanceRequest_def)
  with refusedData_facts(2) refusedData_run show ?thesis
    by (simp add: refusedEvents_def)
qed

end
